theory Spec2Isabelle
  imports
    Complex_Main
    "HOL-Library.AList"
    "HOL-Library.Char_ord"
    "HOL-Library.List_Lexorder"
    "HOL-Library.Log_Nat"
    "HOL-Library.Multiset"
begin

section \<open>JavaScript values\<close>

text \<open>
  The server handles the upstream responses as untyped parsed JSON.  A value is one of the
  JSON forms, \<open>undefined\<close> (what reading a missing property gives), or \<open>NaN\<close> (which
  only arithmetic produces).  A number is carried as the exact rational value of its
  double; the infinities and the negative zero are left out.  An object is the list of
  its own properties; the first binding of a key is the one that is read.
\<close>

datatype js =
    JUndef
  | JNull
  | JBool bool
  | JNum rat
  | JNaN
  | JStr string
  | JArr "js list"
  | JObj "(string \<times> js) list"

text \<open>A thrown \<open>Error\<close> object: its \<open>name\<close> and its \<open>message\<close>.\<close>

datatype exn = Exn (ename: string) (emsg: string)

type_synonym 'a result = "exn + 'a"

definition bindE :: "'a result \<Rightarrow> ('a \<Rightarrow> 'b result) \<Rightarrow> 'b result" where
  "bindE m f = (case m of Inl e \<Rightarrow> Inl e | Inr x \<Rightarrow> f x)"

fun mapE :: "('a \<Rightarrow> 'b result) \<Rightarrow> 'a list \<Rightarrow> 'b list result" where
  "mapE f [] = Inr []"
| "mapE f (x # xs) =
     (case f x of
        Inl e \<Rightarrow> Inl e
      | Inr y \<Rightarrow> (case mapE f xs of Inl e \<Rightarrow> Inl e | Inr ys \<Rightarrow> Inr (y # ys)))"

fun filterE :: "('a \<Rightarrow> bool result) \<Rightarrow> 'a list \<Rightarrow> 'a list result" where
  "filterE p [] = Inr []"
| "filterE p (x # xs) =
     (case p x of
        Inl e \<Rightarrow> Inl e
      | Inr b \<Rightarrow> (case filterE p xs of
                   Inl e \<Rightarrow> Inl e
                 | Inr ys \<Rightarrow> Inr (if b then x # ys else ys)))"

text \<open>Truthiness, as \<open>if (v)\<close>, \<open>v || d\<close> and \<open>v ? a : b\<close> test it.\<close>

fun truthy :: "js \<Rightarrow> bool" where
  "truthy JUndef = False"
| "truthy JNull = False"
| "truthy (JBool b) = b"
| "truthy (JNum x) = (x \<noteq> 0)"
| "truthy JNaN = False"
| "truthy (JStr s) = (s \<noteq> [])"
| "truthy (JArr xs) = True"
| "truthy (JObj kvs) = True"

definition js_or :: "js \<Rightarrow> js \<Rightarrow> js" where
  "js_or a b = (if truthy a then a else b)"

subsection \<open>Decimal numerals and string conversion\<close>

definition digit_char :: "nat \<Rightarrow> char" where
  "digit_char d = ''0123456789'' ! d"

function show_nat :: "nat \<Rightarrow> string" where
  "show_nat n = (if n < 10 then [digit_char n] else show_nat (n div 10) @ [digit_char (n mod 10)])"
  by pat_completeness auto
termination
  by (relation "measure id") auto

declare show_nat.simps [simp del]

fun join :: "string \<Rightarrow> string list \<Rightarrow> string" where
  "join sep [] = []"
| "join sep [x] = x"
| "join sep (x # y # ys) = x @ sep @ join sep (y # ys)"

text \<open>
  What the language runtime and the validation library compute is taken as parameters:
  how a number prints (\<open>Number::toString\<close>), how a string reads as a number
  (\<open>None\<close> for \<open>NaN\<close>), the product and the sum of two numbers, which are the
  exact results rounded to a double, and the URL test of the validation library.
\<close>

record runtime =
  num_to_string :: "rat \<Rightarrow> string"
  string_to_num :: "string \<Rightarrow> rat option"
  num_mul :: "rat \<Rightarrow> rat \<Rightarrow> rat"
  num_add :: "rat \<Rightarrow> rat \<Rightarrow> rat"
  valid_url :: "string \<Rightarrow> bool"

text \<open>\<open>String(v)\<close>, as template literals and property keys use it.\<close>

fun to_str :: "runtime \<Rightarrow> js \<Rightarrow> string" where
  "to_str rt JUndef = ''undefined''"
| "to_str rt JNull = ''null''"
| "to_str rt (JBool b) = (if b then ''true'' else ''false'')"
| "to_str rt (JNum x) = num_to_string rt x"
| "to_str rt JNaN = ''NaN''"
| "to_str rt (JStr s) = s"
| "to_str rt (JArr xs) =
     join '','' (map (\<lambda>v. if v = JUndef \<or> v = JNull then [] else to_str rt v) xs)"
| "to_str rt (JObj kvs) = ''[object Object]''"

text \<open>\<open>Number(v)\<close>; \<open>None\<close> stands for \<open>NaN\<close>.\<close>

fun to_num :: "runtime \<Rightarrow> js \<Rightarrow> rat option" where
  "to_num rt JUndef = None"
| "to_num rt JNull = Some 0"
| "to_num rt (JBool b) = Some (if b then 1 else 0)"
| "to_num rt (JNum x) = Some x"
| "to_num rt JNaN = None"
| "to_num rt (JStr s) = string_to_num rt s"
| "to_num rt (JArr xs) = string_to_num rt (to_str rt (JArr xs))"
| "to_num rt (JObj kvs) = string_to_num rt (to_str rt (JObj kvs))"

text \<open>
  \<open>a * b\<close>, \<open>a < n\<close> for a number \<open>n\<close>, \<open>a + b\<close> and \<open>Math.round\<close>.  The
  comparison is exact, and so is \<open>Math.round\<close>: the integer nearest to its argument,
  the greater one of two equally near.
\<close>

definition js_mul :: "runtime \<Rightarrow> js \<Rightarrow> js \<Rightarrow> js" where
  "js_mul rt a b =
     (case (to_num rt a, to_num rt b) of
        (Some x, Some y) \<Rightarrow> JNum (num_mul rt x y)
      | _ \<Rightarrow> JNaN)"

definition js_lt_num :: "runtime \<Rightarrow> js \<Rightarrow> rat \<Rightarrow> bool" where
  "js_lt_num rt a n = (case to_num rt a of None \<Rightarrow> False | Some x \<Rightarrow> x < n)"

fun stringy :: "js \<Rightarrow> bool" where
  "stringy (JStr s) = True"
| "stringy (JArr xs) = True"
| "stringy (JObj kvs) = True"
| "stringy v = False"

definition js_add :: "runtime \<Rightarrow> js \<Rightarrow> js \<Rightarrow> js" where
  "js_add rt a b =
     (if stringy a \<or> stringy b then JStr (to_str rt a @ to_str rt b)
      else (case (to_num rt a, to_num rt b) of
              (Some x, Some y) \<Rightarrow> JNum (num_add rt x y)
            | _ \<Rightarrow> JNaN))"

definition math_round :: "runtime \<Rightarrow> js \<Rightarrow> js" where
  "math_round rt v = (case to_num rt v of None \<Rightarrow> JNaN | Some x \<Rightarrow> JNum (of_int \<lfloor>x + 1 / 2\<rfloor>))"

subsection \<open>Property access\<close>

text \<open>
  \<open>jprop v k\<close> is \<open>v[k]\<close> for a value that is neither \<open>null\<close> nor \<open>undefined\<close>:
  an own property of an object, an element or the length of an array or string, and
  \<open>undefined\<close> otherwise.  Inherited properties are left out: none of the names the
  code reads is one.
\<close>

definition index_of_key :: "nat \<Rightarrow> string \<Rightarrow> nat option" where
  "index_of_key n k = List.find (\<lambda>i. show_nat i = k) [0..<n]"

fun jprop :: "js \<Rightarrow> string \<Rightarrow> js" where
  "jprop (JObj kvs) k = (case map_of kvs k of None \<Rightarrow> JUndef | Some v \<Rightarrow> v)"
| "jprop (JArr xs) k =
     (if k = ''length'' then JNum (of_nat (length xs))
      else (case index_of_key (length xs) k of None \<Rightarrow> JUndef | Some i \<Rightarrow> xs ! i))"
| "jprop (JStr s) k =
     (if k = ''length'' then JNum (of_nat (length s))
      else (case index_of_key (length s) k of None \<Rightarrow> JUndef | Some i \<Rightarrow> JStr [s ! i]))"
| "jprop v k = JUndef"

definition type_error :: "string \<Rightarrow> exn" where
  "type_error what = Exn ''TypeError'' what"

text \<open>\<open>v.k\<close>: raises on \<open>null\<close> and \<open>undefined\<close>.\<close>

definition cannot_read :: "string \<Rightarrow> string \<Rightarrow> exn" where
  "cannot_read what k =
     type_error (''Cannot read properties of '' @ what @ '' (reading '' @ [CHR 0x27] @ k @ [CHR 0x27] @ '')'')"

definition get :: "js \<Rightarrow> string \<Rightarrow> js result" where
  "get v k =
     (if v = JUndef then Inl (cannot_read ''undefined'' k)
      else if v = JNull then Inl (cannot_read ''null'' k)
      else Inr (jprop v k))"

text \<open>\<open>v?.k\<close>: \<open>undefined\<close> on \<open>null\<close> and \<open>undefined\<close>.\<close>

definition oget :: "js \<Rightarrow> string \<Rightarrow> js" where
  "oget v k = (if v = JUndef \<or> v = JNull then JUndef else jprop v k)"

text \<open>
  \<open>v.map(f)\<close>, \<open>v.filter(p)\<close> for a value \<open>v\<close> that was read from the response: only
  an array has these methods; calling the missing method of anything else raises.
\<close>

definition not_a_function :: "string \<Rightarrow> exn" where
  "not_a_function m = type_error (m @ '' is not a function'')"

fun js_map :: "js \<Rightarrow> (js \<Rightarrow> js result) \<Rightarrow> js result" where
  "js_map (JArr xs) f = (case mapE f xs of Inl e \<Rightarrow> Inl e | Inr ys \<Rightarrow> Inr (JArr ys))"
| "js_map JUndef f = Inl (cannot_read ''undefined'' ''map'')"
| "js_map JNull f = Inl (cannot_read ''null'' ''map'')"
| "js_map v f = Inl (not_a_function ''map'')"

fun js_filter :: "js \<Rightarrow> (js \<Rightarrow> bool result) \<Rightarrow> js result" where
  "js_filter (JArr xs) p = (case filterE p xs of Inl e \<Rightarrow> Inl e | Inr ys \<Rightarrow> Inr (JArr ys))"
| "js_filter JUndef p = Inl (cannot_read ''undefined'' ''filter'')"
| "js_filter JNull p = Inl (cannot_read ''null'' ''filter'')"
| "js_filter v p = Inl (not_a_function ''filter'')"

fun js_slice5 :: "js \<Rightarrow> js" where
  "js_slice5 (JArr xs) = JArr (take 5 xs)"
| "js_slice5 v = v"

section \<open>The performance summary\<close>

text \<open>
  \<open>createPerformanceSummary\<close> of the server.  The opportunity list is
  \<open>performance?.auditRefs?.filter(...)?.map(...)?.slice(0, 5) || []\<close>: a missing
  \<open>auditRefs\<close> ends the chain, anything else must be an array.  In the filter,
  \<open>audits?.[ref.id]\<close> does not read \<open>ref.id\<close> when there are no audits.
\<close>

definition opportunity_entry :: "runtime \<Rightarrow> js \<Rightarrow> js \<Rightarrow> js result" where
  "opportunity_entry rt audits ref =
     bindE (get ref ''id'') (\<lambda>rid.
       let a = oget audits (to_str rt rid) in
       Inr (JObj [(''id'', rid),
                  (''title'', oget a ''title''),
                  (''description'', oget a ''description''),
                  (''score'', oget a ''score''),
                  (''displayValue'', oget a ''displayValue'')]))"

definition is_opportunity :: "runtime \<Rightarrow> js \<Rightarrow> js \<Rightarrow> bool result" where
  "is_opportunity rt audits ref =
     (if audits = JUndef \<or> audits = JNull then Inr False
      else bindE (get ref ''id'') (\<lambda>rid.
             Inr (oget (oget (jprop audits (to_str rt rid)) ''details'') ''type'' = JStr ''opportunity'')))"

definition opportunities :: "runtime \<Rightarrow> js \<Rightarrow> js \<Rightarrow> js result" where
  "opportunities rt performance audits =
     (let refs = oget performance ''auditRefs'' in
      if refs = JUndef \<or> refs = JNull then Inr (JArr [])
      else bindE (js_filter refs (is_opportunity rt audits)) (\<lambda>kept.
           bindE (js_map kept (opportunity_entry rt audits)) (\<lambda>entries.
           Inr (js_or (js_slice5 entries) (JArr [])))))"

definition summary_score :: "runtime \<Rightarrow> js \<Rightarrow> js" where
  "summary_score rt performance =
     (if truthy (oget performance ''score'')
      then math_round rt (js_mul rt (jprop performance ''score'') (JNum 100))
      else JNull)"

definition performance_of :: "js \<Rightarrow> js" where
  "performance_of lighthouse = oget (oget lighthouse ''categories'') ''performance''"

definition createPerformanceSummary :: "runtime \<Rightarrow> js \<Rightarrow> string \<Rightarrow> string \<Rightarrow> js result" where
  "createPerformanceSummary rt data url strategy =
     bindE (get data ''lighthouseResult'') (\<lambda>lighthouse.
       let performance = performance_of lighthouse;
           audits = oget lighthouse ''audits''
       in bindE (get data ''analysisUTCTimestamp'') (\<lambda>timestamp.
          bindE (opportunities rt performance audits) (\<lambda>opps.
          Inr (JObj
            [(''url'', JStr url),
             (''strategy'', JStr strategy),
             (''timestamp'', timestamp),
             (''performance'', JObj
                [(''score'', summary_score rt performance),
                 (''metrics'', JObj
                    [(''firstContentfulPaint'', oget (oget audits ''first-contentful-paint'') ''displayValue''),
                     (''largestContentfulPaint'', oget (oget audits ''largest-contentful-paint'') ''displayValue''),
                     (''cumulativeLayoutShift'', oget (oget audits ''cumulative-layout-shift'') ''displayValue''),
                     (''speedIndex'', oget (oget audits ''speed-index'') ''displayValue''),
                     (''totalBlockingTime'', oget (oget audits ''total-blocking-time'') ''displayValue''),
                     (''firstInputDelay'', oget (oget audits ''max-potential-fid'') ''displayValue'')])]),
             (''opportunities'', opps)]))))"


section \<open>The response parser\<close>

text \<open>
  Every extraction starts with \<open>response.lighthouseResult?.audits || {}\<close>: reading
  \<open>lighthouseResult\<close> raises on a \<open>null\<close> response, the rest of the chain
  does not.
\<close>

definition audits_of :: "js \<Rightarrow> js result" where
  "audits_of response =
     bindE (get response ''lighthouseResult'') (\<lambda>lr. Inr (js_or (oget lr ''audits'') (JObj [])))"

definition categories_of :: "js \<Rightarrow> js result" where
  "categories_of response =
     bindE (get response ''lighthouseResult'') (\<lambda>lr. Inr (js_or (oget lr ''categories'') (JObj [])))"

definition items_of :: "js \<Rightarrow> js" where
  "items_of audit = oget (oget audit ''details'') ''items''"

text \<open>
  The pattern \<open>if (audit?.details?.items) { part = audit.details.items.map(f) }\<close>;
  \<open>dflt\<close> is the value the part was initialised with.
\<close>

definition map_items :: "js \<Rightarrow> (js \<Rightarrow> js result) \<Rightarrow> js \<Rightarrow> js result" where
  "map_items audit f dflt =
     (if truthy (items_of audit) then js_map (items_of audit) f else Inr dflt)"

text \<open>
  An object literal built from one \<open>item\<close>: the first property read raises when the
  item is \<open>null\<close>; once it has succeeded the other reads cannot raise.
\<close>

definition from_item :: "js \<Rightarrow> string \<Rightarrow> (js \<Rightarrow> js) \<Rightarrow> js result" where
  "from_item item first build = bindE (get item first) (\<lambda>_. Inr (build item))"

definition normalizeNode :: "js \<Rightarrow> js result" where
  "normalizeNode node =
     from_item node ''lhId'' (\<lambda>n. JObj
       [(''type'', JStr ''node''),
        (''lhId'', jprop n ''lhId''),
        (''path'', jprop n ''path''),
        (''selector'', js_or (jprop n ''selector'') (JStr [])),
        (''boundingRect'', jprop n ''boundingRect''),
        (''snippet'', js_or (jprop n ''snippet'') (JStr [])),
        (''nodeLabel'', jprop n ''nodeLabel''),
        (''explanation'', jprop n ''explanation'')])"

subsection \<open>extractVisualData\<close>

definition final_screenshot :: "js \<Rightarrow> js" where
  "final_screenshot audit =
     (if truthy (oget (oget audit ''details'') ''data'')
      then (let details = jprop audit ''details'' in
            JObj [(''data'', jprop details ''data''),
                  (''width'', js_or (jprop details ''width'') (JNum 360)),
                  (''height'', js_or (jprop details ''height'') (JNum 640))])
      else JNull)"

definition filmstrip_frame :: "js \<Rightarrow> js result" where
  "filmstrip_frame item =
     from_item item ''timing'' (\<lambda>i. JObj
       [(''timing'', js_or (jprop i ''timing'') (JNum 0)),
        (''timestamp'', js_or (jprop i ''timestamp'') (JNum 0)),
        (''data'', js_or (jprop i ''data'') (JStr []))])"

definition full_page_screenshot :: "js \<Rightarrow> js" where
  "full_page_screenshot audit =
     (if truthy (oget (oget audit ''details'') ''screenshot'')
      then (let details = jprop audit ''details''; shot = jprop details ''screenshot'' in
            JObj [(''screenshot'', JObj [(''data'', jprop shot ''data''),
                                         (''width'', jprop shot ''width''),
                                         (''height'', jprop shot ''height'')]),
                  (''nodes'', js_or (jprop details ''nodes'') (JObj []))])
      else JNull)"

definition visual_from :: "js \<Rightarrow> js result" where
  "visual_from audits =
     bindE (map_items (jprop audits ''screenshot-thumbnails'') filmstrip_frame (JArr [])) (\<lambda>filmstrip.
       Inr (JObj [(''finalScreenshot'', final_screenshot (jprop audits ''final-screenshot'')),
                  (''filmstrip'', filmstrip),
                  (''fullPageScreenshot'', full_page_screenshot (jprop audits ''full-page-screenshot''))]))"

definition extractVisualData :: "js \<Rightarrow> js result" where
  "extractVisualData response = bindE (audits_of response) visual_from"

subsection \<open>extractElementData\<close>

text \<open>\<open>audit?.details?.items?.[0]?.node\<close>, then \<open>normalizeNode\<close> of it when truthy.\<close>

definition first_item_node :: "js \<Rightarrow> js" where
  "first_item_node audit = oget (oget (items_of audit) ''0'') ''node''"

definition first_node_element :: "js \<Rightarrow> js result" where
  "first_node_element audit =
     (if truthy (first_item_node audit) then normalizeNode (first_item_node audit) else Inr JNull)"

definition has_node :: "js \<Rightarrow> bool result" where
  "has_node item = bindE (get item ''node'') (\<lambda>n. Inr (truthy n))"

definition cls_element :: "js \<Rightarrow> js result" where
  "cls_element item =
     bindE (get item ''node'') (\<lambda>n.
     bindE (normalizeNode n) (\<lambda>node.
       Inr (JObj [(''node'', node), (''score'', js_or (jprop item ''score'') (JNum 0))])))"

definition cls_elements :: "js \<Rightarrow> js result" where
  "cls_elements audit =
     (if truthy (items_of audit)
      then bindE (js_filter (items_of audit) has_node) (\<lambda>kept. js_map kept cls_element)
      else Inr (JArr []))"

definition element_from :: "js \<Rightarrow> js result" where
  "element_from audits =
     bindE (first_node_element (jprop audits ''largest-contentful-paint-element'')) (\<lambda>lcp.
     bindE (cls_elements (jprop audits ''layout-shift-elements'')) (\<lambda>cls.
     bindE (first_node_element (jprop audits ''lcp-lazy-loaded'')) (\<lambda>lazy.
       Inr (JObj [(''lcpElement'', lcp), (''clsElements'', cls), (''lazyLoadedLcp'', lazy)]))))"

definition extractElementData :: "js \<Rightarrow> js result" where
  "extractElementData response = bindE (audits_of response) element_from"

subsection \<open>extractNetworkData\<close>

definition network_request :: "js \<Rightarrow> js result" where
  "network_request item =
     from_item item ''url'' (\<lambda>i. JObj
       [(''url'', js_or (jprop i ''url'') (JStr [])),
        (''protocol'', jprop i ''protocol''),
        (''startTime'', js_or (jprop i ''startTime'') (JNum 0)),
        (''endTime'', js_or (jprop i ''endTime'') (JNum 0)),
        (''finished'', JBool (jprop i ''finished'' \<noteq> JBool False)),
        (''transferSize'', js_or (jprop i ''transferSize'') (JNum 0)),
        (''resourceSize'', js_or (jprop i ''resourceSize'') (JNum 0)),
        (''statusCode'', js_or (jprop i ''statusCode'') (JNum 0)),
        (''mimeType'', js_or (jprop i ''mimeType'') (JStr [])),
        (''resourceType'', js_or (jprop i ''resourceType'') (JStr [])),
        (''priority'', jprop i ''priority''),
        (''experimentalFromMainFrame'', jprop i ''experimentalFromMainFrame'')])"

definition resource_summary_item :: "js \<Rightarrow> js result" where
  "resource_summary_item item =
     from_item item ''resourceType'' (\<lambda>i. JObj
       [(''resourceType'', js_or (jprop i ''resourceType'') (JStr [])),
        (''count'', js_or (jprop i ''requestCount'') (JNum 0)),
        (''size'', js_or (jprop i ''transferSize'') (JNum 0))])"

definition total_byte_weight :: "js \<Rightarrow> js" where
  "total_byte_weight audit =
     (if truthy (oget audit ''numericValue'') then jprop audit ''numericValue'' else JNum 0)"

definition numeric_or_null :: "js \<Rightarrow> js" where
  "numeric_or_null audit =
     (if oget audit ''numericValue'' \<noteq> JUndef then jprop audit ''numericValue'' else JNull)"

definition network_from :: "js \<Rightarrow> js result" where
  "network_from audits =
     bindE (map_items (jprop audits ''network-requests'') network_request (JArr [])) (\<lambda>requests.
     bindE (map_items (jprop audits ''resource-summary'') resource_summary_item (JArr [])) (\<lambda>summary.
       Inr (JObj [(''requests'', requests),
                  (''resourceSummary'', summary),
                  (''totalByteWeight'', total_byte_weight (jprop audits ''total-byte-weight'')),
                  (''requestCount'',
                     (if truthy (items_of (jprop audits ''network-requests''))
                      then jprop requests ''length'' else JNum 0)),
                  (''rtt'', numeric_or_null (jprop audits ''network-rtt'')),
                  (''serverLatency'', numeric_or_null (jprop audits ''network-server-latency''))])))"

definition extractNetworkData :: "js \<Rightarrow> js result" where
  "extractNetworkData response = bindE (audits_of response) network_from"


subsection \<open>extractJavaScriptData\<close>

definition bootup_item :: "js \<Rightarrow> js result" where
  "bootup_item item =
     from_item item ''url'' (\<lambda>i. JObj
       [(''url'', js_or (jprop i ''url'') (JStr [])),
        (''total'', js_or (jprop i ''total'') (JNum 0)),
        (''scripting'', js_or (jprop i ''scripting'') (JNum 0)),
        (''scriptParseCompile'', js_or (jprop i ''scriptParseCompile'') (JNum 0))])"

definition main_thread_item :: "js \<Rightarrow> js result" where
  "main_thread_item item =
     from_item item ''group'' (\<lambda>i. JObj
       [(''group'', js_or (jprop i ''group'') (JStr [])),
        (''groupLabel'', js_or (jprop i ''groupLabel'') (JStr [])),
        (''duration'', js_or (jprop i ''duration'') (JNum 0))])"

definition unused_item :: "js \<Rightarrow> js result" where
  "unused_item item =
     from_item item ''url'' (\<lambda>i. JObj
       [(''url'', js_or (jprop i ''url'') (JStr [])),
        (''totalBytes'', js_or (jprop i ''totalBytes'') (JNum 0)),
        (''wastedBytes'', js_or (jprop i ''wastedBytes'') (JNum 0)),
        (''wastedPercent'', js_or (jprop i ''wastedPercent'') (JNum 0))])"

definition duplicated_item :: "js \<Rightarrow> js result" where
  "duplicated_item item =
     from_item item ''source'' (\<lambda>i. JObj
       [(''source'', js_or (js_or (jprop i ''source'') (jprop i ''url'')) (JStr [])),
        (''totalBytes'', js_or (jprop i ''totalBytes'') (JNum 0)),
        (''wastedBytes'', js_or (jprop i ''wastedBytes'') (JNum 0))])"

definition signal_of :: "js \<Rightarrow> js result" where
  "signal_of subItem = bindE (get subItem ''signal'') (\<lambda>s. Inr (js_or s (JStr [])))"

text \<open>\<open>item.subItems?.items?.map(...) || []\<close>\<close>

definition signals_of :: "js \<Rightarrow> js result" where
  "signals_of item =
     (let subs = oget (jprop item ''subItems'') ''items'' in
      if subs = JUndef \<or> subs = JNull then Inr (JArr [])
      else bindE (js_map subs signal_of) (\<lambda>sigs. Inr (js_or sigs (JArr []))))"

definition legacy_item :: "js \<Rightarrow> js result" where
  "legacy_item item =
     bindE (get item ''url'') (\<lambda>url.
     bindE (signals_of item) (\<lambda>sigs.
       Inr (JObj [(''url'', js_or url (JStr [])),
                  (''wastedBytes'', js_or (jprop item ''wastedBytes'') (JNum 0)),
                  (''signals'', sigs)])))"

definition javascript_from :: "js \<Rightarrow> js result" where
  "javascript_from audits =
     bindE (map_items (jprop audits ''bootup-time'') bootup_item (JArr [])) (\<lambda>bootup.
     bindE (map_items (jprop audits ''mainthread-work-breakdown'') main_thread_item (JArr [])) (\<lambda>mainThread.
     bindE (map_items (jprop audits ''unused-javascript'') unused_item (JArr [])) (\<lambda>unused.
     bindE (map_items (jprop audits ''duplicated-javascript'') duplicated_item (JArr [])) (\<lambda>duplicated.
     bindE (map_items (jprop audits ''legacy-javascript'') legacy_item (JArr [])) (\<lambda>legacy.
       Inr (JObj [(''bootupTime'', bootup),
                  (''mainThreadWork'', mainThread),
                  (''unusedJavaScript'', unused),
                  (''duplicatedJavaScript'', duplicated),
                  (''legacyJavaScript'', legacy)]))))))"

definition extractJavaScriptData :: "js \<Rightarrow> js result" where
  "extractJavaScriptData response = bindE (audits_of response) javascript_from"

subsection \<open>extractImageOptimizationData\<close>

text \<open>\<open>item.node ? this.normalizeNode(item.node) : undefined\<close>\<close>

definition optional_node :: "js \<Rightarrow> js result" where
  "optional_node item =
     (if truthy (jprop item ''node'') then normalizeNode (jprop item ''node'') else Inr JUndef)"

definition image_with_node :: "js \<Rightarrow> js result" where
  "image_with_node item =
     bindE (get item ''url'') (\<lambda>url.
     bindE (optional_node item) (\<lambda>node.
       Inr (JObj [(''url'', js_or url (JStr [])),
                  (''totalBytes'', js_or (jprop item ''totalBytes'') (JNum 0)),
                  (''wastedBytes'', js_or (jprop item ''wastedBytes'') (JNum 0)),
                  (''wastedPercent'', js_or (jprop item ''wastedPercent'') (JNum 0)),
                  (''node'', node)])))"

definition unoptimized_image :: "js \<Rightarrow> js result" where
  "unoptimized_image item =
     from_item item ''url'' (\<lambda>i. JObj
       [(''url'', js_or (jprop i ''url'') (JStr [])),
        (''totalBytes'', js_or (jprop i ''totalBytes'') (JNum 0)),
        (''wastedBytes'', js_or (jprop i ''wastedBytes'') (JNum 0)),
        (''wastedPercent'', js_or (jprop i ''wastedPercent'') (JNum 0)),
        (''isCrossOrigin'', jprop i ''isCrossOrigin''),
        (''wastedWebpBytes'', jprop i ''wastedWebpBytes'')])"

definition modern_format_image :: "js \<Rightarrow> js result" where
  "modern_format_image item =
     from_item item ''url'' (\<lambda>i. JObj
       [(''url'', js_or (jprop i ''url'') (JStr [])),
        (''totalBytes'', js_or (jprop i ''totalBytes'') (JNum 0)),
        (''wastedBytes'', js_or (jprop i ''wastedBytes'') (JNum 0)),
        (''wastedPercent'', js_or (jprop i ''wastedPercent'') (JNum 0)),
        (''wastedWebpBytes'', jprop i ''wastedWebpBytes'')])"

definition image_from :: "js \<Rightarrow> js result" where
  "image_from audits =
     bindE (map_items (jprop audits ''uses-responsive-images'') image_with_node (JArr [])) (\<lambda>responsive.
     bindE (map_items (jprop audits ''offscreen-images'') image_with_node (JArr [])) (\<lambda>offscreen.
     bindE (map_items (jprop audits ''uses-optimized-images'') unoptimized_image (JArr [])) (\<lambda>unoptimized.
     bindE (map_items (jprop audits ''modern-image-formats'') modern_format_image (JArr [])) (\<lambda>modern.
       Inr (JObj [(''responsiveImages'', responsive),
                  (''offscreenImages'', offscreen),
                  (''unoptimizedImages'', unoptimized),
                  (''modernFormats'', modern)])))))"

definition extractImageOptimizationData :: "js \<Rightarrow> js result" where
  "extractImageOptimizationData response = bindE (audits_of response) image_from"

subsection \<open>extractRenderBlockingData\<close>

definition render_blocking_item :: "js \<Rightarrow> js result" where
  "render_blocking_item item =
     from_item item ''url'' (\<lambda>i. JObj
       [(''url'', js_or (jprop i ''url'') (JStr [])),
        (''totalBytes'', js_or (jprop i ''totalBytes'') (JNum 0)),
        (''wastedMs'', js_or (jprop i ''wastedMs'') (JNum 0))])"

definition render_blocking_from :: "js \<Rightarrow> js result" where
  "render_blocking_from audits =
     (let rb = jprop audits ''render-blocking-resources'';
          chains = jprop audits ''critical-request-chains''
      in bindE (map_items rb render_blocking_item (JArr [])) (\<lambda>resources.
           Inr (JObj [(''resources'', resources),
                      (''totalWastedMs'',
                         (if truthy (items_of rb)
                          then js_or (jprop (jprop rb ''details'') ''overallSavingsMs'') (JNum 0)
                          else JNum 0)),
                      (''criticalChains'',
                         (if truthy (oget chains ''details'') then jprop chains ''details'' else JNull))])))"

definition extractRenderBlockingData :: "js \<Rightarrow> js result" where
  "extractRenderBlockingData response = bindE (audits_of response) render_blocking_from"

subsection \<open>extractThirdPartyData\<close>

definition third_party_item :: "js \<Rightarrow> js result" where
  "third_party_item item =
     from_item item ''entity'' (\<lambda>i. JObj
       [(''entity'', js_or (jprop i ''entity'') (JStr [])),
        (''transferSize'', js_or (jprop i ''transferSize'') (JNum 0)),
        (''blockingTime'', js_or (jprop i ''blockingTime'') (JNum 0)),
        (''mainThreadTime'', js_or (jprop i ''mainThreadTime'') (JNum 0)),
        (''subItems'', jprop i ''subItems'')])"

definition facade_item :: "js \<Rightarrow> js result" where
  "facade_item item =
     from_item item ''product'' (\<lambda>i. JObj
       [(''product'', js_or (jprop i ''product'') (JStr [])),
        (''transferSize'', js_or (jprop i ''transferSize'') (JNum 0)),
        (''blockingTime'', js_or (jprop i ''blockingTime'') (JNum 0))])"

text \<open>\<open>summary.reduce((sum, item) => sum + item[field], 0)\<close> over the entries just built.\<close>

fun entries_of :: "js \<Rightarrow> js list" where
  "entries_of (JArr xs) = xs"
| "entries_of v = []"

definition sum_field :: "runtime \<Rightarrow> string \<Rightarrow> js \<Rightarrow> js" where
  "sum_field rt field summary =
     foldl (\<lambda>sum item. js_add rt sum (jprop item field)) (JNum 0) (entries_of summary)"

definition third_party_from :: "runtime \<Rightarrow> js \<Rightarrow> js result" where
  "third_party_from rt audits =
     (let tps = jprop audits ''third-party-summary'' in
      bindE (map_items tps third_party_item (JArr [])) (\<lambda>summary.
      bindE (map_items (jprop audits ''third-party-facades'') facade_item (JArr [])) (\<lambda>facades.
        Inr (JObj [(''summary'', summary),
                   (''totalBlockingTime'',
                      (if truthy (items_of tps) then sum_field rt ''blockingTime'' summary else JNum 0)),
                   (''totalTransferSize'',
                      (if truthy (items_of tps) then sum_field rt ''transferSize'' summary else JNum 0)),
                   (''facades'', facades)]))))"

definition extractThirdPartyData :: "runtime \<Rightarrow> js \<Rightarrow> js result" where
  "extractThirdPartyData rt response = bindE (audits_of response) (third_party_from rt)"

subsection \<open>extractOtherCategories\<close>

text \<open>
  The filter callback \<open>audit && audit.score !== null && audit.score < 1\<close> and the map
  callback of the key audits; \<open>audits[ref.id]\<close> reads the property named by the
  string form of the id.
\<close>

definition audit_fails :: "runtime \<Rightarrow> js \<Rightarrow> bool" where
  "audit_fails rt audit =
     (truthy audit \<and> jprop audit ''score'' \<noteq> JNull \<and> js_lt_num rt (jprop audit ''score'') 1)"

definition is_failing_ref :: "runtime \<Rightarrow> js \<Rightarrow> js \<Rightarrow> bool result" where
  "is_failing_ref rt audits ref =
     bindE (get ref ''id'') (\<lambda>rid. Inr (audit_fails rt (jprop audits (to_str rt rid))))"

definition key_audit :: "runtime \<Rightarrow> js \<Rightarrow> js \<Rightarrow> js result" where
  "key_audit rt audits ref =
     bindE (get ref ''id'') (\<lambda>rid.
     bindE (get (jprop audits (to_str rt rid)) ''title'') (\<lambda>title.
       let audit = jprop audits (to_str rt rid) in
       Inr (JObj [(''id'', rid),
                  (''title'', js_or title rid),
                  (''score'', jprop audit ''score''),
                  (''description'', jprop audit ''description'')])))"

definition key_audits :: "runtime \<Rightarrow> js \<Rightarrow> js \<Rightarrow> js result" where
  "key_audits rt audits category =
     (if truthy (oget category ''auditRefs'')
      then bindE (js_filter (jprop category ''auditRefs'') (is_failing_ref rt audits)) (\<lambda>failing.
           bindE (js_map failing (key_audit rt audits)) (\<lambda>entries. Inr (js_slice5 entries)))
      else Inr (JArr []))"

definition category_score :: "js \<Rightarrow> js" where
  "category_score category = js_or (oget category ''score'') JNull"

definition category_info :: "js \<Rightarrow> js \<Rightarrow> js" where
  "category_info category keyAudits =
     JObj [(''score'', category_score category), (''keyAudits'', keyAudits)]"

definition other_categories_from :: "runtime \<Rightarrow> js \<Rightarrow> js \<Rightarrow> js result" where
  "other_categories_from rt categories audits =
     (let accessibility = jprop categories ''accessibility'';
          seo = jprop categories ''seo'';
          bestPractices = jprop categories ''best-practices'';
          pwa = jprop categories ''pwa''
      in bindE (key_audits rt audits accessibility) (\<lambda>ka.
         bindE (key_audits rt audits seo) (\<lambda>ks.
         bindE (key_audits rt audits bestPractices) (\<lambda>kb.
         bindE (key_audits rt audits pwa) (\<lambda>kp.
           Inr (JObj [(''accessibility'', category_info accessibility ka),
                      (''seo'', category_info seo ks),
                      (''bestPractices'', category_info bestPractices kb),
                      (''pwa'', category_info pwa kp)]))))))"

definition extractOtherCategories :: "runtime \<Rightarrow> js \<Rightarrow> js result" where
  "extractOtherCategories rt response =
     bindE (categories_of response) (\<lambda>categories.
     bindE (audits_of response) (other_categories_from rt categories))"

subsection \<open>extractDetailedMetrics\<close>

text \<open>\<open>metrics[field] || audits[audit]?.numericValue\<close>\<close>

definition metric_or_audit :: "js \<Rightarrow> js \<Rightarrow> string \<Rightarrow> string \<Rightarrow> js" where
  "metric_or_audit metrics audits field audit =
     js_or (jprop metrics field) (oget (jprop audits audit) ''numericValue'')"

definition detailed_metrics_from :: "js \<Rightarrow> js result" where
  "detailed_metrics_from audits =
     (let metrics = js_or (oget (items_of (jprop audits ''metrics'')) ''0'') (JObj []) in
      Inr (JObj
        [(''firstContentfulPaint'', metric_or_audit metrics audits ''firstContentfulPaint'' ''first-contentful-paint''),
         (''largestContentfulPaint'', metric_or_audit metrics audits ''largestContentfulPaint'' ''largest-contentful-paint''),
         (''cumulativeLayoutShift'', metric_or_audit metrics audits ''cumulativeLayoutShift'' ''cumulative-layout-shift''),
         (''totalBlockingTime'', metric_or_audit metrics audits ''totalBlockingTime'' ''total-blocking-time''),
         (''maxPotentialFID'', metric_or_audit metrics audits ''maxPotentialFID'' ''max-potential-fid''),
         (''speedIndex'', metric_or_audit metrics audits ''speedIndex'' ''speed-index''),
         (''timeToInteractive'', metric_or_audit metrics audits ''interactive'' ''interactive''),
         (''firstMeaningfulPaint'', jprop metrics ''firstMeaningfulPaint''),
         (''observedFirstContentfulPaint'', jprop metrics ''observedFirstContentfulPaint''),
         (''observedLargestContentfulPaint'', jprop metrics ''observedLargestContentfulPaint''),
         (''observedSpeedIndex'', jprop metrics ''observedSpeedIndex''),
         (''observedDomContentLoaded'', jprop metrics ''observedDomContentLoaded''),
         (''observedLoad'', jprop metrics ''observedLoad''),
         (''observedNavigationStart'', jprop metrics ''observedNavigationStart''),
         (''observedTimeOrigin'', jprop metrics ''observedTimeOrigin''),
         (''observedTraceEnd'', jprop metrics ''observedTraceEnd'')]))"

definition extractDetailedMetrics :: "js \<Rightarrow> js result" where
  "extractDetailedMetrics response = bindE (audits_of response) detailed_metrics_from"


section \<open>The analysis client\<close>

text \<open>
  The settings the client reads from the environment: \<open>cacheTTL\<close> is
  \<open>CACHE_TTL * 1000\<close>, in milliseconds like \<open>timeout\<close>.
\<close>

record config =
  apiKey :: string
  timeout :: nat
  retryAttempts :: nat
  cacheTTL :: int
  maxConcurrency :: nat

text \<open>
  An outbound request: the method, the endpoint, the query parameters in the order
  they were set, and the JSON body of a POST.
\<close>

datatype request =
    Get string "(string \<times> string) list"
  | Post string "(string \<times> string) list" js

text \<open>
  What the network does with one \<open>fetch\<close>: it answers with a response, or the
  transport fails, after \<open>latency\<close> milliseconds.  \<open>body_json\<close> is the body
  parsed as JSON, \<open>None\<close> when it does not parse; \<open>TransportError m\<close> carries
  the message of the error the HTTP library raises.
\<close>

record http_response =
  status :: nat
  statusText :: string
  body_text :: string
  body_json :: "js option"

datatype outcome = Responded http_response | TransportError string

record reply =
  outcome :: outcome
  latency :: nat

text \<open>The network answers the \<open>i\<close>-th fetch of the process.\<close>

type_synonym upstream = "nat \<Rightarrow> request \<Rightarrow> reply"

text \<open>
  The state of the process: the clock \<open>Date.now()\<close>, the fetches made and the backoff
  delays waited so far, the limiter's count of running calls, the client's private cache
  (a \<open>Map\<close> from key to data and timestamp) and the singleton \<open>cache\<close> of the
  cache module (a \<open>Map\<close> from key to data, timestamp and expiry).
\<close>

record state =
  now :: int
  fetch_log :: "request list"
  sleeps :: "nat list"
  active :: nat
  client_cache :: "(string \<times> (js \<times> int)) list"
  shared_cache :: "(string \<times> (js \<times> int \<times> int)) list"

subsection \<open>The client's cache\<close>

definition createCacheKey :: "(string \<times> string) list \<Rightarrow> string" where
  "createCacheKey params =
     ''psi_v5_'' @ join ''|'' (map (\<lambda>(k, v). k @ ''='' @ v) (sort_key fst params))"

definition getCached :: "config \<Rightarrow> string \<Rightarrow> state \<Rightarrow> js \<times> state" where
  "getCached cfg cacheKey st =
     (case map_of (client_cache st) cacheKey of
        None \<Rightarrow> (JNull, st)
      | Some (d, ts) \<Rightarrow>
          if now st - ts > cacheTTL cfg
          then (JNull, st\<lparr>client_cache := AList.delete cacheKey (client_cache st)\<rparr>)
          else (d, st))"

definition setCache :: "string \<Rightarrow> js \<Rightarrow> state \<Rightarrow> state" where
  "setCache cacheKey d st =
     st\<lparr>client_cache := AList.update cacheKey (d, now st) (client_cache st)\<rparr>"

subsection \<open>One network attempt\<close>

definition response_ok :: "http_response \<Rightarrow> bool" where
  "response_ok r = (200 \<le> status r \<and> status r \<le> 299)"

definition abort_error :: exn where
  "abort_error = Exn ''AbortError'' ''The operation was aborted.''"

definition invalid_json :: exn where
  "invalid_json = Exn ''SyntaxError'' ''Unexpected token in JSON''"

definition api_error_message :: "string \<Rightarrow> http_response \<Rightarrow> string" where
  "api_error_message api r =
     api @ '' API error: '' @ show_nat (status r) @ '' '' @ statusText r @ '' - '' @ body_text r"

text \<open>
  \<open>fetch\<close> with the abort timer: the request is logged; a reply that takes as long as
  the timeout is aborted at the timeout.
\<close>

definition fetch :: "config \<Rightarrow> upstream \<Rightarrow> request \<Rightarrow> state \<Rightarrow> http_response result \<times> state" where
  "fetch cfg up req st =
     (let r = up (length (fetch_log st)) req;
          st1 = st\<lparr>fetch_log := fetch_log st @ [req]\<rparr>
      in if timeout cfg \<le> latency r
         then (Inl abort_error, st1\<lparr>now := now st1 + int (timeout cfg)\<rparr>)
         else (case outcome r of
                 TransportError m \<Rightarrow> Inl (Exn ''FetchError'' m)
               | Responded resp \<Rightarrow> Inr resp,
               st1\<lparr>now := now st1 + int (latency r)\<rparr>))"

definition read_json :: "http_response \<Rightarrow> js result" where
  "read_json r = (case body_json r of None \<Rightarrow> Inl invalid_json | Some d \<Rightarrow> Inr d)"

text \<open>The attempt callback of \<open>makeRequest\<close>: a 4xx status renames the error.\<close>

definition psi_attempt :: "config \<Rightarrow> upstream \<Rightarrow> request \<Rightarrow> state \<Rightarrow> js result \<times> state" where
  "psi_attempt cfg up req st =
     (case fetch cfg up req st of
        (Inl e, st') \<Rightarrow> (Inl e, st')
      | (Inr resp, st') \<Rightarrow>
          if \<not> response_ok resp
          then (Inl (Exn (if 400 \<le> status resp \<and> status resp < 500 then ''ClientError'' else ''Error'')
                         (api_error_message ''PSI'' resp)), st')
          else (read_json resp, st'))"

subsection \<open>The retry wrapper\<close>

text \<open>
  Modelled from the spec: the third-party retry wrapper (\<open>p-retry\<close>) that
  \<open>makeRequest\<close> calls is not among the sources.  It runs the attempt; a failed
  attempt is handed to \<open>onFailedAttempt\<close>, and an error thrown there surfaces
  immediately; otherwise the next backoff delay is waited and the attempt repeated, until
  the delays are used up, when the failure that occurred most often (the latest of those)
  surfaces.  The delays are \<open>minTimeout * factor ^ i\<close> capped at \<open>maxTimeout\<close>, one
  for each of the \<open>retries\<close>.
\<close>

definition retry_timeouts :: "nat \<Rightarrow> nat \<Rightarrow> nat \<Rightarrow> nat \<Rightarrow> nat list" where
  "retry_timeouts retries factor minTimeout maxTimeout =
     sort (map (\<lambda>i. min (max minTimeout 1 * factor ^ i) maxTimeout) [0..<retries])"

fun main_error_from :: "exn list \<Rightarrow> exn list \<Rightarrow> exn \<times> nat \<Rightarrow> exn" where
  "main_error_from seen [] (m, c) = m"
| "main_error_from seen (e # es) (m, c) =
     (let n = Suc (length (filter (\<lambda>x. emsg x = emsg e) seen)) in
      main_error_from (seen @ [e]) es (if c \<le> n then (e, n) else (m, c)))"

definition main_error :: "exn \<Rightarrow> exn list \<Rightarrow> exn" where
  "main_error e es = main_error_from [] es (e, 0)"

definition sleep :: "nat \<Rightarrow> state \<Rightarrow> state" where
  "sleep d st = st\<lparr>now := now st + int d, sleeps := sleeps st @ [d]\<rparr>"

fun pRetry :: "(state \<Rightarrow> 'a result \<times> state) \<Rightarrow> (exn \<Rightarrow> exn option) \<Rightarrow> nat list \<Rightarrow> exn list
    \<Rightarrow> state \<Rightarrow> 'a result \<times> state" where
  "pRetry attempt onFailedAttempt [] errors st =
     (case attempt st of
        (Inr x, st') \<Rightarrow> (Inr x, st')
      | (Inl e, st') \<Rightarrow>
          (case onFailedAttempt e of
             Some thrown \<Rightarrow> (Inl thrown, st')
           | None \<Rightarrow> (Inl (main_error e (rev errors @ [e])), st')))"
| "pRetry attempt onFailedAttempt (d # ds) errors st =
     (case attempt st of
        (Inr x, st') \<Rightarrow> (Inr x, st')
      | (Inl e, st') \<Rightarrow>
          (case onFailedAttempt e of
             Some thrown \<Rightarrow> (Inl thrown, st')
           | None \<Rightarrow> pRetry attempt onFailedAttempt ds (e # errors) (sleep d st')))"

text \<open>\<open>makeRequest\<close>: the options and the \<open>onFailedAttempt\<close> callback of the source.\<close>

definition rethrow_client_error :: "exn \<Rightarrow> exn option" where
  "rethrow_client_error e = (if ename e = ''ClientError'' then Some e else None)"

definition makeRequest :: "config \<Rightarrow> upstream \<Rightarrow> request \<Rightarrow> state \<Rightarrow> js result \<times> state" where
  "makeRequest cfg up req st =
     pRetry (psi_attempt cfg up req) rethrow_client_error
       (retry_timeouts (retryAttempts cfg) 2 1000 10000) [] st"

subsection \<open>The concurrency limiter\<close>

text \<open>
  Modelled from the spec: the third-party limiter (\<open>p-limit\<close>) is not among the
  sources.  It is a counting semaphore: a call starts when fewer than the maximum are
  running, holds a slot while it runs and gives it back when it settles; otherwise it
  waits in the queue, which is \<open>None\<close> here.
\<close>

definition limiter :: "config \<Rightarrow> (state \<Rightarrow> 'a \<times> state) \<Rightarrow> state \<Rightarrow> ('a \<times> state) option" where
  "limiter cfg body st =
     (if active st < maxConcurrency cfg
      then (case body (st\<lparr>active := Suc (active st)\<rparr>) of
              (r, st') \<Rightarrow> Some (r, st'\<lparr>active := active st' - 1\<rparr>))
      else None)"

subsection \<open>analyzePageSpeed and getCruxData\<close>

record analyze_input =
  url :: string
  strategy :: string
  category :: "string list option"
  locale_tag :: string

record crux_input =
  crux_url :: string
  formFactor :: "string option"

text \<open>\<open>input.category?.join(",") || "performance"\<close>\<close>

definition categories_param :: "string list option \<Rightarrow> string" where
  "categories_param cats =
     (case cats of
        None \<Rightarrow> ''performance''
      | Some cs \<Rightarrow> if join '','' cs = [] then ''performance'' else join '','' cs)"

definition psi_cache_key :: "analyze_input \<Rightarrow> string" where
  "psi_cache_key input =
     createCacheKey [(''url'', url input),
                     (''strategy'', strategy input),
                     (''categories'', categories_param (category input)),
                     (''locale'', locale_tag input)]"

definition psi_request :: "config \<Rightarrow> analyze_input \<Rightarrow> request" where
  "psi_request cfg input =
     Get ''https://www.googleapis.com/pagespeedonline/v5/runPagespeed''
       ([(''url'', url input), (''key'', apiKey cfg),
         (''strategy'', strategy input), (''locale'', locale_tag input)]
        @ (case category input of
             None \<Rightarrow> []
           | Some cs \<Rightarrow> map (\<lambda>c. (''category'', c)) cs))"

definition analyze_body :: "config \<Rightarrow> upstream \<Rightarrow> analyze_input \<Rightarrow> state \<Rightarrow> js result \<times> state" where
  "analyze_body cfg up input st =
     (let cacheKey = psi_cache_key input in
      case getCached cfg cacheKey st of
        (cached, st1) \<Rightarrow>
          if truthy cached then (Inr cached, st1)
          else (case makeRequest cfg up (psi_request cfg input) st1 of
                  (Inl e, st2) \<Rightarrow> (Inl e, st2)
                | (Inr d, st2) \<Rightarrow> (Inr d, setCache cacheKey d st2)))"

definition analyzePageSpeed ::
    "config \<Rightarrow> upstream \<Rightarrow> analyze_input \<Rightarrow> state \<Rightarrow> (js result \<times> state) option" where
  "analyzePageSpeed cfg up input st = limiter cfg (analyze_body cfg up input) st"

definition form_factor_param :: "string option \<Rightarrow> string" where
  "form_factor_param ff = (case ff of None \<Rightarrow> ''PHONE'' | Some f \<Rightarrow> if f = [] then ''PHONE'' else f)"

definition crux_cache_key :: "crux_input \<Rightarrow> string" where
  "crux_cache_key input =
     createCacheKey [(''url'', crux_url input), (''formFactor'', form_factor_param (formFactor input))]"

definition crux_request :: "config \<Rightarrow> crux_input \<Rightarrow> request" where
  "crux_request cfg input =
     Post ''https://chromeuxreport.googleapis.com/v1/records:queryRecord''
       [(''key'', apiKey cfg)]
       (JObj ((''url'', JStr (crux_url input))
              # (case formFactor input of
                   None \<Rightarrow> []
                 | Some f \<Rightarrow> if f = [] then [] else [(''formFactor'', JStr f)])))"

definition crux_body :: "config \<Rightarrow> upstream \<Rightarrow> crux_input \<Rightarrow> state \<Rightarrow> js result \<times> state" where
  "crux_body cfg up input st =
     (let cacheKey = crux_cache_key input in
      case getCached cfg cacheKey st of
        (cached, st1) \<Rightarrow>
          if truthy cached then (Inr cached, st1)
          else (case fetch cfg up (crux_request cfg input) st1 of
                  (Inl e, st2) \<Rightarrow> (Inl e, st2)
                | (Inr resp, st2) \<Rightarrow>
                    if \<not> response_ok resp
                    then (Inl (Exn ''Error'' (api_error_message ''CrUX'' resp)), st2)
                    else (case read_json resp of
                            Inl e \<Rightarrow> (Inl e, st2)
                          | Inr d \<Rightarrow> (Inr d, setCache cacheKey d st2))))"

definition getCruxData ::
    "config \<Rightarrow> upstream \<Rightarrow> crux_input \<Rightarrow> state \<Rightarrow> (js result \<times> state) option" where
  "getCruxData cfg up input st = limiter cfg (crux_body cfg up input) st"

section \<open>The cache module\<close>

text \<open>\<open>SimpleCache\<close>, its singleton being the \<open>shared_cache\<close> of the state, and the key builders.\<close>

definition defaultTTL :: int where
  "defaultTTL = 5 * 60 * 1000"

definition cache_set :: "string \<Rightarrow> js \<Rightarrow> int \<Rightarrow> state \<Rightarrow> state" where
  "cache_set k d ttl st =
     st\<lparr>shared_cache := AList.update k (d, now st, now st + ttl) (shared_cache st)\<rparr>"

definition cache_get :: "string \<Rightarrow> state \<Rightarrow> js \<times> state" where
  "cache_get k st =
     (case map_of (shared_cache st) k of
        None \<Rightarrow> (JNull, st)
      | Some (d, ts, expiresAt) \<Rightarrow>
          if now st > expiresAt
          then (JNull, st\<lparr>shared_cache := AList.delete k (shared_cache st)\<rparr>)
          else (d, st))"

definition cache_clear :: "state \<Rightarrow> state" where
  "cache_clear st = st\<lparr>shared_cache := []\<rparr>"

definition cache_size :: "state \<Rightarrow> nat" where
  "cache_size st = length (shared_cache st)"

definition cache_cleanup :: "state \<Rightarrow> state" where
  "cache_cleanup st =
     st\<lparr>shared_cache := filter (\<lambda>(k, d, ts, expiresAt). \<not> now st > expiresAt) (shared_cache st)\<rparr>"

definition createPSICacheKey :: "string \<Rightarrow> string \<Rightarrow> string list \<Rightarrow> string \<Rightarrow> string" where
  "createPSICacheKey u strat categories loc =
     ''psi:'' @ u @ '':'' @ strat @ '':'' @ join '','' (sort categories) @ '':'' @ loc"

definition createCruxCacheKey :: "string \<Rightarrow> string option \<Rightarrow> string" where
  "createCruxCacheKey u ff =
     ''crux:'' @ u @ '':'' @ (case ff of None \<Rightarrow> ''default'' | Some f \<Rightarrow> if f = [] then ''default'' else f)"


section \<open>Input validation\<close>

text \<open>
  Modelled from the spec: the validation library (\<open>zod\<close>) is not among the sources;
  the schemas are.  A schema either yields the typed value or the list of every violated
  constraint; a missing optional field takes its default.
\<close>

type_synonym 'a parsed = "string list + 'a"

definition issues_of :: "'a parsed \<Rightarrow> string list" where
  "issues_of r = (case r of Inl is \<Rightarrow> is | Inr v \<Rightarrow> [])"

fun parse_all :: "(js \<Rightarrow> 'a parsed) \<Rightarrow> js list \<Rightarrow> 'a list parsed" where
  "parse_all f [] = Inr []"
| "parse_all f (x # xs) =
     (case (f x, parse_all f xs) of
        (Inr v, Inr vs) \<Rightarrow> Inr (v # vs)
      | (r, rs) \<Rightarrow> Inl (issues_of r @ issues_of rs))"

definition UrlSchema :: "runtime \<Rightarrow> js \<Rightarrow> string parsed" where
  "UrlSchema rt v =
     (case v of
        JStr s \<Rightarrow> if valid_url rt s then Inr s else Inl [''Must be a valid URL'']
      | JUndef \<Rightarrow> Inl [''Required'']
      | _ \<Rightarrow> Inl [''Expected string''])"

definition StrategySchema :: "js \<Rightarrow> string parsed" where
  "StrategySchema v =
     (case v of
        JUndef \<Rightarrow> Inr ''mobile''
      | JStr s \<Rightarrow> if s \<in> set [''mobile'', ''desktop''] then Inr s else Inl [''Invalid enum value'']
      | _ \<Rightarrow> Inl [''Invalid enum value''])"

definition CategorySchema :: "js \<Rightarrow> string parsed" where
  "CategorySchema v =
     (case v of
        JStr s \<Rightarrow>
          if s \<in> set [''performance'', ''accessibility'', ''best-practices'', ''seo'', ''pwa'']
          then Inr s else Inl [''Invalid enum value'']
      | JUndef \<Rightarrow> Inl [''Required'']
      | _ \<Rightarrow> Inl [''Invalid enum value''])"

definition CategoryListSchema :: "js \<Rightarrow> string list parsed" where
  "CategoryListSchema v =
     (case v of
        JUndef \<Rightarrow> Inr [''performance'']
      | JArr xs \<Rightarrow> parse_all CategorySchema xs
      | _ \<Rightarrow> Inl [''Expected array''])"

text \<open>The pattern \<open>/^[a-z]{2}(-[A-Z]{2})?$/\<close>.\<close>

definition lower_case :: "char \<Rightarrow> bool" where
  "lower_case c = (CHR ''a'' \<le> c \<and> c \<le> CHR ''z'')"

definition upper_case :: "char \<Rightarrow> bool" where
  "upper_case c = (CHR ''A'' \<le> c \<and> c \<le> CHR ''Z'')"

fun locale_format :: "string \<Rightarrow> bool" where
  "locale_format [a, b] = (lower_case a \<and> lower_case b)"
| "locale_format [a, b, h, c, d] =
     (lower_case a \<and> lower_case b \<and> h = CHR ''-'' \<and> upper_case c \<and> upper_case d)"
| "locale_format s = False"

definition LocaleSchema :: "js \<Rightarrow> string parsed" where
  "LocaleSchema v =
     (case v of
        JUndef \<Rightarrow> Inr ''en''
      | JStr s \<Rightarrow> if locale_format s then Inr s else Inl [''Invalid locale format'']
      | _ \<Rightarrow> Inl [''Expected string''])"

definition FormFactorSchema :: "js \<Rightarrow> string option parsed" where
  "FormFactorSchema v =
     (case v of
        JUndef \<Rightarrow> Inr None
      | JStr s \<Rightarrow> if s \<in> set [''PHONE'', ''DESKTOP'', ''TABLET''] then Inr (Some s) else Inl [''Invalid enum value'']
      | _ \<Rightarrow> Inl [''Invalid enum value''])"

text \<open>\<open>z.array(UrlSchema).min(1).max(10)\<close>\<close>

definition UrlListSchema :: "runtime \<Rightarrow> js \<Rightarrow> string list parsed" where
  "UrlListSchema rt v =
     (case v of
        JArr xs \<Rightarrow>
          (let sizes = (if length xs < 1 then [''Array must contain at least 1 element(s)''] else [])
                     @ (if 10 < length xs then [''Array must contain at most 10 element(s)''] else [])
           in case parse_all (UrlSchema rt) xs of
                Inr us \<Rightarrow> if sizes = [] then Inr us else Inl sizes
              | Inl is \<Rightarrow> Inl (is @ sizes))
      | JUndef \<Rightarrow> Inl [''Required'']
      | _ \<Rightarrow> Inl [''Expected array''])"

text \<open>An object schema reads its fields from an object and rejects anything else.\<close>

fun is_object :: "js \<Rightarrow> bool" where
  "is_object (JObj kvs) = True"
| "is_object v = False"

definition zod_error :: "string list \<Rightarrow> exn" where
  "zod_error issues = Exn ''ZodError'' (join ''; '' issues)"

record batch_input =
  urls :: "string list"
  batch_strategy :: string
  batch_category :: "string list"
  batch_locale :: string

definition BatchAnalyzeSchema :: "runtime \<Rightarrow> js \<Rightarrow> batch_input result" where
  "BatchAnalyzeSchema rt args =
     (if \<not> is_object args then Inl (zod_error [if args = JUndef then ''Required'' else ''Expected object''])
      else (case (UrlListSchema rt (jprop args ''urls''),
                  StrategySchema (jprop args ''strategy''),
                  CategoryListSchema (jprop args ''category''),
                  LocaleSchema (jprop args ''locale'')) of
              (Inr us, Inr s, Inr cs, Inr l) \<Rightarrow>
                Inr \<lparr>urls = us, batch_strategy = s, batch_category = cs, batch_locale = l\<rparr>
            | (ru, rs, rc, rl) \<Rightarrow>
                Inl (zod_error (issues_of ru @ issues_of rs @ issues_of rc @ issues_of rl))))"

definition CruxSummarySchema :: "runtime \<Rightarrow> js \<Rightarrow> crux_input result" where
  "CruxSummarySchema rt args =
     (if \<not> is_object args then Inl (zod_error [if args = JUndef then ''Required'' else ''Expected object''])
      else (case (UrlSchema rt (jprop args ''url''), FormFactorSchema (jprop args ''formFactor'')) of
              (Inr u, Inr ff) \<Rightarrow> Inr \<lparr>crux_url = u, formFactor = ff\<rparr>
            | (ru, rf) \<Rightarrow> Inl (zod_error (issues_of ru @ issues_of rf))))"

section \<open>The server\<close>

text \<open>
  A tool response: its content blocks and the \<open>isError\<close> flag (absent is
  \<open>False\<close>).  \<open>Json v\<close> is the block whose text is \<open>JSON.stringify(v, null, 2)\<close>.
\<close>

datatype content = Text string | Json js

record tool_response =
  content :: "content list"
  isError :: bool

definition ok_response :: "content \<Rightarrow> tool_response" where
  "ok_response c = \<lparr>content = [c], isError = False\<rparr>"

definition error_response :: "string \<Rightarrow> exn \<Rightarrow> tool_response" where
  "error_response prefix e = \<lparr>content = [Text (prefix @ emsg e)], isError = True\<rparr>"

subsection \<open>crux_summary\<close>

definition nl :: string where
  "nl = [CHR 0x0A]"

definition no_field_data_text :: "string \<Rightarrow> string" where
  "no_field_data_text u =
     ''# CrUX Field Data'' @ nl @ nl @ ''**URL:** '' @ u @ nl
     @ ''**Status:** No field data available (insufficient traffic)'' @ nl @ nl
     @ ''This URL doesn'' @ [CHR 0x27] @ ''t have enough real-world usage data in Chrome UX Report.''"

definition cwvMetrics :: "(string \<times> string) list" where
  "cwvMetrics =
     [(''largest_contentful_paint'', ''Largest Contentful Paint''),
      (''first_input_delay'', ''First Input Delay''),
      (''cumulative_layout_shift'', ''Cumulative Layout Shift'')]"

definition metric_line :: "runtime \<Rightarrow> js \<Rightarrow> string \<times> string \<Rightarrow> string result" where
  "metric_line rt record kt =
     (case kt of (key, title) \<Rightarrow>
        let metric = oget (jprop record ''metrics'') key in
        if truthy metric
        then bindE (get (jprop metric ''percentiles'') ''p75'') (\<lambda>p75.
               Inr (''- **'' @ title @ ''**: '' @ to_str rt p75
                    @ (if key = ''cumulative_layout_shift'' then [] else ''ms'') @ '' (p75)'' @ nl))
        else Inr [])"

definition formatCruxSummary :: "runtime \<Rightarrow> js \<Rightarrow> string \<Rightarrow> string result" where
  "formatCruxSummary rt cruxData u =
     bindE (get cruxData ''record'') (\<lambda>record.
       if \<not> truthy record then Inr (no_field_data_text u)
       else bindE (get (jprop record ''key'') ''formFactor'') (\<lambda>ff.
            bindE (mapE (metric_line rt record) cwvMetrics) (\<lambda>lines.
              Inr (''# CrUX Field Data Summary'' @ nl @ nl
                   @ ''**URL:** '' @ u @ nl
                   @ ''**Form Factor:** '' @ to_str rt ff @ nl @ nl
                   @ ''## Core Web Vitals (Real User Data)'' @ nl
                   @ concat lines))))"

definition handleCruxSummary ::
    "runtime \<Rightarrow> config \<Rightarrow> upstream \<Rightarrow> js \<Rightarrow> state \<Rightarrow> (tool_response \<times> state) option" where
  "handleCruxSummary rt cfg up args st =
     (case CruxSummarySchema rt args of
        Inl e \<Rightarrow> Some (error_response ''Error getting CrUX data: '' e, st)
      | Inr input \<Rightarrow>
          (case getCruxData cfg up input st of
             None \<Rightarrow> None
           | Some (Inl e, st') \<Rightarrow> Some (error_response ''Error getting CrUX data: '' e, st')
           | Some (Inr cruxData, st') \<Rightarrow>
               (case formatCruxSummary rt cruxData (crux_url input) of
                  Inl e \<Rightarrow> Some (error_response ''Error getting CrUX data: '' e, st')
                | Inr summary \<Rightarrow> Some (ok_response (Text summary), st'))))"

subsection \<open>batch_analyze\<close>

text \<open>
  One round of the loop: the client call and the summary are inside the inner
  \<open>try\<close>, so a failure of either becomes the entry of that URL.
\<close>

definition batch_entry :: "runtime \<Rightarrow> string \<Rightarrow> string \<Rightarrow> js result \<Rightarrow> js" where
  "batch_entry rt u strat r =
     (case bindE r (\<lambda>d. createPerformanceSummary rt d u strat) of
        Inr summary \<Rightarrow> JObj [(''url'', JStr u), (''result'', summary)]
      | Inl e \<Rightarrow> JObj [(''url'', JStr u), (''error'', JStr (emsg e))])"

fun batch_loop ::
    "runtime \<Rightarrow> config \<Rightarrow> upstream \<Rightarrow> batch_input \<Rightarrow> string list \<Rightarrow> js list \<Rightarrow> state
     \<Rightarrow> (js list \<times> state) option" where
  "batch_loop rt cfg up input [] results st = Some (results, st)"
| "batch_loop rt cfg up input (u # us) results st =
     (case analyzePageSpeed cfg up
             \<lparr>url = u, strategy = batch_strategy input,
              category = Some (batch_category input), locale_tag = batch_locale input\<rparr> st of
        None \<Rightarrow> None
      | Some (r, st') \<Rightarrow>
          batch_loop rt cfg up input us (results @ [batch_entry rt u (batch_strategy input) r]) st')"

definition count_with :: "string \<Rightarrow> js list \<Rightarrow> nat" where
  "count_with field results = length (filter (\<lambda>r. truthy (jprop r field)) results)"

definition batch_report :: "batch_input \<Rightarrow> js list \<Rightarrow> js" where
  "batch_report input results =
     JObj [(''summary'', JObj [(''total'', JNum (of_nat (length (urls input)))),
                               (''successful'', JNum (of_nat (count_with ''result'' results))),
                               (''failed'', JNum (of_nat (count_with ''error'' results)))]),
           (''results'', JArr results)]"

definition handleBatchAnalyze ::
    "runtime \<Rightarrow> config \<Rightarrow> upstream \<Rightarrow> js \<Rightarrow> state \<Rightarrow> (tool_response \<times> state) option" where
  "handleBatchAnalyze rt cfg up args st =
     (case BatchAnalyzeSchema rt args of
        Inl e \<Rightarrow> Some (error_response ''Error in batch analysis: '' e, st)
      | Inr input \<Rightarrow>
          (case batch_loop rt cfg up input (urls input) [] st of
             None \<Rightarrow> None
           | Some (results, st') \<Rightarrow> Some (ok_response (Json (batch_report input results)), st')))"

subsection \<open>clear_cache\<close>

definition check_mark :: string where
  "check_mark = [CHR 0xE2, CHR 0x9C, CHR 0x85]"

definition handleClearCache :: "state \<Rightarrow> tool_response \<times> state" where
  "handleClearCache st =
     (let sizeBefore = cache_size st in
      (ok_response (Text (check_mark @ '' Cache cleared successfully. Removed ''
                          @ show_nat sizeBefore @ '' cached entries.'')),
       cache_clear st))"

subsection \<open>Dispatch\<close>

text \<open>The names announced by the list-tools handler, and the switch of the call-tool handler.\<close>

definition tool_names :: "string list" where
  "tool_names =
     [''analyze_page_speed'', ''get_performance_summary'', ''crux_summary'', ''compare_pages'',
      ''full_report'', ''batch_analyze'', ''clear_cache'', ''get_recommendations'',
      ''get_visual_analysis'', ''get_element_analysis'', ''get_network_analysis'',
      ''get_javascript_analysis'', ''get_image_optimization_details'',
      ''get_render_blocking_details'', ''get_third_party_impact'', ''get_full_audit'']"

datatype tool =
    AnalyzePageSpeed | GetPerformanceSummary | CruxSummary | ComparePages | FullReport
  | BatchAnalyze | ClearCache | GetRecommendations | GetVisualAnalysis | GetElementAnalysis
  | GetNetworkAnalysis | GetJavaScriptAnalysis | GetImageOptimizationDetails
  | GetRenderBlockingDetails | GetThirdPartyImpact | GetFullAudit

definition tool_of_name :: "string \<Rightarrow> tool option" where
  "tool_of_name name =
     (if name = ''analyze_page_speed'' then Some AnalyzePageSpeed
      else if name = ''get_performance_summary'' then Some GetPerformanceSummary
      else if name = ''crux_summary'' then Some CruxSummary
      else if name = ''compare_pages'' then Some ComparePages
      else if name = ''full_report'' then Some FullReport
      else if name = ''batch_analyze'' then Some BatchAnalyze
      else if name = ''clear_cache'' then Some ClearCache
      else if name = ''get_recommendations'' then Some GetRecommendations
      else if name = ''get_visual_analysis'' then Some GetVisualAnalysis
      else if name = ''get_element_analysis'' then Some GetElementAnalysis
      else if name = ''get_network_analysis'' then Some GetNetworkAnalysis
      else if name = ''get_javascript_analysis'' then Some GetJavaScriptAnalysis
      else if name = ''get_image_optimization_details'' then Some GetImageOptimizationDetails
      else if name = ''get_render_blocking_details'' then Some GetRenderBlockingDetails
      else if name = ''get_third_party_impact'' then Some GetThirdPartyImpact
      else if name = ''get_full_audit'' then Some GetFullAudit
      else None)"

text \<open>
  The call-tool handler.  \<open>handlers\<close> are the sixteen \<open>handle...\<close> methods; each
  returns a response (they catch their own failures), or waits for a limiter slot.
  The handler itself either returns the response or rejects with an error.
\<close>

type_synonym handler = "js \<Rightarrow> state \<Rightarrow> (tool_response \<times> state) option"

definition call_tool ::
    "(tool \<Rightarrow> handler) \<Rightarrow> string \<Rightarrow> js \<Rightarrow> state \<Rightarrow> (tool_response result \<times> state) option" where
  "call_tool handlers name args st =
     (case tool_of_name name of
        Some t \<Rightarrow> map_option (\<lambda>(resp, st'). (Inr resp, st')) (handlers t args st)
      | None \<Rightarrow> Some (Inl (Exn ''Error'' (''Unknown tool: '' @ name)), st))"

text \<open>The handlers of this development, the others being \<open>rest\<close>.\<close>

definition server_handlers ::
    "runtime \<Rightarrow> config \<Rightarrow> upstream \<Rightarrow> (tool \<Rightarrow> handler) \<Rightarrow> tool \<Rightarrow> handler" where
  "server_handlers rt cfg up rest t =
     (case t of
        CruxSummary \<Rightarrow> handleCruxSummary rt cfg up
      | BatchAnalyze \<Rightarrow> handleBatchAnalyze rt cfg up
      | ClearCache \<Rightarrow> (\<lambda>args st. Some (handleClearCache st))
      | _ \<Rightarrow> rest t)"


section \<open>Example values\<close>

text \<open>
  Rounding to the nearest double, ties to the even significand: a double is
  \<open>m * 2 ^ q\<close> with \<open>\<bar>m\<bar> < 2 ^ 53\<close> and \<open>- 1074 \<le> q\<close>.  Overflow is
  left out.
\<close>

definition pow2 :: "int \<Rightarrow> rat" where
  "pow2 k = (if 0 \<le> k then 2 ^ nat k else 1 / 2 ^ nat (- k))"

definition floor_log2 :: "rat \<Rightarrow> int" where
  "floor_log2 x =
     (case quotient_of x of (p, q) \<Rightarrow>
        let e = bitlen p - bitlen q in if pow2 e \<le> x then e else e - 1)"

definition round_half_even :: "rat \<Rightarrow> int" where
  "round_half_even x =
     (let f = \<lfloor>x\<rfloor>; d = x - of_int f
      in if d < 1 / 2 then f else if 1 / 2 < d then f + 1 else if even f then f else f + 1)"

definition nearest_double :: "rat \<Rightarrow> rat" where
  "nearest_double x =
     (if x = 0 then 0
      else let q = max (floor_log2 \<bar>x\<bar> - 52) (- 1074)
           in of_int (round_half_even (x / pow2 q)) * pow2 q)"

definition example_runtime :: runtime where
  "example_runtime =
     \<lparr>num_to_string = (\<lambda>x. if x = 0 then ''0'' else ''2500''),
      string_to_num = (\<lambda>s. None),
      num_mul = (\<lambda>x y. nearest_double (x * y)),
      num_add = (\<lambda>x y. nearest_double (x + y)),
      valid_url = (\<lambda>s. take 8 s = ''https://'')\<rparr>"

text \<open>The scores 0.85, 0.015 and 0.285 as the doubles a response carries.\<close>

definition example_score :: rat where
  "example_score = nearest_double (85 / 100)"

definition low_score :: rat where
  "low_score = nearest_double (15 / 1000)"

definition odd_score :: rat where
  "odd_score = nearest_double (285 / 1000)"

definition example_config :: config where
  "example_config =
     \<lparr>apiKey = ''k'', timeout = 30000, retryAttempts = 3, cacheTTL = 3600000, maxConcurrency = 3\<rparr>"

definition initial_state :: state where
  "initial_state =
     \<lparr>now = 0, fetch_log = [], sleeps = [], active = 0, client_cache = [], shared_cache = []\<rparr>"

definition example_response :: "js \<Rightarrow> js" where
  "example_response score =
     JObj [(''lighthouseResult'',
            JObj [(''categories'', JObj [(''performance'', JObj [(''score'', score)])]),
                  (''audits'', JObj [(''largest-contentful-paint'',
                                     JObj [(''displayValue'', JStr ''2.5 s''), (''score'', JNum 1)])])])]"



definition example_upstream :: upstream where
  "example_upstream i req =
     \<lparr>outcome = Responded
        \<lparr>status = 200, statusText = ''OK'', body_text = ''{}'',
         body_json = Some (case req of
                             Get ep ps \<Rightarrow> example_response (JNum example_score)
                           | Post ep ps b \<Rightarrow> JObj [])\<rparr>,
      latency = 1200\<rparr>"

definition no_other_handlers :: "tool \<Rightarrow> handler" where
  "no_other_handlers t args st = None"

definition example_crux_input :: crux_input where
  "example_crux_input = \<lparr>crux_url = ''https://example.com'', formFactor = None\<rparr>"

definition example_input :: "string list \<Rightarrow> analyze_input" where
  "example_input cats =
     \<lparr>url = ''https://example.com'', strategy = ''mobile'', category = Some cats, locale_tag = ''en''\<rparr>"

section \<open>Observations used in the statements\<close>

text \<open>
  The result of one attempt as a function of the reply alone, the two kinds of failing
  reply the retry policy distinguishes, and the delays it waits.
\<close>

definition attempt_result :: "config \<Rightarrow> reply \<Rightarrow> js result" where
  "attempt_result cfg r =
     (if timeout cfg \<le> latency r then Inl abort_error
      else (case outcome r of
              TransportError m \<Rightarrow> Inl (Exn ''FetchError'' m)
            | Responded resp \<Rightarrow>
                if \<not> response_ok resp
                then Inl (Exn (if 400 \<le> status resp \<and> status resp < 500 then ''ClientError'' else ''Error'')
                              (api_error_message ''PSI'' resp))
                else read_json resp))"

definition elapsed :: "config \<Rightarrow> reply \<Rightarrow> nat" where
  "elapsed cfg r = (if timeout cfg \<le> latency r then timeout cfg else latency r)"

definition client_error_reply :: "config \<Rightarrow> reply \<Rightarrow> bool" where
  "client_error_reply cfg r =
     (latency r < timeout cfg \<and>
      (case outcome r of
         TransportError m \<Rightarrow> False
       | Responded resp \<Rightarrow> 400 \<le> status resp \<and> status resp \<le> 499))"

definition transient_failure :: "config \<Rightarrow> reply \<Rightarrow> bool" where
  "transient_failure cfg r =
     (timeout cfg \<le> latency r \<or>
      (case outcome r of
         TransportError m \<Rightarrow> True
       | Responded resp \<Rightarrow>
           (\<not> response_ok resp \<and> \<not> (400 \<le> status resp \<and> status resp \<le> 499)) \<or>
           (response_ok resp \<and> body_json resp = None)))"

definition backoff_delays :: "nat \<Rightarrow> nat list" where
  "backoff_delays retries = map (\<lambda>i. min (1000 * 2 ^ i) 10000) [0..<retries]"

text \<open>
  Time passing between two calls, one call after another, and what is observed of a
  run: the value returned, the number of fetches, a cache entry, the clock.
\<close>

definition tick :: "int \<Rightarrow> state \<Rightarrow> state" where
  "tick dt st = st\<lparr>now := now st + dt\<rparr>"

definition and_then :: "('a \<times> state) option \<Rightarrow> (state \<Rightarrow> ('b \<times> state) option) \<Rightarrow> ('b \<times> state) option" where
  "and_then m f = (case m of None \<Rightarrow> None | Some (r, st) \<Rightarrow> f st)"

definition returned :: "('a \<times> state) option \<Rightarrow> 'a option" where
  "returned m = map_option fst m"

definition fetch_count :: "('a \<times> state) option \<Rightarrow> nat option" where
  "fetch_count m = map_option (\<lambda>(r, st). length (fetch_log st)) m"

definition cached_entry :: "string \<Rightarrow> ('a \<times> state) option \<Rightarrow> (js \<times> int) option option" where
  "cached_entry k m = map_option (\<lambda>(r, st). map_of (client_cache st) k) m"

definition clock :: "('a \<times> state) option \<Rightarrow> int option" where
  "clock m = map_option (\<lambda>(r, st). now st) m"

text \<open>An upstream that answers every request with the given status and parsed body.\<close>

definition status_upstream :: "nat \<Rightarrow> js option \<Rightarrow> upstream" where
  "status_upstream code body i req =
     \<lparr>outcome = Responded \<lparr>status = code, statusText = ''status'', body_text = ''body'', body_json = body\<rparr>,
      latency = 1200\<rparr>"

definition flaky_upstream :: "nat \<Rightarrow> upstream" where
  "flaky_upstream k i req = (if i < k then status_upstream 503 None i req else example_upstream i req)"

text \<open>
  Of a batch report: whether an entry carries an error, a field of the summary, and what an
  entry of the loop looks like (a truthy result and no error, or an error and no result).
\<close>

definition has_error :: "js \<Rightarrow> bool" where
  "has_error entry = (jprop entry ''error'' \<noteq> JUndef)"

definition reported :: "string \<Rightarrow> js \<Rightarrow> js" where
  "reported field report = jprop (jprop report ''summary'') field"

definition entry_of :: "js \<Rightarrow> bool" where
  "entry_of e = ((truthy (jprop e ''result'') \<longleftrightarrow> \<not> has_error e)
     \<and> (truthy (jprop e ''error'') \<longleftrightarrow> has_error e \<and> jprop e ''error'' \<noteq> JStr []))"

text \<open>
  The client input the batch loop builds for a URL, the client calls for a list of inputs
  made one after the other, each in the state the one before left, and the requests
  logged between two states.
\<close>

definition batch_request :: "batch_input \<Rightarrow> string \<Rightarrow> analyze_input" where
  "batch_request input u =
     \<lparr>url = u, strategy = batch_strategy input,
      category = Some (batch_category input), locale_tag = batch_locale input\<rparr>"

definition batch_inputs :: "batch_input \<Rightarrow> analyze_input list" where
  "batch_inputs input = map (batch_request input) (urls input)"

fun analyses :: "config \<Rightarrow> upstream \<Rightarrow> analyze_input list \<Rightarrow> state \<Rightarrow> (js result list \<times> state) option" where
  "analyses cfg up [] st = Some ([], st)"
| "analyses cfg up (i # is) st =
     (case analyzePageSpeed cfg up i st of
        None \<Rightarrow> None
      | Some (r, st') \<Rightarrow>
          (case analyses cfg up is st' of
             None \<Rightarrow> None
           | Some (rs, st'') \<Rightarrow> Some (r # rs, st'')))"

definition new_fetches :: "state \<Rightarrow> state \<Rightarrow> request list" where
  "new_fetches st st' = drop (length (fetch_log st)) (fetch_log st')"

text \<open>An upstream whose transport fails for the first \<open>k\<close> fetches.\<close>

definition outage_upstream :: "nat \<Rightarrow> upstream" where
  "outage_upstream k i req =
     (if i < k
      then \<lparr>outcome = TransportError ''request to https://www.googleapis.com/ failed, reason: socket hang up'',
            latency = 40\<rparr>
      else example_upstream i req)"

definition two_urls :: js where
  "two_urls = JObj [(''urls'', JArr [JStr ''https://a.example'', JStr ''https://b.example''])]"

section \<open>The audit summaries in the words of the specification\<close>

text \<open>
  The audit a reference names, the test "score is non-null and strictly less than 1", and
  the key audits of a category as the specification words them: the failing referenced
  audits in the order of the references, the first five at most.
\<close>

definition audit_of :: "runtime \<Rightarrow> js \<Rightarrow> js \<Rightarrow> js" where
  "audit_of rt audits ref = jprop audits (to_str rt (jprop ref ''id''))"

definition failing_score :: "js \<Rightarrow> bool" where
  "failing_score sc = (case sc of JNum x \<Rightarrow> x < 1 | _ \<Rightarrow> False)"

definition spec_key_audit :: "runtime \<Rightarrow> js \<Rightarrow> js \<Rightarrow> js" where
  "spec_key_audit rt audits ref =
     (let a = audit_of rt audits ref in
      JObj [(''id'', jprop ref ''id''),
            (''title'', js_or (jprop a ''title'') (jprop ref ''id'')),
            (''score'', jprop a ''score''),
            (''description'', jprop a ''description'')])"

definition spec_key_audits :: "runtime \<Rightarrow> js \<Rightarrow> js list \<Rightarrow> js list" where
  "spec_key_audits rt audits refs =
     map (spec_key_audit rt audits)
       (take 5 (filter (\<lambda>ref. failing_score (jprop (audit_of rt audits ref) ''score'')) refs))"

definition refs_of :: "js \<Rightarrow> js list" where
  "refs_of cat = (case oget cat ''auditRefs'' of JArr refs \<Rightarrow> refs | _ \<Rightarrow> [])"

definition other_categories :: "(string \<times> string) list" where
  "other_categories =
     [(''accessibility'', ''accessibility''), (''seo'', ''seo''),
      (''bestPractices'', ''best-practices''), (''pwa'', ''pwa'')]"

text \<open>
  The shape the data model gives an analysis result here: the references of a category,
  when present, are a list of objects, and an audit they name, when present, is an object
  whose score is a number, \<open>null\<close> or absent.
\<close>

definition typed_score :: "js \<Rightarrow> bool" where
  "typed_score sc = (case sc of JNum x \<Rightarrow> True | JNull \<Rightarrow> True | JUndef \<Rightarrow> True | _ \<Rightarrow> False)"

definition typed_ref :: "runtime \<Rightarrow> js \<Rightarrow> js \<Rightarrow> bool" where
  "typed_ref rt audits ref =
     (is_object ref \<and>
      (audit_of rt audits ref = JUndef \<or>
       is_object (audit_of rt audits ref) \<and> typed_score (jprop (audit_of rt audits ref) ''score'')))"

definition typed_category :: "runtime \<Rightarrow> js \<Rightarrow> js \<Rightarrow> bool" where
  "typed_category rt audits cat =
     (case oget cat ''auditRefs'' of
        JUndef \<Rightarrow> True
      | JNull \<Rightarrow> True
      | JArr refs \<Rightarrow> list_all (typed_ref rt audits) refs
      | _ \<Rightarrow> False)"

definition audited_response :: js where
  "audited_response =
     JObj [(''lighthouseResult'',
        JObj [(''categories'',
                JObj [(''seo'', JObj [(''score'', JNum (1 / 2)),
                        (''auditRefs'', JArr (map (\<lambda>k. JObj [(''id'', JStr k)])
                            [''a'', ''b'', ''c'', ''d'', ''e'', ''f'', ''g'', ''h'']))])]),
              (''audits'',
                JObj [(''a'', JObj [(''title'', JStr ''A''), (''score'', JNum (1 / 2))]),
                      (''b'', JObj [(''title'', JStr ''B''), (''score'', JNum 1)]),
                      (''c'', JObj [(''title'', JStr ''C''), (''score'', JNull)]),
                      (''d'', JObj [(''title'', JStr ''D''), (''score'', JNum 0)]),
                      (''e'', JObj [(''title'', JStr ''E''), (''score'', JNum (3 / 4))]),
                      (''f'', JObj [(''title'', JStr ''F''), (''score'', JNum (1 / 8))]),
                      (''g'', JObj [(''score'', JNum (1 / 4))]),
                      (''h'', JObj [(''title'', JStr ''H''), (''score'', JNum (3 / 8))])])])]"

section \<open>Readable responses and the default shapes\<close>

text \<open>
  A value that is there (neither \<open>undefined\<close> nor \<open>null\<close>), the value at the end of
  a chain of optional reads \<open>v?.k1?.k2...\<close>, and a list the code can iterate: an array
  all of whose entries satisfy what the callback requires.
\<close>

definition present :: "js \<Rightarrow> bool" where
  "present v = (v \<noteq> JUndef \<and> v \<noteq> JNull)"

definition path_get :: "js \<Rightarrow> string list \<Rightarrow> js" where
  "path_get v ks = foldl oget v ks"

fun array_of :: "(js \<Rightarrow> bool) \<Rightarrow> js \<Rightarrow> bool" where
  "array_of ok (JArr xs) = list_all ok xs"
| "array_of ok v = False"

text \<open>
  The fields of a response an extraction reads: a field of an audit, the items of an
  audit, a field of a category, a field of the first item of the \<open>metrics\<close> audit.
\<close>

definition audit_path :: "string \<Rightarrow> string list \<Rightarrow> string list" where
  "audit_path audit ks = [''lighthouseResult'', ''audits'', audit] @ ks"

definition audit_items :: "string \<Rightarrow> string list" where
  "audit_items audit = audit_path audit [''details'', ''items'']"

definition category_path :: "string \<Rightarrow> string \<Rightarrow> string list" where
  "category_path cat k = [''lighthouseResult'', ''categories'', cat, k]"

definition metrics_item :: "string \<Rightarrow> string list" where
  "metrics_item field = audit_path ''metrics'' [''details'', ''items'', ''0'', field]"

text \<open>
  The objects an extraction works on: \<open>response.lighthouseResult?.audits || {}\<close>,
  likewise the categories, and \<open>audits.metrics?.details?.items?.[0] || {}\<close>.
\<close>

definition audits_obj :: "js \<Rightarrow> js" where
  "audits_obj r = js_or (oget (oget r ''lighthouseResult'') ''audits'') (JObj [])"

definition categories_obj :: "js \<Rightarrow> js" where
  "categories_obj r = js_or (oget (oget r ''lighthouseResult'') ''categories'') (JObj [])"

definition metrics_obj :: "js \<Rightarrow> js" where
  "metrics_obj r = js_or (oget (items_of (jprop (audits_obj r) ''metrics'')) ''0'') (JObj [])"

text \<open>
  An entry of the items of the \<open>legacy-javascript\<close> audit has sub-items that are
  iterated in turn, unless they are \<open>undefined\<close> or \<open>null\<close>.
\<close>

definition legacy_entry :: "js \<Rightarrow> bool" where
  "legacy_entry item =
     (present item \<and>
      (present (path_get item [''subItems'', ''items''])
         \<longrightarrow> array_of present (path_get item [''subItems'', ''items''])))"

text \<open>
  Each extraction function with the lists it iterates and what it requires of an entry.  A
  response is readable for it when it is there and each of these lists, where truthy, is
  an array of such entries.
\<close>

definition iterated_lists :: "runtime \<Rightarrow> ((js \<Rightarrow> js result) \<times> (string list \<times> (js \<Rightarrow> bool)) list) list" where
  "iterated_lists rt =
     [(extractVisualData, [(audit_items ''screenshot-thumbnails'', present)]),
      (extractElementData, [(audit_items ''layout-shift-elements'', present)]),
      (extractNetworkData,
         [(audit_items ''network-requests'', present), (audit_items ''resource-summary'', present)]),
      (extractJavaScriptData,
         [(audit_items ''bootup-time'', present), (audit_items ''mainthread-work-breakdown'', present),
          (audit_items ''unused-javascript'', present), (audit_items ''duplicated-javascript'', present),
          (audit_items ''legacy-javascript'', legacy_entry)]),
      (extractImageOptimizationData,
         [(audit_items ''uses-responsive-images'', present), (audit_items ''offscreen-images'', present),
          (audit_items ''uses-optimized-images'', present), (audit_items ''modern-image-formats'', present)]),
      (extractRenderBlockingData, [(audit_items ''render-blocking-resources'', present)]),
      (extractThirdPartyData rt,
         [(audit_items ''third-party-summary'', present), (audit_items ''third-party-facades'', present)]),
      (extractOtherCategories rt,
         [(category_path ''accessibility'' ''auditRefs'', present), (category_path ''seo'' ''auditRefs'', present),
          (category_path ''best-practices'' ''auditRefs'', present), (category_path ''pwa'' ''auditRefs'', present)]),
      (extractDetailedMetrics, [])]"

definition readable :: "js \<Rightarrow> (string list \<times> (js \<Rightarrow> bool)) list \<Rightarrow> bool" where
  "readable response iterated =
     (present response \<and>
      list_all (\<lambda>(path, ok). truthy (path_get response path) \<longrightarrow> array_of ok (path_get response path)) iterated)"

text \<open>The nine extraction functions and what each returns when nothing is there to extract.\<close>

definition extractors :: "runtime \<Rightarrow> (js \<Rightarrow> js result) list" where
  "extractors rt =
     [extractVisualData, extractElementData, extractNetworkData, extractJavaScriptData,
      extractImageOptimizationData, extractRenderBlockingData, extractThirdPartyData rt,
      extractOtherCategories rt, extractDetailedMetrics]"

definition default_shapes :: "js list" where
  "default_shapes =
     [JObj [(''finalScreenshot'', JNull), (''filmstrip'', JArr []), (''fullPageScreenshot'', JNull)],
      JObj [(''lcpElement'', JNull), (''clsElements'', JArr []), (''lazyLoadedLcp'', JNull)],
      JObj [(''requests'', JArr []), (''resourceSummary'', JArr []), (''totalByteWeight'', JNum 0),
            (''requestCount'', JNum 0), (''rtt'', JNull), (''serverLatency'', JNull)],
      JObj [(''bootupTime'', JArr []), (''mainThreadWork'', JArr []), (''unusedJavaScript'', JArr []),
            (''duplicatedJavaScript'', JArr []), (''legacyJavaScript'', JArr [])],
      JObj [(''responsiveImages'', JArr []), (''offscreenImages'', JArr []),
            (''unoptimizedImages'', JArr []), (''modernFormats'', JArr [])],
      JObj [(''resources'', JArr []), (''totalWastedMs'', JNum 0), (''criticalChains'', JNull)],
      JObj [(''summary'', JArr []), (''totalBlockingTime'', JNum 0), (''totalTransferSize'', JNum 0),
            (''facades'', JArr [])],
      JObj [(''accessibility'', JObj [(''score'', JNull), (''keyAudits'', JArr [])]),
            (''seo'', JObj [(''score'', JNull), (''keyAudits'', JArr [])]),
            (''bestPractices'', JObj [(''score'', JNull), (''keyAudits'', JArr [])]),
            (''pwa'', JObj [(''score'', JNull), (''keyAudits'', JArr [])])],
      JObj [(''firstContentfulPaint'', JUndef), (''largestContentfulPaint'', JUndef),
            (''cumulativeLayoutShift'', JUndef), (''totalBlockingTime'', JUndef),
            (''maxPotentialFID'', JUndef), (''speedIndex'', JUndef), (''timeToInteractive'', JUndef),
            (''firstMeaningfulPaint'', JUndef), (''observedFirstContentfulPaint'', JUndef),
            (''observedLargestContentfulPaint'', JUndef), (''observedSpeedIndex'', JUndef),
            (''observedDomContentLoaded'', JUndef), (''observedLoad'', JUndef),
            (''observedNavigationStart'', JUndef), (''observedTimeOrigin'', JUndef),
            (''observedTraceEnd'', JUndef)]]"

text \<open>
  The parts of each result: where the part is in the result, the fields of the response it
  is extracted from, and the default it has when all of these are missing.
\<close>

type_synonym part = "string list \<times> string list list \<times> js"

definition items_part :: "string \<Rightarrow> string \<Rightarrow> part" where
  "items_part out audit = ([out], [audit_items audit], JArr [])"

definition visual_parts :: "part list" where
  "visual_parts =
     [([''finalScreenshot''], [audit_path ''final-screenshot'' [''details'', ''data'']], JNull),
      items_part ''filmstrip'' ''screenshot-thumbnails'',
      ([''fullPageScreenshot''], [audit_path ''full-page-screenshot'' [''details'', ''screenshot'']], JNull)]"

definition element_parts :: "part list" where
  "element_parts =
     [([''lcpElement''],
         [audit_path ''largest-contentful-paint-element'' [''details'', ''items'', ''0'', ''node'']], JNull),
      items_part ''clsElements'' ''layout-shift-elements'',
      ([''lazyLoadedLcp''], [audit_path ''lcp-lazy-loaded'' [''details'', ''items'', ''0'', ''node'']], JNull)]"

definition network_parts :: "part list" where
  "network_parts =
     [items_part ''requests'' ''network-requests'',
      items_part ''resourceSummary'' ''resource-summary'',
      ([''totalByteWeight''], [audit_path ''total-byte-weight'' [''numericValue'']], JNum 0),
      ([''requestCount''], [audit_items ''network-requests''], JNum 0),
      ([''rtt''], [audit_path ''network-rtt'' [''numericValue'']], JNull),
      ([''serverLatency''], [audit_path ''network-server-latency'' [''numericValue'']], JNull)]"

definition javascript_parts :: "part list" where
  "javascript_parts =
     [items_part ''bootupTime'' ''bootup-time'',
      items_part ''mainThreadWork'' ''mainthread-work-breakdown'',
      items_part ''unusedJavaScript'' ''unused-javascript'',
      items_part ''duplicatedJavaScript'' ''duplicated-javascript'',
      items_part ''legacyJavaScript'' ''legacy-javascript'']"

definition image_parts :: "part list" where
  "image_parts =
     [items_part ''responsiveImages'' ''uses-responsive-images'',
      items_part ''offscreenImages'' ''offscreen-images'',
      items_part ''unoptimizedImages'' ''uses-optimized-images'',
      items_part ''modernFormats'' ''modern-image-formats'']"

definition render_blocking_parts :: "part list" where
  "render_blocking_parts =
     [items_part ''resources'' ''render-blocking-resources'',
      ([''totalWastedMs''], [audit_items ''render-blocking-resources''], JNum 0),
      ([''totalWastedMs''], [audit_path ''render-blocking-resources'' [''details'', ''overallSavingsMs'']], JNum 0),
      ([''criticalChains''], [audit_path ''critical-request-chains'' [''details'']], JNull)]"

definition third_party_parts :: "part list" where
  "third_party_parts =
     [items_part ''summary'' ''third-party-summary'',
      ([''totalBlockingTime''], [audit_items ''third-party-summary''], JNum 0),
      ([''totalTransferSize''], [audit_items ''third-party-summary''], JNum 0),
      items_part ''facades'' ''third-party-facades'']"

definition category_parts :: "part list" where
  "category_parts =
     concat (map (\<lambda>(field, key).
                    [([field, ''score''], [category_path key ''score''], JNull),
                     ([field, ''keyAudits''], [category_path key ''auditRefs''], JArr [])])
               other_categories)"

definition metric_parts :: "part list" where
  "metric_parts =
     map (\<lambda>(out, field, audit). ([out], [metrics_item field, audit_path audit [''numericValue'']], JUndef))
       [(''firstContentfulPaint'', ''firstContentfulPaint'', ''first-contentful-paint''),
        (''largestContentfulPaint'', ''largestContentfulPaint'', ''largest-contentful-paint''),
        (''cumulativeLayoutShift'', ''cumulativeLayoutShift'', ''cumulative-layout-shift''),
        (''totalBlockingTime'', ''totalBlockingTime'', ''total-blocking-time''),
        (''maxPotentialFID'', ''maxPotentialFID'', ''max-potential-fid''),
        (''speedIndex'', ''speedIndex'', ''speed-index''),
        (''timeToInteractive'', ''interactive'', ''interactive'')]
     @ map (\<lambda>field. ([field], [metrics_item field], JUndef))
       [''firstMeaningfulPaint'', ''observedFirstContentfulPaint'', ''observedLargestContentfulPaint'',
        ''observedSpeedIndex'', ''observedDomContentLoaded'', ''observedLoad'',
        ''observedNavigationStart'', ''observedTimeOrigin'', ''observedTraceEnd'']"

definition extracted_parts :: "runtime \<Rightarrow> ((js \<Rightarrow> js result) \<times> part list) list" where
  "extracted_parts rt =
     [(extractVisualData, visual_parts), (extractElementData, element_parts),
      (extractNetworkData, network_parts), (extractJavaScriptData, javascript_parts),
      (extractImageOptimizationData, image_parts), (extractRenderBlockingData, render_blocking_parts),
      (extractThirdPartyData rt, third_party_parts), (extractOtherCategories rt, category_parts),
      (extractDetailedMetrics, metric_parts)]"

definition defaulted :: "js \<Rightarrow> js \<Rightarrow> part list \<Rightarrow> bool" where
  "defaulted response v table =
     list_all (\<lambda>(out, sources, dflt).
        list_all (\<lambda>path. path_get response path = JUndef) sources \<longrightarrow> path_get v out = dflt) table"

text \<open>
  A response whose thumbnails have a \<open>null\<close> entry, and one with a single audit whose
  items are an object and two scalars.
\<close>

definition null_item_response :: js where
  "null_item_response =
     JObj [(''lighthouseResult'',
        JObj [(''audits'',
           JObj [(''screenshot-thumbnails'', JObj [(''details'', JObj [(''items'', JArr [JNull])])])])])]"

definition partial_response :: js where
  "partial_response =
     JObj [(''lighthouseResult'',
        JObj [(''audits'',
                 JObj [(''network-requests'',
                          JObj [(''details'',
                             JObj [(''items'',
                                JArr [JObj [(''url'', JStr ''https://example.com/'')], JStr ''x'', JNum 7])])])]),
              (''categories'', JObj [])])]"

section \<open>Helper lemmas\<close>

lemma bindE_Inr_iff: "bindE m f = Inr y \<longleftrightarrow> (\<exists>x. m = Inr x \<and> f x = Inr y)"
  by (cases m) (simp_all add: bindE_def)

lemma bindE_Inr [simp]: "bindE (Inr x) f = f x"
  by (simp add: bindE_def)

lemma bindE_Inl [simp]: "bindE (Inl e) f = Inl e"
  by (simp add: bindE_def)

lemma example_score_scaled:
  "example_score \<noteq> 0" "\<lfloor>num_mul example_runtime example_score 100 + 1 / 2\<rfloor> = 85"
  by code_simp+

section \<open>The performance summary conflates a zero score with a missing one\<close>

lemma summary_score_zero:
  "oget performance ''score'' = JNum 0 \<or> oget performance ''score'' = JUndef \<Longrightarrow>
   summary_score rt performance = JNull"
  by (auto simp: summary_score_def)

lemma summary_score_nonzero:
  "oget performance ''score'' = JNum x \<Longrightarrow> x \<noteq> 0 \<Longrightarrow>
   summary_score rt performance = JNum (of_int \<lfloor>num_mul rt x 100 + 1 / 2\<rfloor>)"
  by (auto simp: summary_score_def oget_def js_mul_def math_round_def split: if_splits)

lemma createPerformanceSummary_score:
  assumes "createPerformanceSummary rt data u s = Inr summary"
  shows "\<exists>lh. get data ''lighthouseResult'' = Inr lh \<and>
         jprop (jprop summary ''performance'') ''score'' = summary_score rt (performance_of lh)"
  using assms
  by (auto simp: createPerformanceSummary_def bindE_Inr_iff Let_def)

text \<open>
  Claim C10.  In the performance summary a lighthouse performance score of exactly 0 is
  reported as \<open>null\<close>, the value also reported when the score is absent, because the
  score is tested for truthiness before it is scaled; any other numeric score \<open>x\<close> is
  reported as \<open>Math.round(x * 100)\<close>, the product being the one the runtime computes.
\<close>

theorem zero_score_reported_as_null:
  assumes "createPerformanceSummary rt data u s = Inr summary"
    and "get data ''lighthouseResult'' = Inr lh"
    and "sc = oget (performance_of lh) ''score''"
  shows "(sc = JNum 0 \<or> sc = JUndef \<longrightarrow> jprop (jprop summary ''performance'') ''score'' = JNull) \<and>
         (\<forall>x. sc = JNum x \<and> x \<noteq> 0 \<longrightarrow>
              jprop (jprop summary ''performance'') ''score'' = JNum (of_int \<lfloor>num_mul rt x 100 + 1 / 2\<rfloor>))"
  using createPerformanceSummary_score[OF assms(1)] assms(2,3)
  by (auto simp: summary_score_zero summary_score_nonzero)

theorem zero_score_reported_as_null_witness:
  "(\<exists>summary. createPerformanceSummary example_runtime (example_response (JNum 0)) ''https://example.com'' ''mobile''
        = Inr summary \<and> jprop (jprop summary ''performance'') ''score'' = JNull)
   \<and> (\<exists>summary. createPerformanceSummary example_runtime (example_response JUndef) ''https://example.com'' ''mobile''
        = Inr summary \<and> jprop (jprop summary ''performance'') ''score'' = JNull)
   \<and> (\<exists>summary. createPerformanceSummary example_runtime (example_response (JNum example_score)) ''https://example.com'' ''mobile''
        = Inr summary \<and> jprop (jprop summary ''performance'') ''score'' = JNum 85)
   \<and> (\<exists>summary. createPerformanceSummary example_runtime (example_response (JNum low_score)) ''https://example.com'' ''mobile''
        = Inr summary \<and> jprop (jprop summary ''performance'') ''score'' = JNum 2)
   \<and> (\<exists>summary. createPerformanceSummary example_runtime (example_response (JNum odd_score)) ''https://example.com'' ''mobile''
        = Inr summary \<and> jprop (jprop summary ''performance'') ''score'' = JNum 28)
   \<and> createPerformanceSummary example_runtime (example_response (JNum 0)) ''https://example.com'' ''mobile''
     = createPerformanceSummary example_runtime (example_response JUndef) ''https://example.com'' ''mobile''"
proof -
  let ?run = "\<lambda>sc. createPerformanceSummary example_runtime (example_response sc) ''https://example.com'' ''mobile''"
  let ?score = "\<lambda>summary. jprop (jprop summary ''performance'') ''score''"
  have ex: "\<exists>summary. ?run sc = Inr summary" for sc
    by (simp add: createPerformanceSummary_def example_response_def get_def oget_def
        opportunities_def performance_of_def)
  have lh: "get (example_response sc) ''lighthouseResult'' =
      Inr (JObj [(''categories'', JObj [(''performance'', JObj [(''score'', sc)])]),
                 (''audits'', JObj [(''largest-contentful-paint'',
                                    JObj [(''displayValue'', JStr ''2.5 s''), (''score'', JNum 1)])])])"
    (is "_ = Inr (?lh sc)") for sc
    by (simp add: example_response_def get_def)
  have sc: "oget (performance_of (?lh sc)) ''score'' = sc" for sc
    by (simp add: performance_of_def oget_def)
  have scaled: "?score summary = JNum (of_int \<lfloor>num_mul example_runtime x 100 + 1 / 2\<rfloor>)"
    if "?run (JNum x) = Inr summary" and "x \<noteq> 0" for x summary
  proof -
    from zero_score_reported_as_null[OF that(1) lh sc[symmetric]]
    have "\<forall>y. JNum x = JNum y \<and> y \<noteq> 0 \<longrightarrow>
            ?score summary = JNum (of_int \<lfloor>num_mul example_runtime y 100 + 1 / 2\<rfloor>)"
      by (rule conjunct2)
    then have "JNum x = JNum x \<and> x \<noteq> 0 \<longrightarrow>
            ?score summary = JNum (of_int \<lfloor>num_mul example_runtime x 100 + 1 / 2\<rfloor>)"
      by (rule spec)
    with that(2) show ?thesis by simp
  qed
  have n: "example_score \<noteq> 0" "low_score \<noteq> 0" "odd_score \<noteq> 0"
    by code_simp+
  have r: "\<lfloor>num_mul example_runtime example_score 100 + 1 / 2\<rfloor> = 85"
    "\<lfloor>num_mul example_runtime low_score 100 + 1 / 2\<rfloor> = 2"
    "\<lfloor>num_mul example_runtime odd_score 100 + 1 / 2\<rfloor> = 28"
    by code_simp+
  from ex[of "JNum 0"] obtain s0 where s0: "?run (JNum 0) = Inr s0" by blast
  from ex[of JUndef] obtain s1 where s1: "?run JUndef = Inr s1" by blast
  from ex[of "JNum example_score"] obtain s2 where s2: "?run (JNum example_score) = Inr s2" by blast
  from ex[of "JNum low_score"] obtain s3 where s3: "?run (JNum low_score) = Inr s3" by blast
  from ex[of "JNum odd_score"] obtain s4 where s4: "?run (JNum odd_score) = Inr s4" by blast
  have "?score s0 = JNull"
    using zero_score_reported_as_null[OF s0 lh sc[symmetric]] by simp
  moreover have "?score s1 = JNull"
    using zero_score_reported_as_null[OF s1 lh sc[symmetric]] by simp
  moreover have "?score s2 = JNum 85"
    using scaled[OF s2 n(1)] unfolding r by simp
  moreover have "?score s3 = JNum 2"
    using scaled[OF s3 n(2)] unfolding r by simp
  moreover have "?score s4 = JNum 28"
    using scaled[OF s4 n(3)] unfolding r by simp
  moreover have "?run (JNum 0) = ?run JUndef"
    by (simp add: createPerformanceSummary_def example_response_def get_def oget_def
        opportunities_def performance_of_def summary_score_def)
  ultimately show ?thesis using s0 s1 s2 s3 s4 by simp
qed

lemmas client_defs =
  analyzePageSpeed_def limiter_def analyze_body_def psi_cache_key_def createCacheKey_def
  getCached_def setCache_def makeRequest_def psi_attempt_def fetch_def read_json_def
  response_ok_def psi_request_def categories_param_def
  getCruxData_def crux_body_def crux_cache_key_def crux_request_def form_factor_param_def

section \<open>Unknown tool names\<close>

lemma tool_of_name_None: "tool_of_name name = None \<longleftrightarrow> name \<notin> set tool_names"
  by (simp add: tool_of_name_def tool_names_def)

text \<open>
  Claim C7, as stated: a call-tool request with an unregistered name gets an error-flagged
  content response and nothing propagates out of the dispatch handler.  The handler
  instead rejects: the default branch of its switch throws.
\<close>

theorem unknown_tool_counterexample:
  "call_tool (server_handlers example_runtime example_config example_upstream no_other_handlers)
     ''no_such_tool'' (JObj []) initial_state
   = Some (Inl (Exn ''Error'' ''Unknown tool: no_such_tool''), initial_state)"
  by (simp add: call_tool_def tool_of_name_def)

text \<open>
  Claim C7, amended: for every name that is not among the registered tool names the
  call-tool handler runs no tool handler and changes no state; it rejects with the error
  \<open>Unknown tool: name\<close>, which is left to the protocol library to report.
\<close>

theorem unknown_tool_rejected:
  "name \<notin> set tool_names \<Longrightarrow>
   call_tool handlers name args st = Some (Inl (Exn ''Error'' (''Unknown tool: '' @ name)), st)"
  using tool_of_name_None[of name] by (simp add: call_tool_def)

theorem unknown_tool_rejected_witness:
  "''no_such_tool'' \<notin> set tool_names \<and>
   call_tool no_other_handlers ''no_such_tool'' JUndef initial_state
     = Some (Inl (Exn ''Error'' ''Unknown tool: no_such_tool''), initial_state)"
proof -
  have h: "''no_such_tool'' \<notin> set tool_names"
    by (simp add: tool_names_def)
  from unknown_tool_rejected[OF h] h show ?thesis by simp
qed

section \<open>A field-data result without a record\<close>

lemma formatCruxSummary_no_record:
  "is_object cruxData \<Longrightarrow> jprop cruxData ''record'' = JUndef \<Longrightarrow>
   formatCruxSummary rt cruxData u = Inr (no_field_data_text u)"
  by (cases cruxData) (simp_all add: formatCruxSummary_def get_def)

text \<open>
  Claim C8.  When the client returns a field-data result that is an object without a
  \<open>record\<close>, the crux-summary tool answers with a response whose error flag is not set
  and whose text says that no field data is available for lack of traffic.
\<close>

theorem crux_summary_without_record:
  assumes "CruxSummarySchema rt args = Inr input"
    and "getCruxData cfg up input st = Some (Inr cruxData, st')"
    and "is_object cruxData"
    and "jprop cruxData ''record'' = JUndef"
  shows "handleCruxSummary rt cfg up args st
           = Some (\<lparr>content = [Text (no_field_data_text (crux_url input))], isError = False\<rparr>, st')
         \<and> (\<exists>before after. no_field_data_text (crux_url input)
               = before @ ''No field data available (insufficient traffic)'' @ after)"
proof -
  have "\<exists>before after. no_field_data_text u
               = before @ ''No field data available (insufficient traffic)'' @ after" for u
    unfolding no_field_data_text_def
    by (rule exI[of _ "''# CrUX Field Data'' @ nl @ nl @ ''**URL:** '' @ u @ nl @ ''**Status:** ''"],
        rule exI[of _ "nl @ nl @ ''This URL doesn'' @ [CHR 0x27] @ ''t have enough real-world usage data in Chrome UX Report.''"])
       simp
  then show ?thesis
    using assms by (simp add: handleCruxSummary_def formatCruxSummary_no_record ok_response_def)
qed

theorem crux_summary_without_record_witness:
  "\<exists>st'. handleCruxSummary example_runtime example_config example_upstream
      (JObj [(''url'', JStr ''https://example.com'')]) initial_state
    = Some (\<lparr>content = [Text (no_field_data_text ''https://example.com'')], isError = False\<rparr>, st')"
proof -
  let ?input = "\<lparr>crux_url = ''https://example.com'', formFactor = None\<rparr>"
  have p: "CruxSummarySchema example_runtime (JObj [(''url'', JStr ''https://example.com'')]) = Inr ?input"
    by (simp add: CruxSummarySchema_def UrlSchema_def FormFactorSchema_def example_runtime_def)
  obtain st' where g: "getCruxData example_config example_upstream ?input initial_state = Some (Inr (JObj []), st')"
    by (simp add: client_defs example_config_def example_upstream_def initial_state_def)
  from crux_summary_without_record[OF p g] show ?thesis by simp
qed

section \<open>The retry policy of the lab-analysis path\<close>

lemma psi_attempt_eq:
  "psi_attempt cfg up req st =
     (attempt_result cfg (up (length (fetch_log st)) req),
      st\<lparr>fetch_log := fetch_log st @ [req],
         now := now st + int (elapsed cfg (up (length (fetch_log st)) req))\<rparr>)"
  by (auto simp: psi_attempt_def fetch_def attempt_result_def elapsed_def Let_def
      split: outcome.splits)

lemma client_error_result:
  "client_error_reply cfg r \<Longrightarrow> \<exists>m. attempt_result cfg r = Inl (Exn ''ClientError'' m)"
  by (auto simp: client_error_reply_def attempt_result_def response_ok_def split: outcome.splits)

lemma transient_result:
  "transient_failure cfg r \<Longrightarrow> \<exists>e. attempt_result cfg r = Inl e \<and> ename e \<noteq> ''ClientError''"
  by (auto simp: transient_failure_def attempt_result_def response_ok_def abort_error_def
      read_json_def invalid_json_def split: outcome.splits)

lemma reply_cases:
  "client_error_reply cfg r \<or> transient_failure cfg r \<or> (\<exists>d. attempt_result cfg r = Inr d)"
  by (auto simp: client_error_reply_def transient_failure_def attempt_result_def response_ok_def read_json_def
      split: outcome.splits option.splits)

lemma main_error_from_mem: "main_error_from seen es (m, c) = m \<or> main_error_from seen es (m, c) \<in> set es"
proof (induction es arbitrary: seen m c)
  case Nil
  then show ?case by simp
next
  case (Cons e es)
  show ?case
    using Cons.IH[of "seen @ [e]" e "Suc (length (filter (\<lambda>x. emsg x = emsg e) seen))"]
          Cons.IH[of "seen @ [e]" m c]
    by (auto simp: Let_def)
qed

lemma main_error_mem: "main_error e es = e \<or> main_error e es \<in> set es"
  unfolding main_error_def by (rule main_error_from_mem)

lemma sorted_backoff: "sorted (map (\<lambda>i. min (1000 * 2 ^ i) (10000::nat)) [0..<n])"
proof -
  have "mono (\<lambda>i::nat. min (1000 * 2 ^ i) (10000::nat))"
  proof (rule monoI)
    fix x y :: nat
    assume "x \<le> y"
    then have "(2::nat) ^ x \<le> 2 ^ y"
      by (simp add: power_increasing)
    then have "1000 * (2::nat) ^ x \<le> 1000 * 2 ^ y"
      by simp
    then show "min (1000 * 2 ^ x) (10000::nat) \<le> min (1000 * 2 ^ y) 10000"
      by (rule min.mono) simp
  qed
  then show ?thesis
    by (simp add: sorted_map sorted_wrt_iff_nth_less mono_def)
qed

lemma retry_timeouts_eq: "retry_timeouts n 2 1000 10000 = backoff_delays n"
  unfolding retry_timeouts_def backoff_delays_def
  using sorted_backoff[of n] by (simp add: sorted_sort_id)

lemma length_backoff_delays [simp]: "length (backoff_delays n) = n"
  by (simp add: backoff_delays_def)

lemma makeRequest_eq:
  "makeRequest cfg up req st =
     pRetry (psi_attempt cfg up req) rethrow_client_error (backoff_delays (retryAttempts cfg)) [] st"
  by (simp add: makeRequest_def retry_timeouts_eq)

lemma pRetry_run:
  assumes "\<forall>i<k. transient_failure cfg (up (length (fetch_log st) + i) req)"
    and "k \<le> length ds"
    and "\<not> transient_failure cfg (up (length (fetch_log st) + k) req)"
  shows "\<exists>st'. pRetry (psi_attempt cfg up req) rethrow_client_error ds errs st
            = (attempt_result cfg (up (length (fetch_log st) + k) req), st')
          \<and> fetch_log st' = fetch_log st @ replicate (Suc k) req
          \<and> sleeps st' = sleeps st @ take k ds
          \<and> active st' = active st
          \<and> client_cache st' = client_cache st
          \<and> shared_cache st' = shared_cache st
          \<and> now st \<le> now st'"
  using assms
proof (induction ds arbitrary: k errs st)
  case Nil
  then have k: "k = 0" by simp
  let ?r = "up (length (fetch_log st)) req"
  from reply_cases[of cfg ?r] Nil(3) k
  consider (c) "client_error_reply cfg ?r" | (s) d where "attempt_result cfg ?r = Inr d"
    by auto
  then show ?case
  proof cases
    case c
    then obtain m where "attempt_result cfg ?r = Inl (Exn ''ClientError'' m)"
      using client_error_result by blast
    then show ?thesis
      using k by (simp add: psi_attempt_eq rethrow_client_error_def)
  next
    case s
    then show ?thesis
      using k by (simp add: psi_attempt_eq)
  qed
next
  case (Cons d ds)
  let ?r = "up (length (fetch_log st)) req"
  show ?case
  proof (cases k)
    case 0
    from reply_cases[of cfg ?r] Cons.prems(3) 0
    consider (c) "client_error_reply cfg ?r" | (s) x where "attempt_result cfg ?r = Inr x"
      by auto
    then show ?thesis
    proof cases
      case c
      then obtain m where "attempt_result cfg ?r = Inl (Exn ''ClientError'' m)"
        using client_error_result by blast
      then show ?thesis
        using 0 by (simp add: psi_attempt_eq rethrow_client_error_def)
    next
      case s
      then show ?thesis
        using 0 by (simp add: psi_attempt_eq)
    qed
  next
    case (Suc j)
    from Cons.prems(1) Suc have "transient_failure cfg ?r"
      by (metis add.right_neutral zero_less_Suc)
    then obtain e where e: "attempt_result cfg ?r = Inl e" "ename e \<noteq> ''ClientError''"
      using transient_result by blast
    let ?st1 = "sleep d (st\<lparr>fetch_log := fetch_log st @ [req],
                            now := now st + int (elapsed cfg ?r)\<rparr>)"
    have len: "length (fetch_log ?st1) = Suc (length (fetch_log st))"
      by (simp add: sleep_def)
    have p1: "\<forall>i<j. transient_failure cfg (up (length (fetch_log ?st1) + i) req)"
      using Cons.prems(1) Suc len by (metis Suc_less_eq add_Suc_shift)
    have p2: "j \<le> length ds"
      using Cons.prems(2) Suc by simp
    have p3: "\<not> transient_failure cfg (up (length (fetch_log ?st1) + j) req)"
      using Cons.prems(3) Suc len by simp
    from Cons.IH[OF p1 p2 p3, of "e # errs"]
    obtain st' where st': "pRetry (psi_attempt cfg up req) rethrow_client_error ds (e # errs) ?st1
            = (attempt_result cfg (up (length (fetch_log ?st1) + j) req), st')"
          "fetch_log st' = fetch_log ?st1 @ replicate (Suc j) req"
          "sleeps st' = sleeps ?st1 @ take j ds"
          "active st' = active ?st1"
          "client_cache st' = client_cache ?st1"
          "shared_cache st' = shared_cache ?st1"
          "now ?st1 \<le> now st'"
      by blast
    have "pRetry (psi_attempt cfg up req) rethrow_client_error (d # ds) errs st
            = pRetry (psi_attempt cfg up req) rethrow_client_error ds (e # errs) ?st1"
      using e by (simp add: psi_attempt_eq rethrow_client_error_def)
    then show ?thesis
      using st' Suc len by (simp add: sleep_def replicate_app_Cons_same)
  qed
qed

lemma pRetry_exhausted:
  assumes "\<forall>i\<le>length ds. transient_failure cfg (up (length (fetch_log st) + i) req)"
  shows "\<exists>e st'. pRetry (psi_attempt cfg up req) rethrow_client_error ds errs st = (Inl e, st')
          \<and> (e \<in> set errs \<or>
               (\<exists>i\<le>length ds. attempt_result cfg (up (length (fetch_log st) + i) req) = Inl e))
          \<and> fetch_log st' = fetch_log st @ replicate (Suc (length ds)) req
          \<and> sleeps st' = sleeps st @ ds
          \<and> active st' = active st
          \<and> client_cache st' = client_cache st
          \<and> shared_cache st' = shared_cache st"
  using assms
proof (induction ds arbitrary: errs st)
  case Nil
  let ?r = "up (length (fetch_log st)) req"
  from Nil have "transient_failure cfg ?r" by simp
  then obtain e where e: "attempt_result cfg ?r = Inl e" "ename e \<noteq> ''ClientError''"
    using transient_result by blast
  have "main_error e (rev errs @ [e]) = e \<or> main_error e (rev errs @ [e]) \<in> set errs"
    using main_error_mem[of e "rev errs @ [e]"] by auto
  then show ?case
    using e by (auto simp: psi_attempt_eq rethrow_client_error_def)
next
  case (Cons d ds)
  let ?r = "up (length (fetch_log st)) req"
  from Cons.prems have "transient_failure cfg ?r"
    by (metis add.right_neutral le0)
  then obtain e where e: "attempt_result cfg ?r = Inl e" "ename e \<noteq> ''ClientError''"
    using transient_result by blast
  let ?st1 = "sleep d (st\<lparr>fetch_log := fetch_log st @ [req],
                          now := now st + int (elapsed cfg ?r)\<rparr>)"
  have len: "length (fetch_log ?st1) = Suc (length (fetch_log st))"
    by (simp add: sleep_def)
  have p: "\<forall>i\<le>length ds. transient_failure cfg (up (length (fetch_log ?st1) + i) req)"
  proof (intro allI impI)
    fix i assume "i \<le> length ds"
    then have "Suc i \<le> length (d # ds)" by simp
    with Cons.prems have "transient_failure cfg (up (length (fetch_log st) + Suc i) req)" by blast
    then show "transient_failure cfg (up (length (fetch_log ?st1) + i) req)"
      using len by simp
  qed
  from Cons.IH[OF p, of "e # errs"]
  obtain e' st' where st': "pRetry (psi_attempt cfg up req) rethrow_client_error ds (e # errs) ?st1 = (Inl e', st')"
      "e' \<in> set (e # errs) \<or> (\<exists>i\<le>length ds. attempt_result cfg (up (length (fetch_log ?st1) + i) req) = Inl e')"
      "fetch_log st' = fetch_log ?st1 @ replicate (Suc (length ds)) req"
      "sleeps st' = sleeps ?st1 @ ds"
      "active st' = active ?st1"
      "client_cache st' = client_cache ?st1"
      "shared_cache st' = shared_cache ?st1"
    by blast
  have run: "pRetry (psi_attempt cfg up req) rethrow_client_error (d # ds) errs st
          = pRetry (psi_attempt cfg up req) rethrow_client_error ds (e # errs) ?st1"
    using e by (simp add: psi_attempt_eq rethrow_client_error_def)
  have mem: "e' \<in> set errs \<or>
             (\<exists>i\<le>length (d # ds). attempt_result cfg (up (length (fetch_log st) + i) req) = Inl e')"
  proof -
    from st'(2) consider "e' = e" | "e' \<in> set errs"
      | i where "i \<le> length ds" "attempt_result cfg (up (length (fetch_log ?st1) + i) req) = Inl e'"
      by auto
    then show ?thesis
    proof cases
      case 1
      then have "attempt_result cfg (up (length (fetch_log st) + 0) req) = Inl e'"
        using e by simp
      then show ?thesis by blast
    next
      case 2
      then show ?thesis by simp
    next
      case 3
      then have "Suc i \<le> length (d # ds)"
        and "attempt_result cfg (up (length (fetch_log st) + Suc i) req) = Inl e'"
        using len by simp_all
      then show ?thesis by blast
    qed
  qed
  show ?case
    using run st' mem len by (simp add: sleep_def replicate_app_Cons_same)
qed

text \<open>
  Claim C2.  With \<open>reply i\<close> the answer to the \<open>i\<close>-th attempt of one
  \<open>makeRequest\<close>: a first reply with a status in 400-499 surfaces at once, after
  exactly one fetch and no backoff; transient failures (timeout, transport error, any
  other failing status, unreadable body) are retried, the \<open>i\<close>-th retry after
  \<open>min (1000 * 2 ^ i) 10000\<close> milliseconds, so that \<open>k\<close> of them followed by a
  reply that is not one cost \<open>k + 1\<close> fetches and give that reply's result; when all
  \<open>retryAttempts + 1\<close> attempts fail transiently, the failure of one of them
  surfaces.
\<close>

theorem retry_policy:
  fixes cfg up req st
  defines "reply \<equiv> (\<lambda>i. up (length (fetch_log st) + i) req)"
  shows
    "(client_error_reply cfg (reply 0) \<longrightarrow>
        (\<exists>m st'. makeRequest cfg up req st = (Inl (Exn ''ClientError'' m), st')
           \<and> fetch_log st' = fetch_log st @ [req] \<and> sleeps st' = sleeps st))
   \<and> (\<forall>k\<le>retryAttempts cfg.
        (\<forall>i<k. transient_failure cfg (reply i)) \<and> \<not> transient_failure cfg (reply k) \<longrightarrow>
        (\<exists>st'. makeRequest cfg up req st = (attempt_result cfg (reply k), st')
           \<and> fetch_log st' = fetch_log st @ replicate (Suc k) req
           \<and> sleeps st' = sleeps st @ take k (backoff_delays (retryAttempts cfg))))
   \<and> ((\<forall>i\<le>retryAttempts cfg. transient_failure cfg (reply i)) \<longrightarrow>
        (\<exists>e st' i. makeRequest cfg up req st = (Inl e, st')
           \<and> i \<le> retryAttempts cfg \<and> attempt_result cfg (reply i) = Inl e
           \<and> fetch_log st' = fetch_log st @ replicate (Suc (retryAttempts cfg)) req
           \<and> sleeps st' = sleeps st @ backoff_delays (retryAttempts cfg)))"
proof (intro conjI allI impI)
  assume c: "client_error_reply cfg (reply 0)"
  then obtain m where m: "attempt_result cfg (reply 0) = Inl (Exn ''ClientError'' m)"
    using client_error_result by blast
  from c have nt: "\<not> transient_failure cfg (up (length (fetch_log st) + 0) req)"
    by (auto simp: reply_def client_error_reply_def transient_failure_def response_ok_def
        split: outcome.splits)
  from pRetry_run[of 0 cfg up st req "backoff_delays (retryAttempts cfg)" "[]", OF _ _ nt] m
  show "\<exists>m st'. makeRequest cfg up req st = (Inl (Exn ''ClientError'' m), st')
           \<and> fetch_log st' = fetch_log st @ [req] \<and> sleeps st' = sleeps st"
    by (auto simp: makeRequest_eq reply_def)
next
  fix k
  assume k: "k \<le> retryAttempts cfg"
    and h: "(\<forall>i<k. transient_failure cfg (reply i)) \<and> \<not> transient_failure cfg (reply k)"
  from pRetry_run[of k cfg up st req "backoff_delays (retryAttempts cfg)" "[]"] k h
  show "\<exists>st'. makeRequest cfg up req st = (attempt_result cfg (reply k), st')
           \<and> fetch_log st' = fetch_log st @ replicate (Suc k) req
           \<and> sleeps st' = sleeps st @ take k (backoff_delays (retryAttempts cfg))"
    by (auto simp: makeRequest_eq reply_def)
next
  assume "\<forall>i\<le>retryAttempts cfg. transient_failure cfg (reply i)"
  then have "\<forall>i\<le>length (backoff_delays (retryAttempts cfg)).
      transient_failure cfg (up (length (fetch_log st) + i) req)"
    by (simp add: reply_def)
  from pRetry_exhausted[of "backoff_delays (retryAttempts cfg)" cfg up st req "[]", OF this]
  show "\<exists>e st' i. makeRequest cfg up req st = (Inl e, st')
           \<and> i \<le> retryAttempts cfg \<and> attempt_result cfg (reply i) = Inl e
           \<and> fetch_log st' = fetch_log st @ replicate (Suc (retryAttempts cfg)) req
           \<and> sleeps st' = sleeps st @ backoff_delays (retryAttempts cfg)"
    by (auto simp: makeRequest_eq reply_def)
qed

lemma backoff_delays_3: "backoff_delays 3 = [1000, 2000, 4000]"
  by code_simp

lemma backoff_delays_5: "backoff_delays 5 = [1000, 2000, 4000, 8000, 10000]"
  by code_simp

lemmas run_defs =
  analyzePageSpeed_def limiter_def analyze_body_def psi_cache_key_def createCacheKey_def
  getCached_def setCache_def makeRequest_eq psi_attempt_def fetch_def read_json_def
  response_ok_def psi_request_def categories_param_def rethrow_client_error_def
  getCruxData_def crux_body_def crux_cache_key_def crux_request_def form_factor_param_def
  example_config_def example_input_def initial_state_def backoff_delays_3
  and_then_def returned_def fetch_count_def cached_entry_def clock_def sleep_def api_error_message_def

theorem retry_policy_witness:
  "(\<exists>m st'. makeRequest example_config (status_upstream 429 None)
        (psi_request example_config (example_input [''performance''])) initial_state
        = (Inl (Exn ''ClientError'' m), st')
      \<and> length (fetch_log st') = 1 \<and> sleeps st' = [])
   \<and> (\<exists>st'. makeRequest example_config (flaky_upstream 2)
        (psi_request example_config (example_input [''performance''])) initial_state
        = (Inr (example_response (JNum example_score)), st')
      \<and> length (fetch_log st') = 3 \<and> sleeps st' = [1000, 2000])
   \<and> (\<exists>e st'. makeRequest example_config (status_upstream 503 None)
        (psi_request example_config (example_input [''performance''])) initial_state
        = (Inl e, st')
      \<and> length (fetch_log st') = 4 \<and> sleeps st' = [1000, 2000, 4000])"
proof -
  let ?req = "psi_request example_config (example_input [''performance''])"
  have r: "retryAttempts example_config = 3" "fetch_log initial_state = []" "sleeps initial_state = []"
    by (simp_all add: example_config_def initial_state_def)
  have c: "client_error_reply example_config (status_upstream 429 None (length (fetch_log initial_state) + 0) ?req)"
    by (simp add: client_error_reply_def status_upstream_def example_config_def)
  have t: "transient_failure example_config (status_upstream 503 None i ?req)" for i
    by (simp add: transient_failure_def status_upstream_def example_config_def response_ok_def)
  have f: "(\<forall>i<2. transient_failure example_config (flaky_upstream 2 (length (fetch_log initial_state) + i) ?req))
         \<and> \<not> transient_failure example_config (flaky_upstream 2 (length (fetch_log initial_state) + 2) ?req)"
    using t by (simp add: flaky_upstream_def r transient_failure_def example_upstream_def
        example_config_def response_ok_def)
  have v: "attempt_result example_config (flaky_upstream 2 (length (fetch_log initial_state) + 2) ?req)
         = Inr (example_response (JNum example_score))"
    by (simp add: flaky_upstream_def r attempt_result_def example_upstream_def example_config_def
        response_ok_def read_json_def psi_request_def)
  note p1 = retry_policy[of example_config "status_upstream 429 None" initial_state ?req, THEN conjunct1, rule_format, OF c]
  note p2 = retry_policy[of example_config "flaky_upstream 2" initial_state ?req, THEN conjunct2, THEN conjunct1,
      rule_format, of 2, OF _ f]
  note p3 = retry_policy[of example_config "status_upstream 503 None" initial_state ?req, THEN conjunct2, THEN conjunct2,
      rule_format]
  have "\<exists>m st'. makeRequest example_config (status_upstream 429 None) ?req initial_state
        = (Inl (Exn ''ClientError'' m), st') \<and> length (fetch_log st') = 1 \<and> sleeps st' = []"
    using p1 by (auto simp: r)
  moreover have "\<exists>st'. makeRequest example_config (flaky_upstream 2) ?req initial_state
        = (Inr (example_response (JNum example_score)), st')
      \<and> length (fetch_log st') = 3 \<and> sleeps st' = [1000, 2000]"
    using p2 v by (auto simp: r backoff_delays_3)
  moreover have "\<exists>e st'. makeRequest example_config (status_upstream 503 None) ?req initial_state
        = (Inl e, st') \<and> length (fetch_log st') = 4 \<and> sleeps st' = [1000, 2000, 4000]"
    using p3 t by (auto simp: r backoff_delays_3)
  ultimately show ?thesis by blast
qed

section \<open>Cache-first lookup\<close>

lemma pRetry_frame:
  "pRetry (psi_attempt cfg up req) h ds errs st = (r, st') \<Longrightarrow>
   \<exists>n>0. fetch_log st' = fetch_log st @ replicate n req \<and> active st' = active st
        \<and> client_cache st' = client_cache st \<and> shared_cache st' = shared_cache st"
proof (induction ds arbitrary: errs st)
  case Nil
  then have "fetch_log st' = fetch_log st @ replicate 1 req \<and> active st' = active st
        \<and> client_cache st' = client_cache st \<and> shared_cache st' = shared_cache st"
    by (auto simp: psi_attempt_eq split: sum.splits option.splits)
  then show ?case by blast
next
  case (Cons d ds)
  let ?r = "attempt_result cfg (up (length (fetch_log st)) req)"
  let ?st0 = "st\<lparr>fetch_log := fetch_log st @ [req],
                 now := now st + int (elapsed cfg (up (length (fetch_log st)) req))\<rparr>"
  consider (stop) "st' = ?st0"
    | (again) e where "?r = Inl e" "h e = None"
        "pRetry (psi_attempt cfg up req) h ds (e # errs) (sleep d ?st0) = (r, st')"
    using Cons.prems psi_attempt_eq[of cfg up req st] by (auto split: sum.splits option.splits)
  then show ?case
  proof cases
    case stop
    then have "fetch_log st' = fetch_log st @ replicate 1 req \<and> active st' = active st
        \<and> client_cache st' = client_cache st \<and> shared_cache st' = shared_cache st"
      by simp
    then show ?thesis by blast
  next
    case again
    from Cons.IH[OF again(3)] obtain n where n: "0 < n"
      "fetch_log st' = fetch_log (sleep d ?st0) @ replicate n req"
      "active st' = active (sleep d ?st0)"
      "client_cache st' = client_cache (sleep d ?st0)"
      "shared_cache st' = shared_cache (sleep d ?st0)"
      by blast
    then have "fetch_log st' = fetch_log st @ replicate (Suc n) req \<and> active st' = active st
        \<and> client_cache st' = client_cache st \<and> shared_cache st' = shared_cache st"
      by (simp add: sleep_def replicate_app_Cons_same)
    then show ?thesis by blast
  qed
qed

lemma makeRequest_frame:
  assumes "makeRequest cfg up req st = (r, st')"
  shows "fetch_log st' \<noteq> fetch_log st \<and> active st' = active st
        \<and> client_cache st' = client_cache st \<and> shared_cache st' = shared_cache st"
  using pRetry_frame[OF assms[unfolded makeRequest_def]] by auto

lemma fetch_frame:
  assumes "fetch cfg up req st = (r, st')"
  shows "fetch_log st' = fetch_log st @ [req] \<and> active st' = active st
        \<and> client_cache st' = client_cache st \<and> shared_cache st' = shared_cache st"
  using assms by (auto simp: fetch_def Let_def split: if_splits)

lemma release_slot [simp]: "st\<lparr>active := active st\<rparr> = st"
  by simp

lemma getCached_hit:
  assumes "map_of (client_cache st) k = Some (d, ts)" and "now st - ts \<le> cacheTTL cfg"
  shows "getCached cfg k (st\<lparr>active := a\<rparr>) = (d, st\<lparr>active := a\<rparr>)"
  using assms by (simp add: getCached_def)

lemma analyze_hit:
  assumes "active st < maxConcurrency cfg"
    and "map_of (client_cache st) (psi_cache_key input) = Some (d, ts)"
    and "now st - ts \<le> cacheTTL cfg"
    and "truthy d"
  shows "analyzePageSpeed cfg up input st = Some (Inr d, st)"
  using assms by (simp add: analyzePageSpeed_def limiter_def analyze_body_def getCached_hit)

lemma crux_hit:
  assumes "active st < maxConcurrency cfg"
    and "map_of (client_cache st) (crux_cache_key input) = Some (d, ts)"
    and "now st - ts \<le> cacheTTL cfg"
    and "truthy d"
  shows "getCruxData cfg up input st = Some (Inr d, st)"
  using assms by (simp add: getCruxData_def limiter_def crux_body_def getCached_hit)

lemma getCached_frame:
  assumes "getCached cfg k st = (c, st1)"
  shows "fetch_log st1 = fetch_log st \<and> active st1 = active st \<and> now st1 = now st
         \<and> shared_cache st1 = shared_cache st"
  using assms by (auto simp: getCached_def split: option.splits if_splits)

lemma analyze_miss_stores:
  assumes "analyzePageSpeed cfg up input st = Some (Inr d, st1)"
    and "fetch_log st1 \<noteq> fetch_log st"
  shows "map_of (client_cache st1) (psi_cache_key input) = Some (d, now st1) \<and> active st1 = active st"
proof -
  from assms(1) have slot: "active st < maxConcurrency cfg"
    by (simp add: analyzePageSpeed_def limiter_def split: if_splits)
  let ?st0 = "st\<lparr>active := Suc (active st)\<rparr>"
  obtain c st0' where g: "getCached cfg (psi_cache_key input) ?st0 = (c, st0')"
    by (cases "getCached cfg (psi_cache_key input) ?st0")
  note gf = getCached_frame[OF g]
  show ?thesis
  proof (cases "truthy c")
    case True
    with assms(1) slot g gf have "fetch_log st1 = fetch_log st"
      by (auto simp: analyzePageSpeed_def limiter_def analyze_body_def)
    with assms(2) show ?thesis by simp
  next
    case False
    obtain r st2 where m: "makeRequest cfg up (psi_request cfg input) st0' = (r, st2)"
      by (cases "makeRequest cfg up (psi_request cfg input) st0'")
    note mf = makeRequest_frame[OF m]
    from assms(1) slot g m False
    have "r = Inr d" and "st1 = (setCache (psi_cache_key input) d st2)\<lparr>active := active (setCache (psi_cache_key input) d st2) - 1\<rparr>"
      by (auto simp: analyzePageSpeed_def limiter_def analyze_body_def split: sum.splits)
    then show ?thesis
      using mf gf by (simp add: setCache_def AList.update_conv')
  qed
qed

lemma crux_miss_stores:
  assumes "getCruxData cfg up input st = Some (Inr d, st1)"
    and "fetch_log st1 \<noteq> fetch_log st"
  shows "map_of (client_cache st1) (crux_cache_key input) = Some (d, now st1) \<and> active st1 = active st"
proof -
  from assms(1) have slot: "active st < maxConcurrency cfg"
    by (simp add: getCruxData_def limiter_def split: if_splits)
  let ?st0 = "st\<lparr>active := Suc (active st)\<rparr>"
  obtain c st0' where g: "getCached cfg (crux_cache_key input) ?st0 = (c, st0')"
    by (cases "getCached cfg (crux_cache_key input) ?st0")
  note gf = getCached_frame[OF g]
  show ?thesis
  proof (cases "truthy c")
    case True
    with assms(1) slot g gf have "fetch_log st1 = fetch_log st"
      by (auto simp: getCruxData_def limiter_def crux_body_def)
    with assms(2) show ?thesis by simp
  next
    case False
    obtain r st2 where m: "fetch cfg up (crux_request cfg input) st0' = (r, st2)"
      by (cases "fetch cfg up (crux_request cfg input) st0'")
    note mf = fetch_frame[OF m]
    from assms(1) slot g m False
    have "st1 = (setCache (crux_cache_key input) d st2)\<lparr>active := active (setCache (crux_cache_key input) d st2) - 1\<rparr>"
      by (auto simp: getCruxData_def limiter_def crux_body_def split: sum.splits if_splits)
    then show ?thesis
      using mf gf by (simp add: setCache_def AList.update_conv')
  qed
qed

text \<open>
  Claim C1, as stated: a call whose key has a live cache entry makes no upstream request,
  and the same request issued twice within the TTL costs exactly one upstream call.  The
  client tests the cached payload for truthiness, and it stores whatever a successful
  response parsed to: after a field-data response whose body is \<open>null\<close> the entry is
  live (stored at 1200, read at 1200) and the second call still goes upstream.  Nor is
  anything stored when the first call fails: two analysis calls answered with status 429
  are two upstream calls.
\<close>

theorem live_entry_counterexample:
  "cached_entry (crux_cache_key example_crux_input)
     (getCruxData example_config (status_upstream 200 (Some JNull)) example_crux_input initial_state)
     = Some (Some (JNull, 1200))
   \<and> clock (getCruxData example_config (status_upstream 200 (Some JNull)) example_crux_input initial_state)
     = Some 1200
   \<and> fetch_count
       (and_then
         (getCruxData example_config (status_upstream 200 (Some JNull)) example_crux_input initial_state)
         (getCruxData example_config (status_upstream 200 (Some JNull)) example_crux_input))
     = Some 2
   \<and> fetch_count
       (and_then
         (analyzePageSpeed example_config (status_upstream 429 None) (example_input [''performance'']) initial_state)
         (analyzePageSpeed example_config (status_upstream 429 None) (example_input [''performance''])))
     = Some 2"
  by (simp add: run_defs status_upstream_def example_crux_input_def)

text \<open>
  Claim C1, amended.  A call that finds a free limiter slot and whose key has a live entry
  with a truthy payload (every JSON object is truthy) returns that payload and leaves the
  state as it was: no fetch is made and the slot taken for the lookup is given back.
  Consequently, once a call has fetched and returned a truthy value, the same request
  issued after it, at most the TTL later, returns that value without a fetch.  This holds
  for the analysis path and for the field-data path.
\<close>

theorem cache_hit_served_without_upstream:
  assumes "active st < maxConcurrency cfg"
  shows
    "(\<forall>d ts. map_of (client_cache st) (psi_cache_key input) = Some (d, ts)
          \<and> now st - ts \<le> cacheTTL cfg \<and> truthy d
        \<longrightarrow> analyzePageSpeed cfg up input st = Some (Inr d, st))
   \<and> (\<forall>d ts. map_of (client_cache st) (crux_cache_key cinput) = Some (d, ts)
          \<and> now st - ts \<le> cacheTTL cfg \<and> truthy d
        \<longrightarrow> getCruxData cfg up cinput st = Some (Inr d, st))
   \<and> (\<forall>d st1 dt up'. analyzePageSpeed cfg up input st = Some (Inr d, st1)
          \<and> fetch_log st1 \<noteq> fetch_log st \<and> truthy d \<and> dt \<le> cacheTTL cfg
        \<longrightarrow> analyzePageSpeed cfg up' input (tick dt st1) = Some (Inr d, tick dt st1))
   \<and> (\<forall>d st1 dt up'. getCruxData cfg up cinput st = Some (Inr d, st1)
          \<and> fetch_log st1 \<noteq> fetch_log st \<and> truthy d \<and> dt \<le> cacheTTL cfg
        \<longrightarrow> getCruxData cfg up' cinput (tick dt st1) = Some (Inr d, tick dt st1))"
proof (intro conjI allI impI)
  fix d ts
  assume "map_of (client_cache st) (psi_cache_key input) = Some (d, ts)
          \<and> now st - ts \<le> cacheTTL cfg \<and> truthy d"
  then show "analyzePageSpeed cfg up input st = Some (Inr d, st)"
    using assms by (simp add: analyze_hit)
next
  fix d ts
  assume "map_of (client_cache st) (crux_cache_key cinput) = Some (d, ts)
          \<and> now st - ts \<le> cacheTTL cfg \<and> truthy d"
  then show "getCruxData cfg up cinput st = Some (Inr d, st)"
    using assms by (simp add: crux_hit)
next
  fix d st1 dt up'
  assume h: "analyzePageSpeed cfg up input st = Some (Inr d, st1)
          \<and> fetch_log st1 \<noteq> fetch_log st \<and> truthy d \<and> dt \<le> cacheTTL cfg"
  with analyze_miss_stores[of cfg up input st d st1]
  have "map_of (client_cache st1) (psi_cache_key input) = Some (d, now st1)" "active st1 = active st"
    by simp_all
  then show "analyzePageSpeed cfg up' input (tick dt st1) = Some (Inr d, tick dt st1)"
    using h assms by (intro analyze_hit[where ts = "now st1"]) (simp_all add: tick_def)
next
  fix d st1 dt up'
  assume h: "getCruxData cfg up cinput st = Some (Inr d, st1)
          \<and> fetch_log st1 \<noteq> fetch_log st \<and> truthy d \<and> dt \<le> cacheTTL cfg"
  with crux_miss_stores[of cfg up cinput st d st1]
  have "map_of (client_cache st1) (crux_cache_key cinput) = Some (d, now st1)" "active st1 = active st"
    by simp_all
  then show "getCruxData cfg up' cinput (tick dt st1) = Some (Inr d, tick dt st1)"
    using h assms by (intro crux_hit[where ts = "now st1"]) (simp_all add: tick_def)
qed

theorem cache_hit_served_without_upstream_witness:
  "\<exists>st1. analyzePageSpeed example_config example_upstream (example_input [''performance'']) initial_state
           = Some (Inr (example_response (JNum example_score)), st1)
         \<and> length (fetch_log st1) = 1
         \<and> analyzePageSpeed example_config example_upstream (example_input [''performance'']) (tick 3600000 st1)
           = Some (Inr (example_response (JNum example_score)), tick 3600000 st1)
         \<and> (\<exists>st2. getCruxData example_config example_upstream
                    \<lparr>crux_url = ''https://example.com'', formFactor = None\<rparr> (tick 3600000 st1)
                  = Some (Inr (JObj []), st2)
                \<and> length (fetch_log st2) = 2
                \<and> getCruxData example_config example_upstream
                    \<lparr>crux_url = ''https://example.com'', formFactor = None\<rparr> (tick 60000 st2)
                  = Some (Inr (JObj []), tick 60000 st2))"
proof -
  let ?d = "example_response (JNum example_score)"
  obtain st1 where st1:
    "analyzePageSpeed example_config example_upstream (example_input [''performance'']) initial_state
       = Some (Inr ?d, st1)"
    "length (fetch_log st1) = 1"
    by (simp add: run_defs example_upstream_def)
  have slot: "active initial_state < maxConcurrency example_config"
    by (simp add: initial_state_def example_config_def)
  have h: "fetch_log st1 \<noteq> fetch_log initial_state" "truthy ?d" "3600000 \<le> cacheTTL example_config"
    using st1(2) by (auto simp: initial_state_def example_response_def example_config_def)
  from cache_hit_served_without_upstream[OF slot, of "example_input [''performance'']" example_upstream,
      THEN conjunct2, THEN conjunct2, THEN conjunct1, rule_format, of ?d st1 3600000 example_upstream]
    st1 h
  have again: "analyzePageSpeed example_config example_upstream (example_input [''performance'']) (tick 3600000 st1)
           = Some (Inr ?d, tick 3600000 st1)"
    by blast
  let ?c = "\<lparr>crux_url = ''https://example.com'', formFactor = None\<rparr>"
  have st1': "active st1 = 0" "client_cache st1 = [(psi_cache_key (example_input [''performance'']), (?d, now st1))]"
    using st1(1) by (auto simp: run_defs example_upstream_def)
  then have "\<exists>st2. getCruxData example_config example_upstream ?c (tick 3600000 st1) = Some (Inr (JObj []), st2)
      \<and> length (fetch_log st2) = 2"
    using st1(2)
    by (simp add: getCruxData_def limiter_def crux_body_def crux_cache_key_def createCacheKey_def
        getCached_def fetch_def read_json_def response_ok_def crux_request_def form_factor_param_def
        psi_cache_key_def example_input_def categories_param_def setCache_def
        example_config_def example_upstream_def tick_def)
  then obtain st2 where st2:
    "getCruxData example_config example_upstream ?c (tick 3600000 st1) = Some (Inr (JObj []), st2)"
    "length (fetch_log st2) = 2"
    by blast
  have slot2: "active (tick 3600000 st1) < maxConcurrency example_config"
    using st1'(1) by (simp add: tick_def example_config_def)
  have h2: "fetch_log st2 \<noteq> fetch_log (tick 3600000 st1)" "truthy (JObj [])" "60000 \<le> cacheTTL example_config"
    using st1(2) st2(2) by (auto simp: tick_def example_config_def)
  from cache_hit_served_without_upstream[OF slot2, where cinput = ?c and up = example_upstream,
      THEN conjunct2, THEN conjunct2, THEN conjunct2, rule_format, of "JObj []" st2 60000 example_upstream]
    st2 h2
  have "getCruxData example_config example_upstream ?c (tick 60000 st2) = Some (Inr (JObj []), tick 60000 st2)"
    by blast
  with st1 again st2 show ?thesis by blast
qed

section \<open>The cache key and the order of the categories\<close>

lemma createPSICacheKey_permutation:
  "mset cs = mset cs' \<Longrightarrow> createPSICacheKey u s cs l = createPSICacheKey u s cs' l"
proof -
  assume "mset cs = mset cs'"
  then have "sort cs = sort cs'"
    by (intro properties_for_sort) simp_all
  then show ?thesis
    by (simp add: createPSICacheKey_def)
qed

text \<open>
  Claim C3 fails on the client: its key joins the categories in the order given, so two
  requests that differ only in that order get different keys and the second is fetched
  again.  The key builder of the cache module, which the client does not use, sorts them.
\<close>

theorem category_order_changes_cache_key:
  "psi_cache_key (example_input [''performance'', ''seo''])
     = ''psi_v5_categories=performance,seo|locale=en|strategy=mobile|url=https://example.com''
   \<and> psi_cache_key (example_input [''seo'', ''performance''])
     = ''psi_v5_categories=seo,performance|locale=en|strategy=mobile|url=https://example.com''
   \<and> fetch_count
       (and_then
         (analyzePageSpeed example_config example_upstream (example_input [''performance'', ''seo'']) initial_state)
         (analyzePageSpeed example_config example_upstream (example_input [''seo'', ''performance''])))
     = Some 2
   \<and> createPSICacheKey ''https://example.com'' ''mobile'' [''performance'', ''seo''] ''en''
     = createPSICacheKey ''https://example.com'' ''mobile'' [''seo'', ''performance''] ''en''"
  by (simp add: run_defs example_upstream_def createPSICacheKey_def)

section \<open>The clear-cache tool and the client's cache\<close>

lemma handleClearCache_client_cache:
  "client_cache (snd (handleClearCache st)) = client_cache st
   \<and> shared_cache (snd (handleClearCache st)) = []"
  by (simp add: handleClearCache_def cache_clear_def Let_def)

text \<open>
  Claim C6 fails on the code: the tool clears the singleton of the cache module, while
  the client keeps its results in a map of its own.  An analysis, the clear-cache tool and
  the same analysis again make one fetch in all, and the second analysis returns the
  value cached by the first.
\<close>

theorem clear_cache_leaves_client_cache:
  "fetch_count
     (and_then
       (and_then
         (analyzePageSpeed example_config example_upstream (example_input [''performance'']) initial_state)
         (call_tool (server_handlers example_runtime example_config example_upstream no_other_handlers)
            ''clear_cache'' JUndef))
       (analyzePageSpeed example_config example_upstream (example_input [''performance''])))
     = Some 1
   \<and> returned
     (and_then
       (and_then
         (analyzePageSpeed example_config example_upstream (example_input [''performance'']) initial_state)
         (call_tool (server_handlers example_runtime example_config example_upstream no_other_handlers)
            ''clear_cache'' JUndef))
       (analyzePageSpeed example_config example_upstream (example_input [''performance''])))
     = Some (Inr (example_response (JNum example_score)))"
proof -
  have t: "truthy (example_response v)" for v
    by (simp add: example_response_def)
  show ?thesis
    by (simp add: run_defs example_upstream_def call_tool_def tool_of_name_def server_handlers_def
        handleClearCache_def cache_clear_def cache_size_def t)
qed

section \<open>Batch analysis\<close>

lemma analyze_body_frame:
  assumes "analyze_body cfg up input st = (r, st')"
  shows "active st' = active st"
proof -
  obtain c st1 where g: "getCached cfg (psi_cache_key input) st = (c, st1)"
    by (cases "getCached cfg (psi_cache_key input) st")
  obtain r2 st2 where m: "makeRequest cfg up (psi_request cfg input) st1 = (r2, st2)"
    by (cases "makeRequest cfg up (psi_request cfg input) st1")
  from assms g m getCached_frame[OF g] makeRequest_frame[OF m]
  show ?thesis
    by (auto simp: analyze_body_def setCache_def split: if_splits sum.splits)
qed

lemma analyze_total:
  assumes "active st < maxConcurrency cfg"
  shows "\<exists>r st'. analyzePageSpeed cfg up input st = Some (r, st') \<and> active st' = active st"
proof -
  obtain r st1 where b: "analyze_body cfg up input (st\<lparr>active := Suc (active st)\<rparr>) = (r, st1)"
    by (cases "analyze_body cfg up input (st\<lparr>active := Suc (active st)\<rparr>)")
  from analyze_body_frame[OF b] have "active st1 = Suc (active st)" by simp
  with assms b show ?thesis
    by (simp add: analyzePageSpeed_def limiter_def)
qed

lemma createPerformanceSummary_object:
  "createPerformanceSummary rt d u s = Inr summary \<Longrightarrow> is_object summary"
  by (auto simp: createPerformanceSummary_def bindE_Inr_iff Let_def)

lemma batch_entry_cases:
  "(\<exists>summary. is_object summary \<and> batch_entry rt u s r = JObj [(''url'', JStr u), (''result'', summary)])
   \<or> (\<exists>m. batch_entry rt u s r = JObj [(''url'', JStr u), (''error'', JStr m)])"
  by (auto simp: batch_entry_def bindE_Inr_iff split: sum.splits dest: createPerformanceSummary_object)

lemma batch_entry_props:
  "jprop (batch_entry rt u s r) ''url'' = JStr u"
  "truthy (jprop (batch_entry rt u s r) ''result'') \<longleftrightarrow> \<not> has_error (batch_entry rt u s r)"
  "truthy (jprop (batch_entry rt u s r) ''error'') \<longleftrightarrow>
     has_error (batch_entry rt u s r) \<and> jprop (batch_entry rt u s r) ''error'' \<noteq> JStr []"
  using batch_entry_cases[of rt u s r]
  by (auto simp: has_error_def elim!: is_object.elims)

lemma count_entries:
  assumes "list_all entry_of es"
  shows "count_with ''result'' es + length (filter has_error es) = length es"
    and "(\<forall>e\<in>set es. jprop e ''error'' \<noteq> JStr []) \<Longrightarrow> count_with ''error'' es = length (filter has_error es)"
  using assms
  by (induction es) (auto simp: count_with_def entry_of_def)

lemma url_list_bounds:
  "UrlListSchema rt v = Inr us \<Longrightarrow> 1 \<le> length us \<and> length us \<le> 10"
proof -
  have len: "parse_all f xs = Inr ys \<Longrightarrow> length ys = length xs" for f :: "js \<Rightarrow> string parsed" and xs ys
    by (induction xs arbitrary: ys) (auto split: sum.splits)
  assume "UrlListSchema rt v = Inr us"
  then show ?thesis
    by (cases v) (auto simp: UrlListSchema_def Let_def Suc_le_eq split: sum.splits if_splits dest!: len)
qed

lemma batch_schema_bounds:
  "BatchAnalyzeSchema rt args = Inr input \<Longrightarrow> 1 \<le> length (urls input) \<and> length (urls input) \<le> 10"
  by (auto simp: BatchAnalyzeSchema_def split: if_splits sum.splits dest!: url_list_bounds)

lemma url_list_rejected:
  "length xs = 0 \<or> 10 < length xs \<Longrightarrow> \<exists>is. UrlListSchema rt (JArr xs) = Inl is"
  by (auto simp: UrlListSchema_def Let_def split: sum.splits)

lemma batch_schema_rejected:
  assumes "jprop args ''urls'' = JArr xs" and "length xs = 0 \<or> 10 < length xs"
  shows "\<exists>e. BatchAnalyzeSchema rt args = Inl e"
  using url_list_rejected[OF assms(2), of rt] assms(1)
  by (auto simp: BatchAnalyzeSchema_def split: sum.splits)

lemma psi_cache_key_url:
  "psi_cache_key \<lparr>url = u, strategy = s, category = c, locale_tag = l\<rparr>
   = ''psi_v5_categories='' @ categories_param c @ ''|locale='' @ l @ ''|strategy='' @ s @ ''|url='' @ u"
  by (simp add: psi_cache_key_def createCacheKey_def)

lemma attempt_error_message:
  assumes "\<forall>i req m. outcome (up i req) = TransportError m \<longrightarrow> m \<noteq> []"
    and "attempt_result cfg (up i req) = Inl e"
  shows "emsg e \<noteq> []"
  using assms
  by (auto simp: attempt_result_def abort_error_def api_error_message_def read_json_def invalid_json_def
      split: if_splits outcome.splits option.splits)

lemma pRetry_error:
  assumes "pRetry (psi_attempt cfg up req) h ds errs st = (Inl e, st')"
    and "\<And>x t. h x = Some t \<Longrightarrow> t = x"
  shows "e \<in> set errs \<or> (\<exists>i. attempt_result cfg (up i req) = Inl e)"
  using assms(1)
proof (induction ds arbitrary: errs st)
  case Nil
  let ?r = "attempt_result cfg (up (length (fetch_log st)) req)"
  from Nil assms(2) obtain e0 where e0: "?r = Inl e0" "e = e0 \<or> e = main_error e0 (rev errs @ [e0])"
    by (auto simp: psi_attempt_eq split: sum.splits option.splits)
  with main_error_mem[of e0 "rev errs @ [e0]"] show ?case
    by auto
next
  case (Cons d ds)
  let ?r = "attempt_result cfg (up (length (fetch_log st)) req)"
  let ?st0 = "st\<lparr>fetch_log := fetch_log st @ [req],
                 now := now st + int (elapsed cfg (up (length (fetch_log st)) req))\<rparr>"
  consider (stop) "?r = Inl e"
    | (again) e0 where "?r = Inl e0"
        "pRetry (psi_attempt cfg up req) h ds (e0 # errs) (sleep d ?st0) = (Inl e, st')"
    using Cons.prems assms(2) psi_attempt_eq[of cfg up req st]
    by (auto split: sum.splits option.splits)
  then show ?case
  proof cases
    case stop
    then show ?thesis by blast
  next
    case again
    from Cons.IH[OF again(2)] again(1) show ?thesis by auto
  qed
qed

lemma rethrow_same: "rethrow_client_error x = Some t \<Longrightarrow> t = x"
  by (simp add: rethrow_client_error_def split: if_splits)

lemma makeRequest_error_message:
  assumes "\<forall>i req m. outcome (up i req) = TransportError m \<longrightarrow> m \<noteq> []"
    and "makeRequest cfg up req st = (Inl e, st')"
  shows "emsg e \<noteq> []"
  using pRetry_error[OF assms(2)[unfolded makeRequest_def] rethrow_same] attempt_error_message[OF assms(1)]
  by auto


lemma bindE_Inl_iff: "bindE m f = Inl e \<longleftrightarrow> m = Inl e \<or> (\<exists>x. m = Inr x \<and> f x = Inl e)"
  by (cases m) (simp_all add: bindE_def)

lemma get_error: "get v k = Inl e \<Longrightarrow> emsg e \<noteq> []"
  by (auto simp: get_def cannot_read_def type_error_def split: if_splits)

lemma filterE_error:
  assumes "filterE p xs = Inl e" and "\<And>x e. p x = Inl e \<Longrightarrow> emsg e \<noteq> []"
  shows "emsg e \<noteq> []"
  using assms(1)
  by (induction xs) (auto split: sum.splits dest: assms(2))

lemma mapE_error:
  assumes "mapE f xs = Inl e" and "\<And>x e. f x = Inl e \<Longrightarrow> emsg e \<noteq> []"
  shows "emsg e \<noteq> []"
  using assms(1)
  by (induction xs) (auto split: sum.splits dest: assms(2))

lemma js_filter_error:
  assumes "js_filter v p = Inl e" and "\<And>x e. p x = Inl e \<Longrightarrow> emsg e \<noteq> []"
  shows "emsg e \<noteq> []"
  using assms(1) filterE_error[of p _ e, OF _ assms(2)]
  by (cases v) (auto simp: cannot_read_def not_a_function_def type_error_def split: sum.splits)

lemma js_map_error:
  assumes "js_map v f = Inl e" and "\<And>x e. f x = Inl e \<Longrightarrow> emsg e \<noteq> []"
  shows "emsg e \<noteq> []"
  using assms(1) mapE_error[of f _ e, OF _ assms(2)]
  by (cases v) (auto simp: cannot_read_def not_a_function_def type_error_def split: sum.splits)

lemma opportunities_error:
  assumes "opportunities rt performance audits = Inl e"
  shows "emsg e \<noteq> []"
proof -
  have p: "emsg e \<noteq> []" if "is_opportunity rt audits x = Inl e" for x e
    using that by (auto simp: is_opportunity_def bindE_Inl_iff split: if_splits dest: get_error)
  have f: "emsg e \<noteq> []" if "opportunity_entry rt audits x = Inl e" for x e
    using that by (auto simp: opportunity_entry_def bindE_Inl_iff Let_def dest: get_error)
  from assms show ?thesis
    by (auto simp: opportunities_def Let_def bindE_Inl_iff split: if_splits
        dest: js_filter_error[OF _ p] js_map_error[OF _ f])
qed

lemma summary_error_message:
  "createPerformanceSummary rt d u s = Inl e \<Longrightarrow> emsg e \<noteq> []"
  by (auto simp: createPerformanceSummary_def bindE_Inl_iff Let_def dest: get_error opportunities_error)

lemma analyze_step:
  assumes "analyzePageSpeed cfg up input st = Some (r, st')"
  shows "active st' = active st"
    and "\<exists>n. fetch_log st' = fetch_log st @ replicate n (psi_request cfg input)"
    and "psi_request cfg input \<in> set (new_fetches st st')
         \<or> map_of (client_cache st) (psi_cache_key input) \<noteq> None"
    and "dom (map_of (client_cache st')) \<subseteq> insert (psi_cache_key input) (dom (map_of (client_cache st)))"
    and "(\<forall>i req m. outcome (up i req) = TransportError m \<longrightarrow> m \<noteq> []) \<Longrightarrow> r = Inl e \<Longrightarrow> emsg e \<noteq> []"
proof -
  from assms have slot: "active st < maxConcurrency cfg"
    by (simp add: analyzePageSpeed_def limiter_def split: if_splits)
  let ?st0 = "st\<lparr>active := Suc (active st)\<rparr>"
  let ?k = "psi_cache_key input"
  let ?req = "psi_request cfg input"
  obtain c st1 where g: "getCached cfg ?k ?st0 = (c, st1)"
    by (cases "getCached cfg ?k ?st0")
  note gf = getCached_frame[OF g]
  have gc: "dom (map_of (client_cache st1)) \<subseteq> dom (map_of (client_cache st))"
    "truthy c \<Longrightarrow> map_of (client_cache st) ?k \<noteq> None \<and> st1 = ?st0"
    using g by (auto simp: getCached_def AList.delete_conv' split: option.splits if_splits)
  have all: "active st' = active st
    \<and> (\<exists>n. fetch_log st' = fetch_log st @ replicate n ?req)
    \<and> (?req \<in> set (new_fetches st st') \<or> map_of (client_cache st) ?k \<noteq> None)
    \<and> dom (map_of (client_cache st')) \<subseteq> insert ?k (dom (map_of (client_cache st)))
    \<and> ((\<forall>i req m. outcome (up i req) = TransportError m \<longrightarrow> m \<noteq> []) \<longrightarrow> r = Inl e \<longrightarrow> emsg e \<noteq> [])"
  proof (cases "truthy c")
    case True
    with assms slot g gc(2) have "st' = st" "r = Inr c"
      by (auto simp: analyzePageSpeed_def limiter_def analyze_body_def)
    with gc(2) True show ?thesis
      by (auto intro: exI[of _ 0])
  next
    case False
    obtain r2 st2 where m: "makeRequest cfg up ?req st1 = (r2, st2)"
      by (cases "makeRequest cfg up ?req st1")
    from pRetry_frame[OF m[unfolded makeRequest_def]] obtain n where n: "0 < n"
      "fetch_log st2 = fetch_log st1 @ replicate n ?req" "active st2 = active st1"
      "client_cache st2 = client_cache st1"
      by blast
    from assms slot g m False
    have st': "r = r2" "st' = (case r2 of Inl e \<Rightarrow> st2 | Inr d \<Rightarrow> setCache ?k d st2)\<lparr>active := active st2 - 1\<rparr>"
      by (auto simp: analyzePageSpeed_def limiter_def analyze_body_def setCache_def split: sum.splits)
    have log: "fetch_log st' = fetch_log st @ replicate n ?req"
      using st' n gf by (auto simp: setCache_def split: sum.splits)
    then have "?req \<in> set (new_fetches st st')"
      using n(1) by (simp add: new_fetches_def)
    moreover have "active st' = active st"
      using st' n gf by (auto simp: setCache_def split: sum.splits)
    moreover have "dom (map_of (client_cache st')) \<subseteq> insert ?k (dom (map_of (client_cache st)))"
      using st' n gc(1) by (auto simp: setCache_def AList.update_conv' split: sum.splits if_splits)
    moreover have "(\<forall>i req m. outcome (up i req) = TransportError m \<longrightarrow> m \<noteq> []) \<longrightarrow> r = Inl e \<longrightarrow> emsg e \<noteq> []"
      using makeRequest_error_message[of up cfg ?req st1 e st2] m st'(1) by auto
    ultimately show ?thesis using log by blast
  qed
  from all show "active st' = active st" by blast
  from all show "\<exists>n. fetch_log st' = fetch_log st @ replicate n (psi_request cfg input)" by blast
  from all show "psi_request cfg input \<in> set (new_fetches st st')
         \<or> map_of (client_cache st) (psi_cache_key input) \<noteq> None" by blast
  from all show "dom (map_of (client_cache st')) \<subseteq> insert (psi_cache_key input) (dom (map_of (client_cache st)))" by blast
  from all show "(\<forall>i req m. outcome (up i req) = TransportError m \<longrightarrow> m \<noteq> []) \<Longrightarrow> r = Inl e \<Longrightarrow> emsg e \<noteq> []" by blast
qed


lemma batch_loop_analyses:
  "batch_loop rt cfg up input us results st =
     (case analyses cfg up (map (batch_request input) us) st of
        None \<Rightarrow> None
      | Some (rs, st') \<Rightarrow>
          Some (results @ map2 (\<lambda>u r. batch_entry rt u (batch_strategy input) r) us rs, st'))"
proof (induction us arbitrary: results st)
  case Nil
  then show ?case by simp
next
  case (Cons u us)
  show ?case
    by (simp add: Cons.IH batch_request_def split: option.splits prod.splits)
qed

lemma analyses_total:
  assumes "active st < maxConcurrency cfg"
  shows "\<exists>rs st'. analyses cfg up inputs st = Some (rs, st') \<and> length rs = length inputs
           \<and> active st' = active st"
  using assms
proof (induction inputs arbitrary: st)
  case Nil
  then show ?case by simp
next
  case (Cons i inputs)
  from analyze_total[OF Cons.prems, of up i]
  obtain r st1 where a: "analyzePageSpeed cfg up i st = Some (r, st1)" "active st1 = active st"
    by blast
  from Cons.IH[of st1] a Cons.prems
  obtain rs st' where "analyses cfg up inputs st1 = Some (rs, st')" "length rs = length inputs"
    "active st' = active st1"
    by auto
  with a show ?case by simp
qed

lemma analyses_errors:
  assumes "analyses cfg up inputs st = Some (rs, st')"
    and "\<forall>i req m. outcome (up i req) = TransportError m \<longrightarrow> m \<noteq> []"
  shows "\<forall>r\<in>set rs. \<forall>e. r = Inl e \<longrightarrow> emsg e \<noteq> []"
  using assms(1)
proof (induction inputs arbitrary: st rs)
  case Nil
  then show ?case by simp
next
  case (Cons i inputs)
  from Cons.prems obtain r st1 rs' where a: "analyzePageSpeed cfg up i st = Some (r, st1)"
    "analyses cfg up inputs st1 = Some (rs', st')" "rs = r # rs'"
    by (auto split: option.splits prod.splits)
  from analyze_step(5)[OF a(1) assms(2)] Cons.IH[OF a(2)] a(3)
  show ?case by auto
qed

lemma analyses_fetches:
  assumes "analyses cfg up (map mk us) s = Some (rs, s')"
    and "fetch_log s = base @ xs"
    and "\<forall>u. map_of (client_cache s) (psi_cache_key (mk u)) \<noteq> None \<longrightarrow>
             psi_cache_key (mk u) \<in> D0 \<or> psi_request cfg (mk u) \<in> set xs"
    and inj: "\<And>u v. psi_cache_key (mk u) = psi_cache_key (mk v) \<Longrightarrow> u = v"
  shows "\<exists>ys. fetch_log s' = base @ xs @ ys \<and>
           (\<forall>u\<in>set us. psi_cache_key (mk u) \<in> D0 \<or> psi_request cfg (mk u) \<in> set (xs @ ys))"
  using assms(1,2,3)
proof (induction us arbitrary: s xs rs)
  case Nil
  then show ?case by simp
next
  case (Cons u us)
  from Cons.prems(1) obtain r s1 rs' where a: "analyzePageSpeed cfg up (mk u) s = Some (r, s1)"
    "analyses cfg up (map mk us) s1 = Some (rs', s')"
    by (auto split: option.splits prod.splits)
  from analyze_step(2)[OF a(1)] obtain n where n: "fetch_log s1 = fetch_log s @ replicate n (psi_request cfg (mk u))"
    by blast
  let ?rep = "replicate n (psi_request cfg (mk u))"
  have nf: "new_fetches s s1 = ?rep"
    using n by (simp add: new_fetches_def)
  have log1: "fetch_log s1 = base @ (xs @ ?rep)"
    using n Cons.prems(2) by simp
  have here: "psi_cache_key (mk u) \<in> D0 \<or> psi_request cfg (mk u) \<in> set (xs @ ?rep)"
    using analyze_step(3)[OF a(1)] nf Cons.prems(3) by auto
  have inv1: "\<forall>v. map_of (client_cache s1) (psi_cache_key (mk v)) \<noteq> None \<longrightarrow>
             psi_cache_key (mk v) \<in> D0 \<or> psi_request cfg (mk v) \<in> set (xs @ ?rep)"
  proof (intro allI impI)
    fix v
    assume "map_of (client_cache s1) (psi_cache_key (mk v)) \<noteq> None"
    then have "psi_cache_key (mk v) \<in> dom (map_of (client_cache s1))"
      by auto
    with analyze_step(4)[OF a(1)]
    have "psi_cache_key (mk v) = psi_cache_key (mk u) \<or> map_of (client_cache s) (psi_cache_key (mk v)) \<noteq> None"
      by auto
    then show "psi_cache_key (mk v) \<in> D0 \<or> psi_request cfg (mk v) \<in> set (xs @ ?rep)"
    proof
      assume "psi_cache_key (mk v) = psi_cache_key (mk u)"
      then have "v = u" by (rule inj)
      with here show ?thesis by simp
    next
      assume "map_of (client_cache s) (psi_cache_key (mk v)) \<noteq> None"
      with Cons.prems(3) show ?thesis by auto
    qed
  qed
  from Cons.IH[OF a(2) log1 inv1] obtain ys where ys: "fetch_log s' = base @ (xs @ ?rep) @ ys"
    "\<forall>v\<in>set us. psi_cache_key (mk v) \<in> D0 \<or> psi_request cfg (mk v) \<in> set ((xs @ ?rep) @ ys)"
    by blast
  have "fetch_log s' = base @ xs @ (?rep @ ys) \<and>
        (\<forall>v\<in>set (u # us). psi_cache_key (mk v) \<in> D0 \<or> psi_request cfg (mk v) \<in> set (xs @ (?rep @ ys)))"
    using ys here by auto
  then show ?case by blast
qed

lemma batch_key_inj:
  "psi_cache_key (batch_request input u) = psi_cache_key (batch_request input v) \<Longrightarrow> u = v"
  by (simp add: batch_request_def psi_cache_key_url)

lemma batch_fetches:
  assumes "analyses cfg up (batch_inputs input) st = Some (rs, st')"
  shows "\<forall>u\<in>set (urls input).
           psi_request cfg (batch_request input u) \<in> set (new_fetches st st')
           \<or> map_of (client_cache st) (psi_cache_key (batch_request input u)) \<noteq> None"
proof -
  from analyses_fetches[of cfg up "batch_request input" "urls input" st rs st' "fetch_log st" "[]"
      "{k. map_of (client_cache st) k \<noteq> None}"] assms batch_key_inj
  obtain ys where "fetch_log st' = fetch_log st @ ys"
    "\<forall>u\<in>set (urls input). map_of (client_cache st) (psi_cache_key (batch_request input u)) \<noteq> None
        \<or> psi_request cfg (batch_request input u) \<in> set ys"
    by (auto simp: batch_inputs_def)
  then show ?thesis
    by (auto simp: new_fetches_def)
qed

lemma batch_entry_error:
  assumes "\<forall>e. r = Inl e \<longrightarrow> emsg e \<noteq> []"
  shows "jprop (batch_entry rt u s r) ''error'' \<noteq> JStr []"
  using assms
  by (auto simp: batch_entry_def bindE_Inl_iff split: sum.splits dest: summary_error_message)


lemma batch_entries:
  assumes "length us = length rs"
    and "\<forall>r\<in>set rs. \<forall>e. r = Inl e \<longrightarrow> emsg e \<noteq> []"
  shows "map (\<lambda>e. jprop e ''url'') (map2 (\<lambda>u r. batch_entry rt u s r) us rs) = map JStr us
    \<and> list_all entry_of (map2 (\<lambda>u r. batch_entry rt u s r) us rs)
    \<and> (\<forall>e\<in>set (map2 (\<lambda>u r. batch_entry rt u s r) us rs). jprop e ''error'' \<noteq> JStr [])"
  using assms
proof (induction us rs rule: list_induct2)
  case Nil
  show ?case by simp
next
  case (Cons u us r rs)
  have "entry_of (batch_entry rt u s r)"
    unfolding entry_of_def using batch_entry_props(2,3)[of rt u s r] by simp
  with Cons batch_entry_error[of r rt u s] show ?case
    by (simp add: batch_entry_props(1))
qed

text \<open>
  Claim C5.  A validated batch request has between 1 and 10 URLs.  When a limiter slot is
  free, the tool makes the client call for every URL of the list, in order, whatever
  failed before: its final state is the state after these calls, and every URL that had
  no entry in the client's cache was requested from the network.  The report is not
  error-flagged; its entries are the outcomes of these calls, one per URL in input order;
  its total is the number of URLs and its successful and failed counts add up to it, the
  failed count being the number of entries that carry an error.  Every failure of the
  transport is taken to carry a message, as those of the HTTP library do.  A request
  whose URL list is empty or longer than 10 is answered with an error-flagged response
  and the state, hence the network, is untouched.
\<close>

theorem batch_processes_every_url:
  assumes "active st < maxConcurrency cfg"
    and "\<forall>i req m. outcome (up i req) = TransportError m \<longrightarrow> m \<noteq> []"
  shows
    "(\<forall>input. BatchAnalyzeSchema rt args = Inr input \<longrightarrow>
        1 \<le> length (urls input) \<and> length (urls input) \<le> 10 \<and>
        (\<exists>rs results st' successful failed.
           analyses cfg up (batch_inputs input) st = Some (rs, st')
           \<and> length rs = length (urls input)
           \<and> results = map2 (\<lambda>u r. batch_entry rt u (batch_strategy input) r) (urls input) rs
           \<and> handleBatchAnalyze rt cfg up args st
               = Some (\<lparr>content = [Json (batch_report input results)], isError = False\<rparr>, st')
           \<and> (\<forall>u\<in>set (urls input).
                 psi_request cfg (batch_request input u) \<in> set (new_fetches st st')
                 \<or> map_of (client_cache st) (psi_cache_key (batch_request input u)) \<noteq> None)
           \<and> map (\<lambda>e. jprop e ''url'') results = map JStr (urls input)
           \<and> reported ''total'' (batch_report input results) = JNum (of_nat (length (urls input)))
           \<and> reported ''successful'' (batch_report input results) = JNum (of_nat successful)
           \<and> reported ''failed'' (batch_report input results) = JNum (of_nat failed)
           \<and> failed = length (filter has_error results)
           \<and> successful + failed = length (urls input)))
   \<and> (\<forall>xs. jprop args ''urls'' = JArr xs \<and> (length xs = 0 \<or> 10 < length xs) \<longrightarrow>
        (\<exists>e. handleBatchAnalyze rt cfg up args st
             = Some (\<lparr>content = [Text (''Error in batch analysis: '' @ emsg e)], isError = True\<rparr>, st)))"
proof (intro conjI allI impI)
  fix input
  assume p: "BatchAnalyzeSchema rt args = Inr input"
  from batch_schema_bounds[OF p]
  show "1 \<le> length (urls input)" and "length (urls input) \<le> 10" by simp_all
  from analyses_total[OF assms(1), of up "batch_inputs input"]
  obtain rs st' where a: "analyses cfg up (batch_inputs input) st = Some (rs, st')"
    "length rs = length (urls input)"
    by (auto simp: batch_inputs_def)
  define results where "results = map2 (\<lambda>u r. batch_entry rt u (batch_strategy input) r) (urls input) rs"
  from batch_entries[OF a(2)[symmetric] analyses_errors[OF a(1) assms(2)], of rt "batch_strategy input"]
  have e: "map (\<lambda>e. jprop e ''url'') results = map JStr (urls input)"
    "list_all entry_of results" "\<forall>e\<in>set results. jprop e ''error'' \<noteq> JStr []"
    by (simp_all add: results_def)
  have len: "length results = length (urls input)"
    using a(2) by (simp add: results_def)
  have h: "handleBatchAnalyze rt cfg up args st
             = Some (\<lparr>content = [Json (batch_report input results)], isError = False\<rparr>, st')"
    using p a(1) by (simp add: handleBatchAnalyze_def ok_response_def batch_loop_analyses results_def
        batch_inputs_def)
  have c: "count_with ''error'' results = length (filter has_error results)"
    "count_with ''result'' results + length (filter has_error results) = length (urls input)"
    using count_entries[OF e(2)] e(3) len by simp_all
  have "reported ''total'' (batch_report input results) = JNum (of_nat (length (urls input)))"
    "reported ''successful'' (batch_report input results) = JNum (of_nat (count_with ''result'' results))"
    "reported ''failed'' (batch_report input results) = JNum (of_nat (length (filter has_error results)))"
    by (simp_all add: reported_def batch_report_def c(1))
  with a h batch_fetches[OF a(1)] e(1) c(2) results_def
  show "\<exists>rs results st' successful failed.
           analyses cfg up (batch_inputs input) st = Some (rs, st')
           \<and> length rs = length (urls input)
           \<and> results = map2 (\<lambda>u r. batch_entry rt u (batch_strategy input) r) (urls input) rs
           \<and> handleBatchAnalyze rt cfg up args st
               = Some (\<lparr>content = [Json (batch_report input results)], isError = False\<rparr>, st')
           \<and> (\<forall>u\<in>set (urls input).
                 psi_request cfg (batch_request input u) \<in> set (new_fetches st st')
                 \<or> map_of (client_cache st) (psi_cache_key (batch_request input u)) \<noteq> None)
           \<and> map (\<lambda>e. jprop e ''url'') results = map JStr (urls input)
           \<and> reported ''total'' (batch_report input results) = JNum (of_nat (length (urls input)))
           \<and> reported ''successful'' (batch_report input results) = JNum (of_nat successful)
           \<and> reported ''failed'' (batch_report input results) = JNum (of_nat failed)
           \<and> failed = length (filter has_error results)
           \<and> successful + failed = length (urls input)"
    by blast
next
  fix xs
  assume "jprop args ''urls'' = JArr xs \<and> (length xs = 0 \<or> 10 < length xs)"
  then obtain e where "BatchAnalyzeSchema rt args = Inl e"
    using batch_schema_rejected[of args xs rt] by blast
  then show "\<exists>e. handleBatchAnalyze rt cfg up args st
             = Some (\<lparr>content = [Text (''Error in batch analysis: '' @ emsg e)], isError = True\<rparr>, st)"
    by (auto simp: handleBatchAnalyze_def error_response_def)
qed


theorem batch_processes_every_url_witness:
  "(\<exists>st'. handleBatchAnalyze example_runtime example_config (outage_upstream 4) two_urls initial_state
      = Some (\<lparr>content =
           [Json (JObj [(''summary'', JObj [(''total'', JNum 2), (''successful'', JNum 1), (''failed'', JNum 1)]),
              (''results'', JArr
                 [JObj [(''url'', JStr ''https://a.example''),
                        (''error'', JStr ''request to https://www.googleapis.com/ failed, reason: socket hang up'')],
                  JObj [(''url'', JStr ''https://b.example''),
                        (''result'', JObj
                           [(''url'', JStr ''https://b.example''), (''strategy'', JStr ''mobile''),
                            (''timestamp'', JUndef),
                            (''performance'', JObj
                               [(''score'', JNum 85),
                                (''metrics'', JObj
                                   [(''firstContentfulPaint'', JUndef),
                                    (''largestContentfulPaint'', JStr ''2.5 s''),
                                    (''cumulativeLayoutShift'', JUndef),
                                    (''speedIndex'', JUndef),
                                    (''totalBlockingTime'', JUndef),
                                    (''firstInputDelay'', JUndef)])]),
                            (''opportunities'', JArr [])])]])])],
           isError = False\<rparr>, st')
      \<and> length (fetch_log st') = 5)
   \<and> (\<exists>e. handleBatchAnalyze example_runtime example_config (outage_upstream 4)
           (JObj [(''urls'', JArr [])]) initial_state
         = Some (\<lparr>content = [Text (''Error in batch analysis: '' @ emsg e)], isError = True\<rparr>, initial_state))"
proof -
  let ?input = "\<lparr>urls = [''https://a.example'', ''https://b.example''], batch_strategy = ''mobile'',
                 batch_category = [''performance''], batch_locale = ''en''\<rparr>"
  let ?ea = "JObj [(''url'', JStr ''https://a.example''),
                   (''error'', JStr ''request to https://www.googleapis.com/ failed, reason: socket hang up'')]"
  have slot: "active initial_state < maxConcurrency example_config"
    by (simp add: initial_state_def example_config_def)
  have msg: "\<forall>i req m. outcome (outage_upstream 4 i req) = TransportError m \<longrightarrow> m \<noteq> []"
    by (auto simp: outage_upstream_def example_upstream_def)
  have p: "BatchAnalyzeSchema example_runtime two_urls = Inr ?input"
    by (simp add: two_urls_def BatchAnalyzeSchema_def UrlListSchema_def UrlSchema_def StrategySchema_def
        CategoryListSchema_def LocaleSchema_def example_runtime_def)
  note bp = batch_processes_every_url[OF slot msg, of example_runtime]
  from bp[of two_urls, THEN conjunct1, rule_format, OF p]
  obtain results st' successful failed where r:
    "handleBatchAnalyze example_runtime example_config (outage_upstream 4) two_urls initial_state
       = Some (\<lparr>content = [Json (batch_report ?input results)], isError = False\<rparr>, st')"
    "\<forall>u\<in>set (urls ?input).
        psi_request example_config (batch_request ?input u) \<in> set (new_fetches initial_state st')
        \<or> map_of (client_cache initial_state) (psi_cache_key (batch_request ?input u)) \<noteq> None"
    "reported ''successful'' (batch_report ?input results) = JNum (of_nat successful)"
    "reported ''failed'' (batch_report ?input results) = JNum (of_nat failed)"
    "successful + failed = length (urls ?input)"
    by blast
  have a: "\<exists>st1. analyzePageSpeed example_config (outage_upstream 4)
        \<lparr>url = ''https://a.example'', strategy = ''mobile'', category = Some [''performance''], locale_tag = ''en''\<rparr>
        initial_state
      = Some (Inl (Exn ''FetchError'' ''request to https://www.googleapis.com/ failed, reason: socket hang up''), st1)
      \<and> length (fetch_log st1) = 4 \<and> active st1 = 0 \<and> client_cache st1 = []"
    by (simp add: run_defs outage_upstream_def main_error_def)
  then obtain st1 where st1: "analyzePageSpeed example_config (outage_upstream 4)
        \<lparr>url = ''https://a.example'', strategy = ''mobile'', category = Some [''performance''], locale_tag = ''en''\<rparr>
        initial_state
      = Some (Inl (Exn ''FetchError'' ''request to https://www.googleapis.com/ failed, reason: socket hang up''), st1)"
      "length (fetch_log st1) = 4" "active st1 = 0" "client_cache st1 = []"
    by blast
  have b: "\<exists>st2. analyzePageSpeed example_config (outage_upstream 4)
        \<lparr>url = ''https://b.example'', strategy = ''mobile'', category = Some [''performance''], locale_tag = ''en''\<rparr>
        st1
      = Some (Inr (example_response (JNum example_score)), st2) \<and> length (fetch_log st2) = 5"
    using st1(2,3,4)
    by (simp add: analyzePageSpeed_def limiter_def analyze_body_def psi_cache_key_def createCacheKey_def
        getCached_def makeRequest_eq psi_attempt_def fetch_def read_json_def response_ok_def
        example_config_def backoff_delays_3 outage_upstream_def example_upstream_def psi_request_def
        setCache_def)
  then obtain st2 where st2: "analyzePageSpeed example_config (outage_upstream 4)
        \<lparr>url = ''https://b.example'', strategy = ''mobile'', category = Some [''performance''], locale_tag = ''en''\<rparr>
        st1
      = Some (Inr (example_response (JNum example_score)), st2)" "length (fetch_log st2) = 5"
    by blast
  let ?sb = "JObj
     [(''url'', JStr ''https://b.example''), (''strategy'', JStr ''mobile''), (''timestamp'', JUndef),
      (''performance'', JObj
         [(''score'', JNum 85),
          (''metrics'', JObj
             [(''firstContentfulPaint'', JUndef), (''largestContentfulPaint'', JStr ''2.5 s''),
              (''cumulativeLayoutShift'', JUndef), (''speedIndex'', JUndef),
              (''totalBlockingTime'', JUndef), (''firstInputDelay'', JUndef)])]),
      (''opportunities'', JArr [])]"
  have sb: "createPerformanceSummary example_runtime (example_response (JNum example_score)) ''https://b.example'' ''mobile''
      = Inr ?sb"
    by (simp add: createPerformanceSummary_def example_response_def get_def oget_def opportunities_def
        performance_of_def summary_score_def js_mul_def math_round_def example_score_scaled)
  have ev: "handleBatchAnalyze example_runtime example_config (outage_upstream 4) two_urls initial_state
       = Some (\<lparr>content = [Json (batch_report ?input [?ea, JObj [(''url'', JStr ''https://b.example''), (''result'', ?sb)]])],
                isError = False\<rparr>, st2)"
    using p st1(1) st2(1) sb by (simp add: handleBatchAnalyze_def batch_entry_def ok_response_def)
  from r(1) ev have res: "results = [?ea, JObj [(''url'', JStr ''https://b.example''), (''result'', ?sb)]]"
    "st' = st2"
    by (simp_all add: batch_report_def)
  from r(3,4) res(1) have "successful = 1" "failed = 1"
    by (simp_all add: reported_def batch_report_def count_with_def)
  with res ev st2(2) have first: "\<exists>st'. handleBatchAnalyze example_runtime example_config (outage_upstream 4) two_urls initial_state
      = Some (\<lparr>content =
           [Json (JObj [(''summary'', JObj [(''total'', JNum 2), (''successful'', JNum 1), (''failed'', JNum 1)]),
              (''results'', JArr [?ea, JObj [(''url'', JStr ''https://b.example''), (''result'', ?sb)]])])],
           isError = False\<rparr>, st') \<and> length (fetch_log st') = 5"
    by (simp add: batch_report_def count_with_def)
  have "jprop (JObj [(''urls'', JArr [])]) ''urls'' = JArr [] \<and> (length ([] :: js list) = 0 \<or> 10 < length ([] :: js list))"
    by simp
  from bp[of "JObj [(''urls'', JArr [])]", THEN conjunct2, rule_format, OF this]
  have second: "\<exists>e. handleBatchAnalyze example_runtime example_config (outage_upstream 4)
           (JObj [(''urls'', JArr [])]) initial_state
         = Some (\<lparr>content = [Text (''Error in batch analysis: '' @ emsg e)], isError = True\<rparr>, initial_state)" .
  from first second show ?thesis by blast
qed

section \<open>Key audits of the other categories\<close>

lemma filterE_total: "(\<forall>x\<in>set xs. p x = Inr (q x)) \<Longrightarrow> filterE p xs = Inr (filter q xs)"
  by (induction xs) simp_all

lemma mapE_total: "(\<forall>x\<in>set xs. f x = Inr (g x)) \<Longrightarrow> mapE f xs = Inr (map g xs)"
  by (induction xs) simp_all

lemma get_object: "is_object v \<Longrightarrow> get v k = Inr (jprop v k)"
  by (cases v) (simp_all add: get_def)

lemma typed_audit_fails:
  assumes "a = JUndef \<or> is_object a \<and> typed_score (jprop a ''score'')"
  shows "audit_fails rt a = failing_score (jprop a ''score'')"
  using assms
  by (cases a; cases "jprop a ''score''")
     (auto simp: audit_fails_def failing_score_def typed_score_def js_lt_num_def)

lemma typed_is_failing_ref:
  assumes "typed_ref rt audits ref"
  shows "is_failing_ref rt audits ref = Inr (failing_score (jprop (audit_of rt audits ref) ''score''))"
  using assms typed_audit_fails[of "audit_of rt audits ref" rt]
  by (auto simp: is_failing_ref_def typed_ref_def get_object audit_of_def)

lemma typed_key_audit:
  assumes "typed_ref rt audits ref" and "failing_score (jprop (audit_of rt audits ref) ''score'')"
  shows "key_audit rt audits ref = Inr (spec_key_audit rt audits ref)"
proof -
  from assms have "is_object ref" and "is_object (audit_of rt audits ref)"
    by (auto simp: typed_ref_def failing_score_def)
  then show ?thesis
    by (simp add: key_audit_def spec_key_audit_def get_object audit_of_def Let_def)
qed

lemma key_audits_typed:
  assumes "typed_category rt audits cat"
  shows "key_audits rt audits cat = Inr (JArr (spec_key_audits rt audits (refs_of cat)))"
proof (cases "oget cat ''auditRefs''")
  case (JArr refs)
  let ?q = "\<lambda>ref. failing_score (jprop (audit_of rt audits ref) ''score'')"
  from assms JArr have t: "\<forall>ref\<in>set refs. typed_ref rt audits ref"
    by (simp add: typed_category_def list_all_iff)
  have j: "jprop cat ''auditRefs'' = JArr refs"
    using JArr by (auto simp: oget_def split: if_splits)
  have f: "filterE (is_failing_ref rt audits) refs = Inr (filter ?q refs)"
    using t by (intro filterE_total) (simp add: typed_is_failing_ref)
  have m: "mapE (key_audit rt audits) (filter ?q refs) = Inr (map (spec_key_audit rt audits) (filter ?q refs))"
    using t by (intro mapE_total) (simp add: typed_key_audit)
  show ?thesis
    using JArr j f m by (simp add: key_audits_def spec_key_audits_def refs_of_def take_map)
qed (use assms in \<open>simp_all add: typed_category_def key_audits_def spec_key_audits_def refs_of_def\<close>)

text \<open>
  Claim C9.  For an analysis result of the shape above, the summarization returns, for each
  of accessibility, seo, best-practices and pwa, exactly the audits the category references
  whose score is non-null and strictly less than 1, in the order of the references, cut to
  the first five.
\<close>

theorem key_audits_are_first_five_failing:
  assumes "categories_of response = Inr categories"
    and "audits_of response = Inr audits"
    and "\<forall>(field, key)\<in>set other_categories. typed_category rt audits (jprop categories key)"
  shows "\<exists>r. extractOtherCategories rt response = Inr r \<and>
           (\<forall>(field, key)\<in>set other_categories.
              jprop (jprop r field) ''keyAudits''
                = JArr (spec_key_audits rt audits (refs_of (jprop categories key))))"
  using assms
  by (simp add: extractOtherCategories_def other_categories_from_def other_categories_def
      key_audits_typed category_info_def Let_def)

theorem key_audits_are_first_five_failing_witness:
  "\<exists>r. extractOtherCategories example_runtime audited_response = Inr r \<and>
       jprop (jprop r ''seo'') ''keyAudits'' =
         JArr [JObj [(''id'', JStr ''a''), (''title'', JStr ''A''), (''score'', JNum (1 / 2)), (''description'', JUndef)],
               JObj [(''id'', JStr ''d''), (''title'', JStr ''D''), (''score'', JNum 0), (''description'', JUndef)],
               JObj [(''id'', JStr ''e''), (''title'', JStr ''E''), (''score'', JNum (3 / 4)), (''description'', JUndef)],
               JObj [(''id'', JStr ''f''), (''title'', JStr ''F''), (''score'', JNum (1 / 8)), (''description'', JUndef)],
               JObj [(''id'', JStr ''g''), (''title'', JStr ''g''), (''score'', JNum (1 / 4)), (''description'', JUndef)]]"
proof -
  let ?refs = "map (\<lambda>k. JObj [(''id'', JStr k)]) [''a'', ''b'', ''c'', ''d'', ''e'', ''f'', ''g'', ''h'']"
  let ?cats = "JObj [(''seo'', JObj [(''score'', JNum (1 / 2)), (''auditRefs'', JArr ?refs)])]"
  let ?audits = "JObj [(''a'', JObj [(''title'', JStr ''A''), (''score'', JNum (1 / 2))]),
                      (''b'', JObj [(''title'', JStr ''B''), (''score'', JNum 1)]),
                      (''c'', JObj [(''title'', JStr ''C''), (''score'', JNull)]),
                      (''d'', JObj [(''title'', JStr ''D''), (''score'', JNum 0)]),
                      (''e'', JObj [(''title'', JStr ''E''), (''score'', JNum (3 / 4))]),
                      (''f'', JObj [(''title'', JStr ''F''), (''score'', JNum (1 / 8))]),
                      (''g'', JObj [(''score'', JNum (1 / 4))]),
                      (''h'', JObj [(''title'', JStr ''H''), (''score'', JNum (3 / 8))])]"
  have c: "categories_of audited_response = Inr ?cats"
    by (simp add: categories_of_def audited_response_def get_def oget_def js_or_def)
  have a: "audits_of audited_response = Inr ?audits"
    by (simp add: audits_of_def audited_response_def get_def oget_def js_or_def)
  have t: "\<forall>(field, key)\<in>set other_categories. typed_category example_runtime ?audits (jprop ?cats key)"
    by (simp add: other_categories_def typed_category_def oget_def typed_ref_def audit_of_def typed_score_def)
  from key_audits_are_first_five_failing[OF c a t]
  obtain r where r: "extractOtherCategories example_runtime audited_response = Inr r"
    "\<forall>(field, key)\<in>set other_categories.
        jprop (jprop r field) ''keyAudits'' = JArr (spec_key_audits example_runtime ?audits (refs_of (jprop ?cats key)))"
    by blast
  from r(2) have "jprop (jprop r ''seo'') ''keyAudits''
      = JArr (spec_key_audits example_runtime ?audits (refs_of (jprop ?cats ''seo'')))"
    by (simp add: other_categories_def)
  then have "jprop (jprop r ''seo'') ''keyAudits'' =
         JArr [JObj [(''id'', JStr ''a''), (''title'', JStr ''A''), (''score'', JNum (1 / 2)), (''description'', JUndef)],
               JObj [(''id'', JStr ''d''), (''title'', JStr ''D''), (''score'', JNum 0), (''description'', JUndef)],
               JObj [(''id'', JStr ''e''), (''title'', JStr ''E''), (''score'', JNum (3 / 4)), (''description'', JUndef)],
               JObj [(''id'', JStr ''f''), (''title'', JStr ''F''), (''score'', JNum (1 / 8)), (''description'', JUndef)],
               JObj [(''id'', JStr ''g''), (''title'', JStr ''g''), (''score'', JNum (1 / 4)), (''description'', JUndef)]]"
    by (simp add: spec_key_audits_def refs_of_def oget_def audit_of_def failing_score_def spec_key_audit_def js_or_def)
  with r(1) show ?thesis by blast
qed

section \<open>Totality of the extraction functions\<close>

lemma oget_undef [simp]: "oget JUndef k = JUndef"
  by (simp add: oget_def)

lemma map_items_missing [simp]: "map_items JUndef f dflt = Inr dflt"
  by (simp add: map_items_def items_of_def oget_def)

lemma extractors_default:
  assumes "audits_of response = Inr (JObj [])" and "categories_of response = Inr (JObj [])"
  shows "map (\<lambda>f. f response) (extractors rt) = map Inr default_shapes"
  using assms
  apply (simp add: extractors_def default_shapes_def)
  apply (intro conjI)
          apply (simp add: extractVisualData_def visual_from_def final_screenshot_def full_page_screenshot_def)
         apply (simp add: extractElementData_def element_from_def first_node_element_def first_item_node_def
      items_of_def cls_elements_def)
        apply (simp add: extractNetworkData_def network_from_def total_byte_weight_def numeric_or_null_def
      items_of_def)
       apply (simp add: extractJavaScriptData_def javascript_from_def)
      apply (simp add: extractImageOptimizationData_def image_from_def)
     apply (simp add: extractRenderBlockingData_def render_blocking_from_def items_of_def)
    apply (simp add: extractThirdPartyData_def third_party_from_def items_of_def)
   apply (simp add: extractOtherCategories_def other_categories_from_def key_audits_def category_info_def
      category_score_def js_or_def)
  apply (simp add: extractDetailedMetrics_def detailed_metrics_from_def items_of_def js_or_def
      metric_or_audit_def)
  done

lemma bindE_ex: "(\<exists>v. bindE m f = Inr v) \<longleftrightarrow> (\<exists>x. m = Inr x \<and> (\<exists>v. f x = Inr v))"
  by (cases m) auto

lemma mapE_Inr_iff: "(\<exists>ys. mapE f xs = Inr ys) \<longleftrightarrow> list_all (\<lambda>x. \<exists>y. f x = Inr y) xs"
  by (induction xs) (auto split: sum.splits)

lemma filterE_Inr_iff: "(\<exists>ys. filterE p xs = Inr ys) \<longleftrightarrow> list_all (\<lambda>x. \<exists>b. p x = Inr b) xs"
  by (induction xs) (auto split: sum.splits)

lemma array_of_cong: "(\<And>x. P x \<longleftrightarrow> Q x) \<Longrightarrow> array_of P v = array_of Q v"
  by (cases v) (simp_all add: list_all_iff)

lemma js_map_Inr_iff: "(\<exists>v. js_map l f = Inr v) \<longleftrightarrow> array_of (\<lambda>x. \<exists>y. f x = Inr y) l"
proof (cases l)
  case (JArr xs)
  then show ?thesis
    using mapE_Inr_iff[of f xs] by (cases "mapE f xs") auto
qed simp_all

lemma get_Inr_iff: "(\<exists>y. get v k = Inr y) \<longleftrightarrow> present v"
  by (auto simp: get_def present_def)

lemma get_present: "present v \<Longrightarrow> get v k = Inr (jprop v k)"
  by (simp add: get_def present_def)

lemma oget_present: "present v \<Longrightarrow> oget v k = jprop v k"
  by (simp add: oget_def present_def)

lemma truthy_present: "truthy v \<Longrightarrow> present v"
  by (cases v) (simp_all add: present_def)

lemma from_item_Inr_iff: "(\<exists>y. from_item x k b = Inr y) \<longleftrightarrow> present x"
  by (auto simp: from_item_def bindE_ex get_Inr_iff)

lemma map_items_Inr_iff:
  assumes "\<And>x. (\<exists>y. f x = Inr y) \<longleftrightarrow> ok x"
  shows "(\<exists>v. map_items a f d = Inr v) \<longleftrightarrow> (truthy (items_of a) \<longrightarrow> array_of ok (items_of a))"
  using js_map_Inr_iff[of "items_of a" f] array_of_cong[of "\<lambda>x. \<exists>y. f x = Inr y" ok, OF assms]
  by (auto simp: map_items_def)

lemma audits_of_iff: "audits_of r = Inr a \<longleftrightarrow> present r \<and> a = audits_obj r"
  by (auto simp: audits_of_def audits_obj_def get_def present_def oget_def)

lemma jprop_or_empty: "k \<noteq> ''length'' \<Longrightarrow> jprop (js_or a (JObj [])) k = oget a k"
  by (cases a) (auto simp: js_or_def oget_def index_of_key_def)

lemma items_of_audit:
  "name \<noteq> ''length'' \<Longrightarrow> items_of (jprop (audits_obj r) name) = path_get r (audit_items name)"
  by (simp add: audits_obj_def jprop_or_empty items_of_def path_get_def audit_items_def audit_path_def)

lemma visual_total:
  "(\<exists>v. extractVisualData r = Inr v) \<longleftrightarrow> readable r [(audit_items ''screenshot-thumbnails'', present)]"
  by (simp add: extractVisualData_def bindE_ex audits_of_iff visual_from_def readable_def
      map_items_Inr_iff[where ok = present] filmstrip_frame_def from_item_Inr_iff items_of_audit)

lemma normalizeNode_Inr_iff: "(\<exists>y. normalizeNode n = Inr y) \<longleftrightarrow> present n"
  by (simp add: normalizeNode_def from_item_Inr_iff)

lemma first_node_element_total: "\<exists>v. first_node_element audit = Inr v"
  by (simp add: first_node_element_def normalizeNode_Inr_iff truthy_present)

lemma cls_elements_Inr_iff:
  "(\<exists>v. cls_elements a = Inr v) \<longleftrightarrow> (truthy (items_of a) \<longrightarrow> array_of present (items_of a))"
proof (cases "items_of a")
  case (JArr xs)
  let ?q = "\<lambda>item. truthy (jprop item ''node'')"
  show ?thesis
  proof (cases "list_all present xs")
    case True
    then have f: "filterE has_node xs = Inr (filter ?q xs)"
      by (intro filterE_total) (simp add: has_node_def get_present list_all_iff)
    have "list_all (\<lambda>x. \<exists>y. cls_element x = Inr y) (filter ?q xs)"
      using True
      by (auto simp: list_all_iff cls_element_def get_present bindE_ex normalizeNode_Inr_iff truthy_present)
    then obtain ys where "mapE cls_element (filter ?q xs) = Inr ys"
      using mapE_Inr_iff[of cls_element "filter ?q xs"] by blast
    with JArr True f show ?thesis
      by (simp add: cls_elements_def)
  next
    case False
    then have "\<not> list_all (\<lambda>x. \<exists>b. has_node x = Inr b) xs"
      by (auto simp: list_all_iff has_node_def bindE_ex get_Inr_iff)
    then obtain e where "filterE has_node xs = Inl e"
      using filterE_Inr_iff[of has_node xs] by (cases "filterE has_node xs") auto
    with JArr False show ?thesis
      by (simp add: cls_elements_def)
  qed
qed (auto simp: cls_elements_def)

lemma element_total:
  "(\<exists>v. extractElementData r = Inr v) \<longleftrightarrow> readable r [(audit_items ''layout-shift-elements'', present)]"
proof -
  have "(\<exists>v. element_from a = Inr v) \<longleftrightarrow> (\<exists>v. cls_elements (jprop a ''layout-shift-elements'') = Inr v)" for a
    using first_node_element_total[of "jprop a ''largest-contentful-paint-element''"]
      first_node_element_total[of "jprop a ''lcp-lazy-loaded''"]
    by (auto simp: element_from_def bindE_ex)
  then show ?thesis
    by (simp add: extractElementData_def bindE_ex audits_of_iff readable_def cls_elements_Inr_iff
        items_of_audit)
qed

lemma network_total:
  "(\<exists>v. extractNetworkData r = Inr v) \<longleftrightarrow>
   readable r [(audit_items ''network-requests'', present), (audit_items ''resource-summary'', present)]"
  by (simp add: extractNetworkData_def bindE_ex audits_of_iff network_from_def readable_def
      map_items_Inr_iff[where ok = present] network_request_def resource_summary_item_def
      from_item_Inr_iff items_of_audit)

lemma signals_of_Inr_iff:
  "(\<exists>v. signals_of item = Inr v) \<longleftrightarrow>
   (present (oget (jprop item ''subItems'') ''items'')
      \<longrightarrow> array_of present (oget (jprop item ''subItems'') ''items''))"
proof -
  have s: "(\<exists>y. signal_of x = Inr y) \<longleftrightarrow> present x" for x
    by (simp add: signal_of_def bindE_ex get_Inr_iff)
  show ?thesis
    using js_map_Inr_iff[of "oget (jprop item ''subItems'') ''items''" signal_of]
      array_of_cong[of "\<lambda>x. \<exists>y. signal_of x = Inr y" present, OF s]
    by (auto simp: signals_of_def Let_def bindE_ex present_def)
qed

lemma legacy_item_Inr_iff: "(\<exists>y. legacy_item item = Inr y) \<longleftrightarrow> legacy_entry item"
  using signals_of_Inr_iff[of item]
  by (auto simp: legacy_item_def bindE_ex get_Inr_iff legacy_entry_def path_get_def oget_present)

lemma javascript_total:
  "(\<exists>v. extractJavaScriptData r = Inr v) \<longleftrightarrow>
   readable r
     [(audit_items ''bootup-time'', present), (audit_items ''mainthread-work-breakdown'', present),
      (audit_items ''unused-javascript'', present), (audit_items ''duplicated-javascript'', present),
      (audit_items ''legacy-javascript'', legacy_entry)]"
  by (simp add: extractJavaScriptData_def bindE_ex audits_of_iff javascript_from_def readable_def
      map_items_Inr_iff[where ok = present] map_items_Inr_iff[where ok = legacy_entry]
      bootup_item_def main_thread_item_def unused_item_def duplicated_item_def legacy_item_Inr_iff
      from_item_Inr_iff items_of_audit)

lemma image_with_node_Inr_iff: "(\<exists>y. image_with_node item = Inr y) \<longleftrightarrow> present item"
  by (auto simp: image_with_node_def optional_node_def bindE_ex get_Inr_iff normalizeNode_Inr_iff
      truthy_present)

lemma image_total:
  "(\<exists>v. extractImageOptimizationData r = Inr v) \<longleftrightarrow>
   readable r
     [(audit_items ''uses-responsive-images'', present), (audit_items ''offscreen-images'', present),
      (audit_items ''uses-optimized-images'', present), (audit_items ''modern-image-formats'', present)]"
  by (simp add: extractImageOptimizationData_def bindE_ex audits_of_iff image_from_def readable_def
      map_items_Inr_iff[where ok = present] image_with_node_Inr_iff unoptimized_image_def
      modern_format_image_def from_item_Inr_iff items_of_audit)

lemma render_blocking_total:
  "(\<exists>v. extractRenderBlockingData r = Inr v) \<longleftrightarrow>
   readable r [(audit_items ''render-blocking-resources'', present)]"
  by (simp add: extractRenderBlockingData_def bindE_ex audits_of_iff render_blocking_from_def Let_def
      readable_def map_items_Inr_iff[where ok = present] render_blocking_item_def
      from_item_Inr_iff items_of_audit)

lemma third_party_total:
  "(\<exists>v. extractThirdPartyData rt r = Inr v) \<longleftrightarrow>
   readable r [(audit_items ''third-party-summary'', present), (audit_items ''third-party-facades'', present)]"
  by (simp add: extractThirdPartyData_def bindE_ex audits_of_iff third_party_from_def Let_def
      readable_def map_items_Inr_iff[where ok = present] third_party_item_def facade_item_def
      from_item_Inr_iff items_of_audit)

lemma detailed_metrics_total:
  "(\<exists>v. extractDetailedMetrics r = Inr v) \<longleftrightarrow> readable r []"
  by (simp add: extractDetailedMetrics_def bindE_ex audits_of_iff detailed_metrics_from_def Let_def
      readable_def)

lemma categories_of_iff: "categories_of r = Inr c \<longleftrightarrow> present r \<and> c = categories_obj r"
  by (auto simp: categories_of_def categories_obj_def get_def present_def oget_def)

lemma category_field:
  "cat \<noteq> ''length'' \<Longrightarrow> oget (jprop (categories_obj r) cat) k = path_get r (category_path cat k)"
  by (simp add: categories_obj_def jprop_or_empty path_get_def category_path_def)

lemma key_audits_Inr_iff:
  "(\<exists>v. key_audits rt audits cat = Inr v) \<longleftrightarrow>
   (truthy (oget cat ''auditRefs'') \<longrightarrow> array_of present (oget cat ''auditRefs''))"
proof (cases "truthy (oget cat ''auditRefs'')")
  case False
  then show ?thesis by (simp add: key_audits_def)
next
  case True
  then have j: "jprop cat ''auditRefs'' = oget cat ''auditRefs''"
    by (auto simp: oget_def split: if_splits)
  show ?thesis
  proof (cases "oget cat ''auditRefs''")
    case (JArr xs)
    let ?q = "\<lambda>ref. audit_fails rt (jprop audits (to_str rt (jprop ref ''id'')))"
    show ?thesis
    proof (cases "list_all present xs")
      case all: True
      then have f: "filterE (is_failing_ref rt audits) xs = Inr (filter ?q xs)"
        by (intro filterE_total) (simp add: is_failing_ref_def get_present list_all_iff)
      have "list_all (\<lambda>x. \<exists>y. key_audit rt audits x = Inr y) (filter ?q xs)"
        using all
        by (auto simp: list_all_iff key_audit_def get_present bindE_ex Let_def audit_fails_def
            truthy_present)
      then obtain ys where "mapE (key_audit rt audits) (filter ?q xs) = Inr ys"
        using mapE_Inr_iff[of "key_audit rt audits" "filter ?q xs"] by blast
      with JArr True all f j show ?thesis
        by (simp add: key_audits_def)
    next
      case none: False
      then have "\<not> list_all (\<lambda>x. \<exists>b. is_failing_ref rt audits x = Inr b) xs"
        by (auto simp: list_all_iff is_failing_ref_def bindE_ex get_Inr_iff)
      then obtain e where "filterE (is_failing_ref rt audits) xs = Inl e"
        using filterE_Inr_iff[of "is_failing_ref rt audits" xs]
        by (cases "filterE (is_failing_ref rt audits) xs") auto
      with JArr True none j show ?thesis
        by (simp add: key_audits_def)
    qed
  qed (use True j in \<open>auto simp: key_audits_def\<close>)
qed

lemma other_categories_total:
  "(\<exists>v. extractOtherCategories rt r = Inr v) \<longleftrightarrow>
   readable r
     [(category_path ''accessibility'' ''auditRefs'', present), (category_path ''seo'' ''auditRefs'', present),
      (category_path ''best-practices'' ''auditRefs'', present), (category_path ''pwa'' ''auditRefs'', present)]"
  by (simp add: extractOtherCategories_def bindE_ex audits_of_iff categories_of_iff
      other_categories_from_def Let_def readable_def key_audits_Inr_iff category_field)

lemma extractors_listed: "map fst (iterated_lists rt) = extractors rt"
  by (simp add: iterated_lists_def extractors_def)

lemma extraction_domain:
  "list_all (\<lambda>(f, iterated). (\<exists>v. f r = Inr v) \<longleftrightarrow> readable r iterated) (iterated_lists rt)"
  unfolding iterated_lists_def
  using visual_total[of r] element_total[of r] network_total[of r] javascript_total[of r]
    image_total[of r] render_blocking_total[of r] third_party_total[of rt r]
    other_categories_total[of rt r] detailed_metrics_total[of r]
  by simp

lemma oget_obj: "oget (JObj kvs) k = jprop (JObj kvs) k"
  by (simp add: oget_def)

lemma path_get_Nil: "path_get v [] = v"
  by (simp add: path_get_def)

lemma path_get_Cons: "path_get v (k # ks) = path_get (oget v k) ks"
  by (simp add: path_get_def)

lemma js_or_undef: "js_or JUndef b = b"
  by (simp add: js_or_def)

lemma jprop_audit:
  "audit \<noteq> ''length'' \<Longrightarrow> jprop (audits_obj r) audit = path_get r (audit_path audit [])"
  by (simp add: audits_obj_def jprop_or_empty path_get_def audit_path_def)

lemma audit_field:
  "audit \<noteq> ''length'' \<Longrightarrow>
   foldl oget (jprop (audits_obj r) audit) ks = path_get r (audit_path audit ks)"
  by (simp add: audits_obj_def jprop_or_empty path_get_def audit_path_def)

lemma items_row:
  assumes "map_items (jprop (audits_obj r) audit) f d = Inr x" and "audit \<noteq> ''length''"
  shows "path_get r (audit_items audit) = JUndef \<longrightarrow> x = d"
  using assms by (auto simp: map_items_def items_of_audit)

lemma defaulted_Cons:
  "defaulted r v ((out, sources, dflt) # table) \<longleftrightarrow>
   (list_all (\<lambda>path. path_get r path = JUndef) sources \<longrightarrow> path_get v out = dflt) \<and> defaulted r v table"
  by (simp add: defaulted_def)

lemma defaulted_Nil: "defaulted r v []"
  by (simp add: defaulted_def)

lemma path_get_field: "path_get (JObj kvs) [k] = jprop (JObj kvs) k"
  by (simp add: path_get_def oget_def)

lemmas row_simps = defaulted_Cons defaulted_Nil items_part_def path_get_field

lemma visual_defaults:
  assumes "extractVisualData r = Inr v"
  shows "defaulted r v visual_parts"
proof -
  let ?a = "audits_obj r"
  from assms obtain x where m: "map_items (jprop ?a ''screenshot-thumbnails'') filmstrip_frame (JArr []) = Inr x"
    and v: "v = JObj [(''finalScreenshot'', final_screenshot (jprop ?a ''final-screenshot'')),
                      (''filmstrip'', x),
                      (''fullPageScreenshot'', full_page_screenshot (jprop ?a ''full-page-screenshot''))]"
    by (auto simp: extractVisualData_def bindE_Inr_iff audits_of_iff visual_from_def)
  have "path_get r (audit_path ''final-screenshot'' [''details'', ''data'']) = JUndef \<longrightarrow>
        final_screenshot (jprop ?a ''final-screenshot'') = JNull"
    by (simp add: final_screenshot_def audit_field[of _ _ "[''details'', ''data'']", simplified])
  moreover have "path_get r (audit_path ''full-page-screenshot'' [''details'', ''screenshot'']) = JUndef \<longrightarrow>
        full_page_screenshot (jprop ?a ''full-page-screenshot'') = JNull"
    by (simp add: full_page_screenshot_def audit_field[of _ _ "[''details'', ''screenshot'']", simplified])
  ultimately show ?thesis
    unfolding v visual_parts_def using items_row[OF m]
    by (simp add: row_simps)
qed

lemma missing_first_node:
  assumes "first_node_element (jprop (audits_obj r) audit) = Inr x" and "audit \<noteq> ''length''"
  shows "path_get r (audit_path audit [''details'', ''items'', ''0'', ''node'']) = JUndef \<longrightarrow> x = JNull"
  using assms
  by (auto simp: first_node_element_def first_item_node_def items_of_def
      audit_field[of _ _ "[''details'', ''items'', ''0'', ''node'']", simplified])

lemma element_defaults:
  assumes "extractElementData r = Inr v"
  shows "defaulted r v element_parts"
proof -
  let ?a = "audits_obj r"
  from assms obtain lcp cls lazy where
    m: "first_node_element (jprop ?a ''largest-contentful-paint-element'') = Inr lcp"
       "cls_elements (jprop ?a ''layout-shift-elements'') = Inr cls"
       "first_node_element (jprop ?a ''lcp-lazy-loaded'') = Inr lazy"
    and v: "v = JObj [(''lcpElement'', lcp), (''clsElements'', cls), (''lazyLoadedLcp'', lazy)]"
    by (auto simp: extractElementData_def bindE_Inr_iff audits_of_iff element_from_def)
  have "path_get r (audit_items ''layout-shift-elements'') = JUndef \<longrightarrow> cls = JArr []"
    using m(2) by (auto simp: cls_elements_def items_of_audit)
  then show ?thesis
    unfolding v element_parts_def using missing_first_node[OF m(1)] missing_first_node[OF m(3)]
    by (simp add: row_simps)
qed

lemma network_defaults:
  assumes "extractNetworkData r = Inr v"
  shows "defaulted r v network_parts"
proof -
  let ?a = "audits_obj r"
  from assms obtain requests summary where
    m: "map_items (jprop ?a ''network-requests'') network_request (JArr []) = Inr requests"
       "map_items (jprop ?a ''resource-summary'') resource_summary_item (JArr []) = Inr summary"
    and v: "v = JObj [(''requests'', requests),
                  (''resourceSummary'', summary),
                  (''totalByteWeight'', total_byte_weight (jprop ?a ''total-byte-weight'')),
                  (''requestCount'',
                     (if truthy (items_of (jprop ?a ''network-requests''))
                      then jprop requests ''length'' else JNum 0)),
                  (''rtt'', numeric_or_null (jprop ?a ''network-rtt'')),
                  (''serverLatency'', numeric_or_null (jprop ?a ''network-server-latency''))]"
    by (auto simp: extractNetworkData_def bindE_Inr_iff audits_of_iff network_from_def)
  note f = audit_field[of _ _ "[''numericValue'']", simplified]
  have "path_get r (audit_path ''total-byte-weight'' [''numericValue'']) = JUndef \<longrightarrow>
        total_byte_weight (jprop ?a ''total-byte-weight'') = JNum 0"
    by (simp add: total_byte_weight_def f)
  moreover have "path_get r (audit_path ''network-rtt'' [''numericValue'']) = JUndef \<longrightarrow>
        numeric_or_null (jprop ?a ''network-rtt'') = JNull"
    by (simp add: numeric_or_null_def f)
  moreover have "path_get r (audit_path ''network-server-latency'' [''numericValue'']) = JUndef \<longrightarrow>
        numeric_or_null (jprop ?a ''network-server-latency'') = JNull"
    by (simp add: numeric_or_null_def f)
  moreover have "path_get r (audit_items ''network-requests'') = JUndef \<longrightarrow>
        (if truthy (items_of (jprop ?a ''network-requests'')) then jprop requests ''length'' else JNum 0) = JNum 0"
    by (simp add: items_of_audit)
  ultimately show ?thesis
    unfolding v network_parts_def using items_row[OF m(1)] items_row[OF m(2)]
    by (simp add: row_simps)
qed

lemma javascript_defaults:
  assumes "extractJavaScriptData r = Inr v"
  shows "defaulted r v javascript_parts"
proof -
  let ?a = "audits_obj r"
  from assms obtain bootup mainThread unused duplicated legacy where
    m: "map_items (jprop ?a ''bootup-time'') bootup_item (JArr []) = Inr bootup"
       "map_items (jprop ?a ''mainthread-work-breakdown'') main_thread_item (JArr []) = Inr mainThread"
       "map_items (jprop ?a ''unused-javascript'') unused_item (JArr []) = Inr unused"
       "map_items (jprop ?a ''duplicated-javascript'') duplicated_item (JArr []) = Inr duplicated"
       "map_items (jprop ?a ''legacy-javascript'') legacy_item (JArr []) = Inr legacy"
    and v: "v = JObj [(''bootupTime'', bootup),
                  (''mainThreadWork'', mainThread),
                  (''unusedJavaScript'', unused),
                  (''duplicatedJavaScript'', duplicated),
                  (''legacyJavaScript'', legacy)]"
    by (auto simp: extractJavaScriptData_def bindE_Inr_iff audits_of_iff javascript_from_def)
  show ?thesis
    unfolding v javascript_parts_def
    using items_row[OF m(1)] items_row[OF m(2)] items_row[OF m(3)] items_row[OF m(4)] items_row[OF m(5)]
    by (simp add: row_simps)
qed

lemma image_defaults:
  assumes "extractImageOptimizationData r = Inr v"
  shows "defaulted r v image_parts"
proof -
  let ?a = "audits_obj r"
  from assms obtain responsive offscreen unoptimized modern where
    m: "map_items (jprop ?a ''uses-responsive-images'') image_with_node (JArr []) = Inr responsive"
       "map_items (jprop ?a ''offscreen-images'') image_with_node (JArr []) = Inr offscreen"
       "map_items (jprop ?a ''uses-optimized-images'') unoptimized_image (JArr []) = Inr unoptimized"
       "map_items (jprop ?a ''modern-image-formats'') modern_format_image (JArr []) = Inr modern"
    and v: "v = JObj [(''responsiveImages'', responsive),
                  (''offscreenImages'', offscreen),
                  (''unoptimizedImages'', unoptimized),
                  (''modernFormats'', modern)]"
    by (auto simp: extractImageOptimizationData_def bindE_Inr_iff audits_of_iff image_from_def)
  show ?thesis
    unfolding v image_parts_def
    using items_row[OF m(1)] items_row[OF m(2)] items_row[OF m(3)] items_row[OF m(4)]
    by (simp add: row_simps)
qed

lemma guarded_read:
  "(if truthy (oget (oget a k) i) then f (jprop (jprop a k) j) else d)
   = (if truthy (oget (oget a k) i) then f (oget (oget a k) j) else d)"
  by (auto simp: oget_def)

lemma render_blocking_defaults:
  assumes "extractRenderBlockingData r = Inr v"
  shows "defaulted r v render_blocking_parts"
proof -
  let ?a = "audits_obj r"
  let ?rb = "jprop ?a ''render-blocking-resources''"
  let ?wasted = "if truthy (items_of ?rb)
                 then js_or (jprop (jprop ?rb ''details'') ''overallSavingsMs'') (JNum 0) else JNum 0"
  let ?chains = "if truthy (oget (jprop ?a ''critical-request-chains'') ''details'')
                 then jprop (jprop ?a ''critical-request-chains'') ''details'' else JNull"
  from assms obtain resources where
    m: "map_items ?rb render_blocking_item (JArr []) = Inr resources"
    and v: "v = JObj [(''resources'', resources), (''totalWastedMs'', ?wasted), (''criticalChains'', ?chains)]"
    by (auto simp: extractRenderBlockingData_def bindE_Inr_iff audits_of_iff render_blocking_from_def Let_def)
  have "path_get r (audit_items ''render-blocking-resources'') = JUndef \<longrightarrow> ?wasted = JNum 0"
    by (simp add: items_of_audit)
  moreover have "path_get r (audit_path ''render-blocking-resources'' [''details'', ''overallSavingsMs'']) = JUndef
        \<longrightarrow> ?wasted = JNum 0"
    unfolding items_of_def guarded_read[where f = "\<lambda>x. js_or x (JNum 0)"]
    by (simp add: audit_field[of _ _ "[''details'', ''overallSavingsMs'']", simplified] js_or_undef)
  moreover have "path_get r (audit_path ''critical-request-chains'' [''details'']) = JUndef \<longrightarrow> ?chains = JNull"
    by (simp add: audit_field[of _ _ "[''details'']", simplified])
  ultimately show ?thesis
    unfolding v render_blocking_parts_def using items_row[OF m]
    by (simp add: row_simps)
qed

lemma third_party_defaults:
  assumes "extractThirdPartyData rt r = Inr v"
  shows "defaulted r v third_party_parts"
proof -
  let ?a = "audits_obj r"
  let ?tps = "jprop ?a ''third-party-summary''"
  from assms obtain summary facades where
    m: "map_items ?tps third_party_item (JArr []) = Inr summary"
       "map_items (jprop ?a ''third-party-facades'') facade_item (JArr []) = Inr facades"
    and v: "v = JObj [(''summary'', summary),
                   (''totalBlockingTime'',
                      (if truthy (items_of ?tps) then sum_field rt ''blockingTime'' summary else JNum 0)),
                   (''totalTransferSize'',
                      (if truthy (items_of ?tps) then sum_field rt ''transferSize'' summary else JNum 0)),
                   (''facades'', facades)]"
    by (auto simp: extractThirdPartyData_def bindE_Inr_iff audits_of_iff third_party_from_def Let_def)
  have "path_get r (audit_items ''third-party-summary'') = JUndef \<longrightarrow> \<not> truthy (items_of ?tps)"
    by (simp add: items_of_audit)
  then show ?thesis
    unfolding v third_party_parts_def using items_row[OF m(1)] items_row[OF m(2)]
    by (simp add: row_simps)
qed

lemma path_get_field2: "path_get (JObj kvs) [k, k'] = oget (jprop (JObj kvs) k) k'"
  by (simp add: path_get_def oget_def)

lemma category_rows:
  assumes "key_audits rt audits (jprop (categories_obj r) key) = Inr ka" and "key \<noteq> ''length''"
  shows "path_get r (category_path key ''score'') = JUndef \<longrightarrow>
           oget (category_info (jprop (categories_obj r) key) ka) ''score'' = JNull"
    and "path_get r (category_path key ''auditRefs'') = JUndef \<longrightarrow>
           oget (category_info (jprop (categories_obj r) key) ka) ''keyAudits'' = JArr []"
  using assms
  by (auto simp: category_info_def category_score_def oget_obj category_field js_or_undef key_audits_def)

lemma category_defaults:
  assumes "extractOtherCategories rt r = Inr v"
  shows "defaulted r v category_parts"
proof -
  let ?c = "categories_obj r"
  let ?a = "audits_obj r"
  from assms obtain ka ks kb kp where
    m: "key_audits rt ?a (jprop ?c ''accessibility'') = Inr ka"
       "key_audits rt ?a (jprop ?c ''seo'') = Inr ks"
       "key_audits rt ?a (jprop ?c ''best-practices'') = Inr kb"
       "key_audits rt ?a (jprop ?c ''pwa'') = Inr kp"
    and v: "v = JObj [(''accessibility'', category_info (jprop ?c ''accessibility'') ka),
                      (''seo'', category_info (jprop ?c ''seo'') ks),
                      (''bestPractices'', category_info (jprop ?c ''best-practices'') kb),
                      (''pwa'', category_info (jprop ?c ''pwa'') kp)]"
    by (auto simp: extractOtherCategories_def bindE_Inr_iff audits_of_iff categories_of_iff
        other_categories_from_def Let_def)
  show ?thesis
    unfolding v category_parts_def other_categories_def
    using category_rows[OF m(1)] category_rows[OF m(2)] category_rows[OF m(3)] category_rows[OF m(4)]
    by (simp add: defaulted_Cons defaulted_Nil path_get_field2)
qed

lemma metric_field:
  "field \<noteq> ''length'' \<Longrightarrow> jprop (metrics_obj r) field = path_get r (metrics_item field)"
  by (simp add: metrics_obj_def jprop_or_empty items_of_def metrics_item_def
      audit_field[of _ _ "[''details'', ''items'', ''0'', field]" for field, simplified])

lemma metric_rows:
  assumes "field \<noteq> ''length''" and "audit \<noteq> ''length''"
  shows "path_get r (metrics_item field) = JUndef \<and> path_get r (audit_path audit [''numericValue'']) = JUndef
           \<longrightarrow> metric_or_audit (metrics_obj r) (audits_obj r) field audit = JUndef"
  using assms
  by (simp add: metric_or_audit_def metric_field js_or_undef audit_field[of _ _ "[''numericValue'']", simplified])

lemma metric_defaults:
  assumes "extractDetailedMetrics r = Inr v"
  shows "defaulted r v metric_parts"
proof -
  from assms have v: "v = JObj
        [(''firstContentfulPaint'', metric_or_audit (metrics_obj r) (audits_obj r) ''firstContentfulPaint'' ''first-contentful-paint''),
         (''largestContentfulPaint'', metric_or_audit (metrics_obj r) (audits_obj r) ''largestContentfulPaint'' ''largest-contentful-paint''),
         (''cumulativeLayoutShift'', metric_or_audit (metrics_obj r) (audits_obj r) ''cumulativeLayoutShift'' ''cumulative-layout-shift''),
         (''totalBlockingTime'', metric_or_audit (metrics_obj r) (audits_obj r) ''totalBlockingTime'' ''total-blocking-time''),
         (''maxPotentialFID'', metric_or_audit (metrics_obj r) (audits_obj r) ''maxPotentialFID'' ''max-potential-fid''),
         (''speedIndex'', metric_or_audit (metrics_obj r) (audits_obj r) ''speedIndex'' ''speed-index''),
         (''timeToInteractive'', metric_or_audit (metrics_obj r) (audits_obj r) ''interactive'' ''interactive''),
         (''firstMeaningfulPaint'', jprop (metrics_obj r) ''firstMeaningfulPaint''),
         (''observedFirstContentfulPaint'', jprop (metrics_obj r) ''observedFirstContentfulPaint''),
         (''observedLargestContentfulPaint'', jprop (metrics_obj r) ''observedLargestContentfulPaint''),
         (''observedSpeedIndex'', jprop (metrics_obj r) ''observedSpeedIndex''),
         (''observedDomContentLoaded'', jprop (metrics_obj r) ''observedDomContentLoaded''),
         (''observedLoad'', jprop (metrics_obj r) ''observedLoad''),
         (''observedNavigationStart'', jprop (metrics_obj r) ''observedNavigationStart''),
         (''observedTimeOrigin'', jprop (metrics_obj r) ''observedTimeOrigin''),
         (''observedTraceEnd'', jprop (metrics_obj r) ''observedTraceEnd'')]"
    by (auto simp: extractDetailedMetrics_def bindE_Inr_iff audits_of_iff detailed_metrics_from_def
        Let_def metrics_obj_def)
  show ?thesis
    unfolding v metric_parts_def
    by (simp add: defaulted_Cons defaulted_Nil path_get_field metric_rows metric_field)
qed

lemma extraction_defaults:
  "list_all (\<lambda>(f, table). \<forall>v. f r = Inr v \<longrightarrow> defaulted r v table) (extracted_parts rt)"
  unfolding extracted_parts_def
  using visual_defaults[of r] element_defaults[of r] network_defaults[of r] javascript_defaults[of r]
    image_defaults[of r] render_blocking_defaults[of r] third_party_defaults[of rt r]
    category_defaults[of rt r] metric_defaults[of r]
  by simp

lemma missing_lighthouse:
  assumes "present response"
    and "\<not> truthy (path_get response [''lighthouseResult'', ''audits''])"
    and "\<not> truthy (path_get response [''lighthouseResult'', ''categories''])"
  shows "audits_of response = Inr (JObj [])" and "categories_of response = Inr (JObj [])"
  using assms
  by (simp_all add: audits_of_iff categories_of_iff audits_obj_def categories_obj_def js_or_def path_get_def)

text \<open>
  Claim C4, as stated: every extraction function returns for every input.  The accessors
  tolerate what is missing, not what is there in another shape: an \<open>items\<close> list
  with a \<open>null\<close> entry makes the filmstrip extraction raise.
\<close>

theorem extraction_raises_counterexample:
  "extractVisualData null_item_response
     = Inl (cannot_read ''null'' ''timing'')"
  by (simp add: extractVisualData_def audits_of_def null_item_response_def get_def oget_def js_or_def
      visual_from_def map_items_def items_of_def filmstrip_frame_def from_item_def)

text \<open>
  Claim C4, amended.  Each of the nine extraction functions returns a value exactly on the
  responses that are readable for it: those that are neither \<open>null\<close> nor
  \<open>undefined\<close> and in which every list it iterates (the items of the audits it maps,
  the references of the four other categories, the sub-items of a legacy-javascript item)
  is, where present, an array without \<open>null\<close> entries.  Whatever is missing at
  whatever depth, a part of the result whose source fields are missing has its default;
  and when the response has neither audits nor categories, the empty object among them,
  the result is the default shape.  The functions are values of their argument: nothing
  is mutated.
\<close>

theorem extraction_total_on_readable:
  "map fst (iterated_lists rt) = extractors rt
   \<and> map fst (extracted_parts rt) = extractors rt
   \<and> list_all (\<lambda>(f, iterated). (\<exists>v. f response = Inr v) \<longleftrightarrow> readable response iterated) (iterated_lists rt)
   \<and> list_all (\<lambda>(f, table). \<forall>v. f response = Inr v \<longrightarrow> defaulted response v table) (extracted_parts rt)
   \<and> (present response
        \<and> \<not> truthy (path_get response [''lighthouseResult'', ''audits''])
        \<and> \<not> truthy (path_get response [''lighthouseResult'', ''categories'']) \<longrightarrow>
      map (\<lambda>f. f response) (extractors rt) = map Inr default_shapes)"
  using extraction_domain[of response rt] extraction_defaults[of response rt]
    extractors_default[of response rt] missing_lighthouse[of response]
  by (simp add: iterated_lists_def extracted_parts_def extractors_def)

theorem extraction_total_on_readable_witness:
  "(\<exists>v. extractNetworkData partial_response = Inr v
        \<and> path_get v [''resourceSummary''] = JArr [] \<and> path_get v [''totalByteWeight''] = JNum 0
        \<and> path_get v [''rtt''] = JNull \<and> path_get v [''serverLatency''] = JNull)
   \<and> \<not> (\<exists>v. extractVisualData null_item_response = Inr v)
   \<and> (\<exists>v. extractOtherCategories example_runtime audited_response = Inr v
        \<and> path_get v [''accessibility'', ''score''] = JNull
        \<and> path_get v [''pwa'', ''keyAudits''] = JArr [])
   \<and> map (\<lambda>f. f (JObj [])) (extractors example_runtime) = map Inr default_shapes"
proof -
  note t = extraction_total_on_readable[of example_runtime]
  let ?lr = "''lighthouseResult''"
  have n: "\<exists>v. extractNetworkData partial_response = Inr v"
  proof -
    from t[of partial_response]
    have "(\<exists>v. extractNetworkData partial_response = Inr v) \<longleftrightarrow>
          readable partial_response
            [(audit_items ''network-requests'', present), (audit_items ''resource-summary'', present)]"
      by (simp add: iterated_lists_def)
    then show ?thesis
      by (simp add: readable_def present_def partial_response_def path_get_def audit_items_def
          audit_path_def oget_def)
  qed
  then obtain vn where vn: "extractNetworkData partial_response = Inr vn" by blast
  from t[of partial_response] vn have "defaulted partial_response vn network_parts"
    by (simp add: extracted_parts_def)
  then have "path_get vn [''resourceSummary''] = JArr [] \<and> path_get vn [''totalByteWeight''] = JNum 0
        \<and> path_get vn [''rtt''] = JNull \<and> path_get vn [''serverLatency''] = JNull"
    by (simp add: defaulted_def network_parts_def items_part_def partial_response_def
        path_get_Cons path_get_Nil audit_items_def audit_path_def oget_def)
  with vn have first: "\<exists>v. extractNetworkData partial_response = Inr v
        \<and> path_get v [''resourceSummary''] = JArr [] \<and> path_get v [''totalByteWeight''] = JNum 0
        \<and> path_get v [''rtt''] = JNull \<and> path_get v [''serverLatency''] = JNull"
    by blast
  have second: "\<not> (\<exists>v. extractVisualData null_item_response = Inr v)"
  proof -
    from t[of null_item_response]
    have "(\<exists>v. extractVisualData null_item_response = Inr v) \<longleftrightarrow>
          readable null_item_response [(audit_items ''screenshot-thumbnails'', present)]"
      by (simp add: iterated_lists_def)
    then show ?thesis
      by (simp add: readable_def present_def null_item_response_def path_get_def audit_items_def
          audit_path_def oget_def)
  qed
  have c: "\<exists>v. extractOtherCategories example_runtime audited_response = Inr v"
  proof -
    from t[of audited_response]
    have "(\<exists>v. extractOtherCategories example_runtime audited_response = Inr v) \<longleftrightarrow>
          readable audited_response
            [(category_path ''accessibility'' ''auditRefs'', present), (category_path ''seo'' ''auditRefs'', present),
             (category_path ''best-practices'' ''auditRefs'', present), (category_path ''pwa'' ''auditRefs'', present)]"
      by (simp add: iterated_lists_def)
    then show ?thesis
      by (simp add: readable_def present_def audited_response_def path_get_def category_path_def oget_def)
  qed
  then obtain vc where vc: "extractOtherCategories example_runtime audited_response = Inr vc" by blast
  from t[of audited_response] vc have "defaulted audited_response vc category_parts"
    by (simp add: extracted_parts_def)
  then have "path_get vc [''accessibility'', ''score''] = JNull \<and> path_get vc [''pwa'', ''keyAudits''] = JArr []"
    by (simp add: defaulted_def category_parts_def other_categories_def audited_response_def
        path_get_Cons path_get_Nil category_path_def oget_def)
  with vc have third: "\<exists>v. extractOtherCategories example_runtime audited_response = Inr v
        \<and> path_get v [''accessibility'', ''score''] = JNull
        \<and> path_get v [''pwa'', ''keyAudits''] = JArr []"
    by blast
  from t[of "JObj []"]
  have fourth: "map (\<lambda>f. f (JObj [])) (extractors example_runtime) = map Inr default_shapes"
    by (simp add: present_def path_get_def oget_def)
  from first second third fourth show ?thesis by blast
qed

end
